theory Spec2Isabelle
  imports Main
begin

section \<open>Python values\<close>

text \<open>
  A Python \<open>str\<close> is a sequence of Unicode code points: slicing and \<open>len\<close> count
  code points, so a string is a list of code points here. \<open>py\<close> embeds an ASCII
  literal; the pictographs of the source are named constants.
\<close>

type_synonym pystr = "nat list"

definition py :: "string \<Rightarrow> pystr" where
  "py s = map of_char s"

definition cross_mark :: pystr where
  "cross_mark = [10060]"

definition check_mark :: pystr where
  "check_mark = [9989]"

text \<open>\<open>str(n)\<close> of a non-negative Python \<open>int\<close>: its decimal digits.\<close>

function str_nat :: "nat \<Rightarrow> pystr" where
  "str_nat n = (if n < 10 then [48 + n] else str_nat (n div 10) @ [48 + n mod 10])"
  by pat_completeness auto
termination
  by (relation "measure id") auto

declare str_nat.simps [simp del]

text \<open>\<open>sep.join(xs)\<close> for a list of strings.\<close>

fun join :: "pystr \<Rightarrow> pystr list \<Rightarrow> pystr" where
  "join sep [] = []"
| "join sep [x] = x"
| "join sep (x # y # ys) = x @ sep @ join sep (y # ys)"

text \<open>\<open>k in s\<close> for two strings: \<open>k\<close> occurs in \<open>s\<close> as a substring.\<close>

fun substring :: "pystr \<Rightarrow> pystr \<Rightarrow> bool" where
  "substring k [] = (k = [])"
| "substring k (c # cs) = (take (length k) (c # cs) = k \<or> substring k cs)"

text \<open>
  What \<open>json.loads\<close> returns: \<open>None\<close>, \<open>bool\<close>, \<open>int\<close>, \<open>str\<close>, \<open>list\<close> and
  \<open>dict\<close> (floats are left out). A \<open>dict\<close> is an association list whose first
  entry for a key is the one the dictionary holds.
\<close>

datatype json =
    JNull
  | JBool bool
  | JInt int
  | JStr pystr
  | JList "json list"
  | JObj "(pystr \<times> json) list"

type_synonym pydict = "(pystr \<times> json) list"

text \<open>
  Exceptions, all instances of Python's \<open>Exception\<close>. \<open>RuntimeError\<close> is raised by the
  source with its text, \<open>LibraryError\<close> by a library (the MCP client, the language model
  client, \<open>json.loads\<close>) with the text of \<open>str(e)\<close>; the others are raised by the
  interpreter. \<open>KeyboardInterrupt\<close> is not an \<open>Exception\<close> and is modelled only in the
  interactive loops, which name it.
\<close>

datatype exn =
    RuntimeError pystr
  | LibraryError pystr
  | TypeError
  | AttributeError
  | KeyError pystr
  | IndexError
  | ValidationError pystr
  | GraphRecursionError

text \<open>Truthiness, as \<open>if v:\<close> and \<open>not v\<close> test it.\<close>

fun truthy :: "json \<Rightarrow> bool" where
  "truthy JNull = False"
| "truthy (JBool b) = b"
| "truthy (JInt n) = (n \<noteq> 0)"
| "truthy (JStr s) = (s \<noteq> [])"
| "truthy (JList xs) = (xs \<noteq> [])"
| "truthy (JObj d) = (d \<noteq> [])"

text \<open>\<open>k in v\<close> for a string \<open>k\<close>: key of a dict, element of a list, substring of a string.\<close>

fun py_in :: "pystr \<Rightarrow> json \<Rightarrow> exn + bool" where
  "py_in k (JObj d) = Inr (k \<in> fst ` set d)"
| "py_in k (JList xs) = Inr (JStr k \<in> set xs)"
| "py_in k (JStr s) = Inr (substring k s)"
| "py_in k _ = Inl TypeError"

text \<open>\<open>v.get(k, default)\<close>: only a dict has the method.\<close>

fun py_get :: "json \<Rightarrow> pystr \<Rightarrow> json \<Rightarrow> exn + json" where
  "py_get (JObj d) k dflt = Inr (case map_of d k of None \<Rightarrow> dflt | Some x \<Rightarrow> x)"
| "py_get _ k dflt = Inl AttributeError"

text \<open>\<open>v[k]\<close> for a string \<open>k\<close>.\<close>

fun py_item :: "json \<Rightarrow> pystr \<Rightarrow> exn + json" where
  "py_item (JObj d) k = (case map_of d k of None \<Rightarrow> Inl (KeyError k) | Some x \<Rightarrow> Inr x)"
| "py_item _ k = Inl TypeError"

text \<open>Sequencing of steps that may raise.\<close>

definition seq :: "exn + 'a \<Rightarrow> ('a \<Rightarrow> exn + 'b) \<Rightarrow> exn + 'b" where
  "seq x f = (case x of Inl e \<Rightarrow> Inl e | Inr v \<Rightarrow> f v)"

section \<open>The outside world\<close>

datatype agent_id = Master | Todo | Gmail

record tool_call =
  name :: pystr
  args :: pydict
  call_id :: pystr

datatype message =
    HumanMessage pystr
  | AIMessage pystr "tool_call list"
  | ToolMessage pystr pystr pystr
  | SystemMessage pystr

text \<open>A content item of an MCP reply; only a text item has the attribute \<open>text\<close>.\<close>

datatype mcp_content = TextContent pystr | OtherContent

text \<open>
  Every interaction with a collaborator is logged: a call of an agent's language model
  with the messages it was given, an attempt to open an agent's MCP connection, a tool
  call sent over an agent's MCP connection.
\<close>

datatype event =
    Invoke agent_id "message list"
  | Connect agent_id
  | CallTool agent_id pystr pydict

type_synonym world = "event list"

text \<open>
  The collaborators are outside the repository. Each is a function of the log so far
  and of its input, so that any behaviour over time can be chosen:
  \<^item> \<open>ainvoke_llm\<close>: \<open>llm_with_tools.ainvoke\<close>, returning the text and the tool calls of
    the reply, or raising;
  \<^item> \<open>aenter\<close>: \<open>Client(...).__aenter__()\<close>, \<open>None\<close> when the connection opens;
  \<^item> \<open>call_tool\<close>: \<open>mcp_client.call_tool\<close>, returning the content items of the reply;
  \<^item> \<open>loads\<close>: \<open>json.loads\<close>;
  \<^item> \<open>repr\<close>: \<open>str(v)\<close> of a list or a dict;
  \<^item> \<open>builtin_str\<close>: \<open>str(e)\<close> of an exception the interpreter raised;
  \<^item> \<open>str_lower\<close>: \<open>str.lower\<close>;
  \<^item> \<open>system_prompt\<close>: the prompt text of an agent (src/prompts);
  \<^item> \<open>recursion_limit\<close>: the number of node executions LangGraph allows one run of a
    graph before it raises \<open>GraphRecursionError\<close>;
  \<^item> \<open>invalid_tool\<close>: the text LangGraph's \<open>ToolNode\<close> answers to a tool name it does
    not know;
  \<^item> \<open>handle_tool_error\<close>: what \<open>ToolNode\<close> does with an exception of a tool: the text
    it puts into the tool message, or \<open>None\<close> when it raises the exception again.
\<close>

record env =
  ainvoke_llm :: "agent_id \<Rightarrow> world \<Rightarrow> message list \<Rightarrow> exn + (pystr \<times> tool_call list)"
  aenter :: "agent_id \<Rightarrow> world \<Rightarrow> exn option"
  call_tool :: "agent_id \<Rightarrow> world \<Rightarrow> pystr \<Rightarrow> pydict \<Rightarrow> exn + mcp_content list"
  loads :: "pystr \<Rightarrow> exn + json"
  repr :: "json \<Rightarrow> pystr"
  builtin_str :: "exn \<Rightarrow> pystr"
  str_lower :: "pystr \<Rightarrow> pystr"
  system_prompt :: "agent_id \<Rightarrow> pystr"
  recursion_limit :: nat
  invalid_tool :: "pystr \<Rightarrow> pystr"
  handle_tool_error :: "exn \<Rightarrow> pystr option"

fun str_exn :: "env \<Rightarrow> exn \<Rightarrow> pystr" where
  "str_exn env (RuntimeError m) = m"
| "str_exn env (LibraryError m) = m"
| "str_exn env e = builtin_str env e"

definition str_int :: "int \<Rightarrow> pystr" where
  "str_int n = (if n < 0 then py ''-'' @ str_nat (nat (- n)) else str_nat (nat n))"

text \<open>\<open>f"{v}"\<close>: a string is inserted as it is; lists and dicts are left to \<open>repr\<close>.\<close>

fun fmt :: "env \<Rightarrow> json \<Rightarrow> pystr" where
  "fmt env (JStr s) = s"
| "fmt env JNull = py ''None''"
| "fmt env (JBool b) = (if b then py ''True'' else py ''False'')"
| "fmt env (JInt n) = str_int n"
| "fmt env v = repr env v"

section \<open>The tool invoker of the Todo and Gmail agents\<close>

text \<open>
  The fields of a \<open>TodoMCPAgent\<close> or \<open>GmailMCPAgent\<close> object that change: \<open>connected\<close>,
  whether \<open>mcp_client\<close> holds a client, whether \<open>graph\<close> has been compiled, and the
  attribute \<open>_current_state\<close> that the master agent sets on the object (the address of
  a conversation state, \<open>None\<close> while the attribute is absent). The two classes have
  the same methods; they differ in the texts of their messages, chosen by the agent's
  identity.
\<close>

record mcp_agent =
  connected :: bool
  mcp_client :: bool
  graph :: bool
  current_state :: "nat option"

definition connect_failed :: "agent_id \<Rightarrow> pystr" where
  "connect_failed aid =
     (if aid = Gmail then py ''Failed to initialize Gmail MCP server: ''
      else py ''Failed to initialize MCP server: '')"

text \<open>\<open>connect_mcp\<close> (todo.py 79-96, gmail_agent.py 82-97).\<close>

definition connect_mcp ::
  "env \<Rightarrow> agent_id \<Rightarrow> mcp_agent \<Rightarrow> world \<Rightarrow> (exn + unit) \<times> mcp_agent \<times> world" where
  "connect_mcp env aid a w =
     (if \<not> connected a then
        (case aenter env aid w of
           None \<Rightarrow> (Inr (), a\<lparr>mcp_client := True, connected := True\<rparr>, w @ [Connect aid])
         | Some e \<Rightarrow>
             (Inl (RuntimeError (connect_failed aid @ str_exn env e)),
              a\<lparr>mcp_client := True\<rparr>, w @ [Connect aid]))
      else (Inr (), a, w))"

definition no_result :: json where
  "no_result = JObj [(py ''error'', JStr (py ''No result received from MCP server''))]"

text \<open>
  What \<open>call_mcp_tool\<close> does with the reply (todo.py 113-122, gmail_agent.py 114-123).
  The \<open>print\<close> evaluates \<open>'error' not in parsed_result\<close>, which raises on a value that
  is no container.
\<close>

definition unwrap_result :: "env \<Rightarrow> mcp_content list \<Rightarrow> exn + json" where
  "unwrap_result env result =
     (case result of
        [] \<Rightarrow> Inr no_result
      | TextContent text_content # _ \<Rightarrow>
          seq (loads env text_content) (\<lambda>parsed_result.
          seq (py_in (py ''error'') parsed_result) (\<lambda>_. Inr parsed_result))
      | OtherContent # _ \<Rightarrow> Inl AttributeError)"

text \<open>The \<open>try\<close> block of \<open>call_mcp_tool\<close>; \<open>params or {}\<close> is the argument mapping sent.\<close>

definition call_mcp_tool_body ::
  "env \<Rightarrow> agent_id \<Rightarrow> pystr \<Rightarrow> pydict option \<Rightarrow> mcp_agent \<Rightarrow> world
     \<Rightarrow> (exn + json) \<times> mcp_agent \<times> world" where
  "call_mcp_tool_body env aid tool_name params a w =
     (case (if \<not> connected a then connect_mcp env aid a w else (Inr (), a, w)) of
        (Inl e, a1, w1) \<Rightarrow> (Inl e, a1, w1)
      | (Inr _, a1, w1) \<Rightarrow>
          if \<not> mcp_client a1 then (Inl AttributeError, a1, w1)
          else
            (let arguments = (case params of None \<Rightarrow> [] | Some p \<Rightarrow> p) in
             (seq (call_tool env aid w1 tool_name arguments) (unwrap_result env),
              a1, w1 @ [CallTool aid tool_name arguments])))"

text \<open>\<open>call_mcp_tool\<close> with its handler \<open>except Exception\<close>.\<close>

definition call_mcp_tool ::
  "env \<Rightarrow> agent_id \<Rightarrow> pystr \<Rightarrow> pydict option \<Rightarrow> mcp_agent \<Rightarrow> world
     \<Rightarrow> json \<times> mcp_agent \<times> world" where
  "call_mcp_tool env aid tool_name params a w =
     (case call_mcp_tool_body env aid tool_name params a w of
        (Inr parsed_result, a1, w1) \<Rightarrow> (parsed_result, a1, w1)
      | (Inl e, a1, w1) \<Rightarrow>
          (JObj [(py ''error'',
                  JStr (py ''Error calling MCP tool '' @ tool_name @ py '': '' @ str_exn env e))],
           a1, w1))"

section \<open>More of Python, for the renderers\<close>

definition nl :: pystr where
  "nl = [10]"

definition bullet :: pystr where
  "bullet = [8226]"

definition hourglass :: pystr where
  "hourglass = [9203]"

definition paperclip :: pystr where
  "paperclip = [128206]"

definition memo :: pystr where
  "memo = [128221]"

definition e_mail :: pystr where
  "e_mail = [128231]"

definition magnifier :: pystr where
  "magnifier = [128269]"

definition open_folder :: pystr where
  "open_folder = [128194]"

text \<open>The keys of a dict, each once, in the order of the dict.\<close>

definition keys :: "pydict \<Rightarrow> pystr list" where
  "keys d = remdups (map fst d)"

text \<open>\<open>len(v)\<close>.\<close>

fun py_len :: "json \<Rightarrow> exn + nat" where
  "py_len (JStr s) = Inr (length s)"
| "py_len (JList xs) = Inr (length xs)"
| "py_len (JObj d) = Inr (length (keys d))"
| "py_len _ = Inl TypeError"

text \<open>The elements a \<open>for\<close> loop over \<open>v\<close> visits.\<close>

fun py_iter :: "json \<Rightarrow> exn + json list" where
  "py_iter (JList xs) = Inr xs"
| "py_iter (JStr s) = Inr (map (\<lambda>c. JStr [c]) s)"
| "py_iter (JObj d) = Inr (map JStr (keys d))"
| "py_iter _ = Inl TypeError"

text \<open>\<open>v[:n]\<close>: strings and lists can be sliced.\<close>

fun slice_to :: "nat \<Rightarrow> json \<Rightarrow> exn + json" where
  "slice_to n (JStr s) = Inr (JStr (take n s))"
| "slice_to n (JList xs) = Inr (JList (take n xs))"
| "slice_to n _ = Inl TypeError"

text \<open>The strings of a list of values, when all of them are strings.\<close>

fun strs :: "json list \<Rightarrow> exn + pystr list" where
  "strs [] = Inr []"
| "strs (JStr s # vs) = seq (strs vs) (\<lambda>ss. Inr (s # ss))"
| "strs (_ # vs) = Inl TypeError"

text \<open>\<open>sep.join(v)\<close>: every element visited must be a string.\<close>

definition py_join :: "pystr \<Rightarrow> json \<Rightarrow> exn + pystr" where
  "py_join sep v = seq (py_iter v) (\<lambda>xs. seq (strs xs) (\<lambda>ss. Inr (join sep ss)))"

text \<open>A loop that adds one piece of text per element, numbered from \<open>i\<close>.\<close>

fun render_each :: "(nat \<Rightarrow> json \<Rightarrow> exn + pystr) \<Rightarrow> nat \<Rightarrow> json list \<Rightarrow> exn + pystr" where
  "render_each f i [] = Inr []"
| "render_each f i (x # xs) =
     seq (f i x) (\<lambda>s. seq (render_each f (Suc i) xs) (\<lambda>rest. Inr (s @ rest)))"

text \<open>The opening of every adapter: \<open>if "error" in result: return f"<label>{result['error']}"\<close>.\<close>

definition on_error :: "env \<Rightarrow> pystr \<Rightarrow> json \<Rightarrow> (exn + pystr) \<Rightarrow> exn + pystr" where
  "on_error env label result otherwise =
     seq (py_in (py ''error'') result) (\<lambda>b.
       if b then seq (py_item result (py ''error'')) (\<lambda>e. Inr (label @ fmt env e))
       else otherwise)"

text \<open>\<open>if result.get("success"):\<close>\<close>

definition success :: "json \<Rightarrow> exn + bool" where
  "success result = seq (py_get result (py ''success'') JNull) (\<lambda>v. Inr (truthy v))"

section \<open>The Gmail adapters (gmail_agent.py, setup_tools)\<close>

type_synonym 'o tool_result = "(exn + pystr) \<times> 'o \<times> world"

definition for_query :: "pystr \<Rightarrow> pystr" where
  "for_query query = (if query \<noteq> [] then py '' for query: '' @ query else [])"

definition render_message :: "env \<Rightarrow> nat \<Rightarrow> json \<Rightarrow> exn + pystr" where
  "render_message env i msg =
     seq (py_get msg (py ''from'') (JStr (py ''Unknown''))) (\<lambda>v.
     seq (slice_to 30 v) (\<lambda>from_addr.
     seq (py_get msg (py ''subject'') (JStr (py ''No Subject''))) (\<lambda>v.
     seq (slice_to 50 v) (\<lambda>subject.
     seq (py_get msg (py ''date'') (JStr (py ''Unknown''))) (\<lambda>v.
     seq (slice_to 20 v) (\<lambda>date.
     seq (py_get msg (py ''labelIds'') (JList [])) (\<lambda>v.
     seq (slice_to 3 v) (\<lambda>v.
     seq (py_join (py '', '') v) (\<lambda>labels.
     seq (py_get msg (py ''id'') (JStr (py ''Unknown''))) (\<lambda>ident.
     Inr (str_nat i @ py ''. From: '' @ fmt env from_addr @ nl
          @ py ''   Subject: '' @ fmt env subject @ nl
          @ py ''   Date: '' @ fmt env date @ nl
          @ py ''   Labels: '' @ labels @ nl
          @ py ''   ID: '' @ fmt env ident @ nl @ nl)))))))))))"

definition list_messages :: "env \<Rightarrow> pystr \<Rightarrow> int \<Rightarrow> mcp_agent \<Rightarrow> world \<Rightarrow> mcp_agent tool_result" where
  "list_messages env query max_results a w =
     (case call_mcp_tool env Gmail (py ''list_messages'')
             (Some [(py ''query'', JStr query), (py ''max_results'', JInt max_results)]) a w of
        (result, a1, w1) \<Rightarrow>
          (on_error env (py ''Error listing messages: '') result
             (seq (py_get result (py ''messages'') (JList [])) (\<lambda>messages.
              if \<not> truthy messages then Inr (py ''No messages found'' @ for_query query @ py ''.'')
              else
                seq (py_len messages) (\<lambda>n.
                seq (py_iter messages) (\<lambda>ms.
                seq (render_each (render_message env) 1 ms) (\<lambda>entries.
                Inr (py ''Found '' @ str_nat n @ py '' messages'' @ for_query query
                     @ py '':'' @ nl @ nl @ entries)))))),
           a1, w1))"

definition js :: "string \<Rightarrow> json" where
  "js s = JStr (py s)"

definition render_attachment :: "env \<Rightarrow> nat \<Rightarrow> json \<Rightarrow> exn + pystr" where
  "render_attachment env i att =
     seq (py_get att (py ''filename'') (js ''Unknown'')) (\<lambda>filename.
     seq (py_get att (py ''mimeType'') (js ''Unknown type'')) (\<lambda>mime.
     Inr (py ''  '' @ bullet @ py '' '' @ fmt env filename @ py '' ('' @ fmt env mime @ py '')'' @ nl)))"

definition get_message :: "env \<Rightarrow> pystr \<Rightarrow> mcp_agent \<Rightarrow> world \<Rightarrow> mcp_agent tool_result" where
  "get_message env message_id a w =
     (case call_mcp_tool env Gmail (py ''get_message'') (Some [(py ''message_id'', JStr message_id)]) a w of
        (result, a1, w1) \<Rightarrow>
          (on_error env (py ''Error getting message: '') result
             (seq (py_get result (py ''message'') (JObj [])) (\<lambda>message.
              if \<not> truthy message then Inr (py ''Message not found.'')
              else
                seq (py_get message (py ''from'') (js ''Unknown'')) (\<lambda>sender.
                seq (py_get message (py ''to'') (js ''Unknown'')) (\<lambda>recipient.
                seq (py_get message (py ''subject'') (js ''No Subject'')) (\<lambda>subject.
                seq (py_get message (py ''date'') (js ''Unknown'')) (\<lambda>date.
                seq (py_get message (py ''labelIds'') (JList [])) (\<lambda>v.
                seq (py_join (py '', '') v) (\<lambda>labels.
                seq (py_get message (py ''cc'') JNull) (\<lambda>cc.
                seq (if truthy cc
                     then seq (py_item message (py ''cc'')) (\<lambda>c. Inr (py ''CC: '' @ fmt env c @ nl))
                     else Inr []) (\<lambda>cc_line.
                seq (py_get message (py ''body'') (JStr [])) (\<lambda>body.
                seq (if truthy body
                     then seq (slice_to 1000 body) (\<lambda>b.
                          seq (py_len body) (\<lambda>n.
                          Inr (nl @ memo @ py '' Body:'' @ nl @ fmt env b
                               @ (if n > 1000 then py ''... (truncated)'' else []))))
                     else Inr []) (\<lambda>body_part.
                seq (py_get message (py ''attachments'') (JList [])) (\<lambda>attachments.
                seq (if truthy attachments
                     then seq (py_len attachments) (\<lambda>n.
                          seq (py_iter attachments) (\<lambda>atts.
                          seq (render_each (render_attachment env) 1 atts) (\<lambda>lines.
                          Inr (nl @ nl @ paperclip @ py '' Attachments ('' @ str_nat n @ py ''):'' @ nl
                               @ lines))))
                     else Inr []) (\<lambda>attachment_part.
                Inr (e_mail @ py '' Message Details:'' @ nl
                     @ py ''From: '' @ fmt env sender @ nl
                     @ py ''To: '' @ fmt env recipient @ nl
                     @ py ''Subject: '' @ fmt env subject @ nl
                     @ py ''Date: '' @ fmt env date @ nl
                     @ py ''Labels: '' @ labels @ nl
                     @ cc_line @ body_part @ attachment_part))))))))))))))),
           a1, w1))"

definition render_hit :: "env \<Rightarrow> nat \<Rightarrow> json \<Rightarrow> exn + pystr" where
  "render_hit env i msg =
     seq (py_get msg (py ''subject'') (js ''No Subject'')) (\<lambda>subject.
     seq (py_get msg (py ''from'') (js ''Unknown'')) (\<lambda>sender.
     seq (py_get msg (py ''date'') (js ''Unknown'')) (\<lambda>date.
     seq (py_get msg (py ''id'') (js ''Unknown'')) (\<lambda>ident.
     Inr (str_nat i @ py ''. '' @ fmt env subject @ nl
          @ py ''   From: '' @ fmt env sender @ nl
          @ py ''   Date: '' @ fmt env date @ nl
          @ py ''   ID: '' @ fmt env ident @ nl @ nl)))))"

definition search_messages :: "env \<Rightarrow> pystr \<Rightarrow> int \<Rightarrow> mcp_agent \<Rightarrow> world \<Rightarrow> mcp_agent tool_result" where
  "search_messages env query max_results a w =
     (case call_mcp_tool env Gmail (py ''search_messages'')
             (Some [(py ''query'', JStr query), (py ''max_results'', JInt max_results)]) a w of
        (result, a1, w1) \<Rightarrow>
          (on_error env (py ''Error searching messages: '') result
             (seq (py_get result (py ''messages'') (JList [])) (\<lambda>messages.
              if \<not> truthy messages then Inr (py ''No messages found for search query: '' @ query)
              else
                seq (py_len messages) (\<lambda>n.
                seq (py_iter messages) (\<lambda>ms.
                seq (render_each (render_hit env) 1 ms) (\<lambda>entries.
                Inr (magnifier @ py '' Search Results ('' @ str_nat n @ py '' messages) for: '' @ query
                     @ nl @ nl @ entries)))))),
           a1, w1))"

definition send_message ::
  "env \<Rightarrow> pystr \<Rightarrow> pystr \<Rightarrow> pystr \<Rightarrow> pystr \<Rightarrow> pystr \<Rightarrow> mcp_agent \<Rightarrow> world \<Rightarrow> mcp_agent tool_result" where
  "send_message env to subject body cc bcc a w =
     (let params = [(py ''to'', JStr to), (py ''subject'', JStr subject), (py ''body'', JStr body)]
                   @ (if cc \<noteq> [] then [(py ''cc'', JStr cc)] else [])
                   @ (if bcc \<noteq> [] then [(py ''bcc'', JStr bcc)] else [])
      in case call_mcp_tool env Gmail (py ''send_message'') (Some params) a w of
        (result, a1, w1) \<Rightarrow>
          (on_error env (py ''Error sending message: '') result
             (seq (success result) (\<lambda>ok.
              if ok then
                seq (py_get result (py ''messageId'') (js ''Unknown'')) (\<lambda>message_id.
                Inr (check_mark @ py '' Email sent successfully!'' @ nl
                     @ py ''To: '' @ to @ nl
                     @ py ''Subject: '' @ subject @ nl
                     @ py ''Message ID: '' @ fmt env message_id))
              else Inr (py ''Failed to send email.''))),
           a1, w1))"

definition reply_to_message :: "env \<Rightarrow> pystr \<Rightarrow> pystr \<Rightarrow> mcp_agent \<Rightarrow> world \<Rightarrow> mcp_agent tool_result" where
  "reply_to_message env message_id reply_body a w =
     (case call_mcp_tool env Gmail (py ''reply_to_message'')
             (Some [(py ''message_id'', JStr message_id), (py ''reply_body'', JStr reply_body)]) a w of
        (result, a1, w1) \<Rightarrow>
          (on_error env (py ''Error sending reply: '') result
             (seq (success result) (\<lambda>ok.
              if ok then
                seq (py_get result (py ''messageId'') (js ''Unknown'')) (\<lambda>reply_id.
                Inr (check_mark @ py '' Reply sent successfully!'' @ nl
                     @ py ''Original Message ID: '' @ message_id @ nl
                     @ py ''Reply ID: '' @ fmt env reply_id))
              else Inr (py ''Failed to send reply.''))),
           a1, w1))"

definition mark_message_as_read :: "env \<Rightarrow> pystr \<Rightarrow> mcp_agent \<Rightarrow> world \<Rightarrow> mcp_agent tool_result" where
  "mark_message_as_read env message_id a w =
     (case call_mcp_tool env Gmail (py ''mark_message_as_read'')
             (Some [(py ''message_id'', JStr message_id)]) a w of
        (result, a1, w1) \<Rightarrow>
          (on_error env (py ''Error marking message as read: '') result
             (seq (success result) (\<lambda>ok.
              if ok then Inr (check_mark @ py '' Message marked as read (ID: '' @ message_id @ py '')'')
              else Inr (py ''Failed to mark message as read.''))),
           a1, w1))"

definition mark_message_as_unread :: "env \<Rightarrow> pystr \<Rightarrow> mcp_agent \<Rightarrow> world \<Rightarrow> mcp_agent tool_result" where
  "mark_message_as_unread env message_id a w =
     (case call_mcp_tool env Gmail (py ''mark_message_as_unread'')
             (Some [(py ''message_id'', JStr message_id)]) a w of
        (result, a1, w1) \<Rightarrow>
          (on_error env (py ''Error marking message as unread: '') result
             (seq (success result) (\<lambda>ok.
              if ok then Inr (check_mark @ py '' Message marked as unread (ID: '' @ message_id @ py '')'')
              else Inr (py ''Failed to mark message as unread.''))),
           a1, w1))"

definition add_label_to_message :: "env \<Rightarrow> pystr \<Rightarrow> pystr \<Rightarrow> mcp_agent \<Rightarrow> world \<Rightarrow> mcp_agent tool_result" where
  "add_label_to_message env message_id label_id a w =
     (case call_mcp_tool env Gmail (py ''add_label_to_message'')
             (Some [(py ''message_id'', JStr message_id), (py ''label_id'', JStr label_id)]) a w of
        (result, a1, w1) \<Rightarrow>
          (on_error env (py ''Error adding label: '') result
             (seq (success result) (\<lambda>ok.
              if ok then
                seq (py_get result (py ''labelIds'') (JList [])) (\<lambda>v.
                seq (py_join (py '', '') v) (\<lambda>current_labels.
                Inr (check_mark @ py '' Label '' @ [39] @ label_id @ [39]
                     @ py '' added to message (ID: '' @ message_id @ py '')'' @ nl
                     @ py ''Current labels: '' @ current_labels)))
              else Inr (py ''Failed to add label.''))),
           a1, w1))"

definition remove_label_from_message :: "env \<Rightarrow> pystr \<Rightarrow> pystr \<Rightarrow> mcp_agent \<Rightarrow> world \<Rightarrow> mcp_agent tool_result" where
  "remove_label_from_message env message_id label_id a w =
     (case call_mcp_tool env Gmail (py ''remove_label_from_message'')
             (Some [(py ''message_id'', JStr message_id), (py ''label_id'', JStr label_id)]) a w of
        (result, a1, w1) \<Rightarrow>
          (on_error env (py ''Error removing label: '') result
             (seq (success result) (\<lambda>ok.
              if ok then
                seq (py_get result (py ''labelIds'') (JList [])) (\<lambda>v.
                seq (py_join (py '', '') v) (\<lambda>current_labels.
                Inr (check_mark @ py '' Label '' @ [39] @ label_id @ [39]
                     @ py '' removed from message (ID: '' @ message_id @ py '')'' @ nl
                     @ py ''Current labels: '' @ current_labels)))
              else Inr (py ''Failed to remove label.''))),
           a1, w1))"

definition render_label :: "env \<Rightarrow> nat \<Rightarrow> json \<Rightarrow> exn + pystr" where
  "render_label env i label =
     seq (py_get label (py ''name'') (js ''Unknown'')) (\<lambda>label_name.
     seq (py_get label (py ''id'') (js ''Unknown'')) (\<lambda>label_id.
     seq (py_get label (py ''type'') (js ''Unknown'')) (\<lambda>label_type.
     seq (py_get label (py ''messagesTotal'') (JInt 0)) (\<lambda>total.
     seq (py_get label (py ''messagesUnread'') (JInt 0)) (\<lambda>unread.
     Inr (bullet @ py '' '' @ fmt env label_name @ py '' (ID: '' @ fmt env label_id @ py '')'' @ nl
          @ py ''  Type: '' @ fmt env label_type @ py '' | Total: '' @ fmt env total
          @ py '' | Unread: '' @ fmt env unread @ nl @ nl))))))"

definition list_labels :: "env \<Rightarrow> mcp_agent \<Rightarrow> world \<Rightarrow> mcp_agent tool_result" where
  "list_labels env a w =
     (case call_mcp_tool env Gmail (py ''list_labels'') None a w of
        (result, a1, w1) \<Rightarrow>
          (on_error env (py ''Error listing labels: '') result
             (seq (py_get result (py ''labels'') (JList [])) (\<lambda>labels.
              if \<not> truthy labels then Inr (py ''No labels found.'')
              else
                seq (py_len labels) (\<lambda>n.
                seq (py_iter labels) (\<lambda>ls.
                seq (render_each (render_label env) 1 ls) (\<lambda>entries.
                Inr (open_folder @ py '' Available Gmail Labels ('' @ str_nat n @ py ''):'' @ nl @ nl
                     @ entries)))))),
           a1, w1))"

section \<open>The Todo adapters (todo.py, setup_tools)\<close>

definition render_task_list :: "env \<Rightarrow> nat \<Rightarrow> json \<Rightarrow> exn + pystr" where
  "render_task_list env i task_list =
     seq (py_get task_list (py ''isShared'') (JBool False)) (\<lambda>shared.
     seq (py_item task_list (py ''name'')) (\<lambda>list_name.
     seq (py_item task_list (py ''id'')) (\<lambda>ident.
     Inr (str_nat i @ py ''. '' @ fmt env list_name @ py '' (ID: '' @ fmt env ident @ py '')''
          @ (if truthy shared then py '' (Shared)'' else []) @ nl))))"

definition list_task_lists :: "env \<Rightarrow> mcp_agent \<Rightarrow> world \<Rightarrow> mcp_agent tool_result" where
  "list_task_lists env a w =
     (case call_mcp_tool env Todo (py ''list_task_lists'') None a w of
        (result, a1, w1) \<Rightarrow>
          (on_error env (py ''Error: '') result
             (seq (py_get result (py ''taskLists'') (JList [])) (\<lambda>task_lists.
              if \<not> truthy task_lists then Inr (py ''No task lists found.'')
              else
                seq (py_len task_lists) (\<lambda>n.
                seq (py_iter task_lists) (\<lambda>ls.
                seq (render_each (render_task_list env) 1 ls) (\<lambda>entries.
                Inr (py ''Found '' @ str_nat n @ py '' task lists:'' @ nl @ entries)))))),
           a1, w1))"

definition create_task_list :: "env \<Rightarrow> pystr \<Rightarrow> mcp_agent \<Rightarrow> world \<Rightarrow> mcp_agent tool_result" where
  "create_task_list env list_name a w =
     (case call_mcp_tool env Todo (py ''create_task_list'') (Some [(py ''name'', JStr list_name)]) a w of
        (result, a1, w1) \<Rightarrow>
          (on_error env (py ''Error creating task list: '') result
             (seq (success result) (\<lambda>ok.
              if ok then
                seq (py_item result (py ''taskList'')) (\<lambda>task_list.
                seq (py_item task_list (py ''name'')) (\<lambda>n.
                seq (py_item task_list (py ''id'')) (\<lambda>ident.
                Inr (check_mark @ py '' Successfully created task list '' @ [39] @ fmt env n @ [39]
                     @ py '' (ID: '' @ fmt env ident @ py '')''))))
              else Inr (py ''Failed to create task list''))),
           a1, w1))"

definition delete_task_list :: "env \<Rightarrow> pystr \<Rightarrow> mcp_agent \<Rightarrow> world \<Rightarrow> mcp_agent tool_result" where
  "delete_task_list env list_id a w =
     (case call_mcp_tool env Todo (py ''delete_task_list'') (Some [(py ''list_id'', JStr list_id)]) a w of
        (result, a1, w1) \<Rightarrow>
          (on_error env (py ''Error deleting task list: '') result
             (seq (success result) (\<lambda>ok.
              if ok then Inr (check_mark @ py '' Successfully deleted task list (ID: '' @ list_id @ py '')'')
              else Inr (py ''Failed to delete task list''))),
           a1, w1))"

text \<open>\<open>f" (Due: {task['dueDate']})" if task.get("dueDate") else ""\<close>\<close>

definition due_info :: "env \<Rightarrow> json \<Rightarrow> exn + pystr" where
  "due_info env task =
     seq (py_get task (py ''dueDate'') JNull) (\<lambda>d.
       if truthy d
       then seq (py_item task (py ''dueDate'')) (\<lambda>d. Inr (py '' (Due: '' @ fmt env d @ py '')''))
       else Inr [])"

definition render_task :: "env \<Rightarrow> nat \<Rightarrow> json \<Rightarrow> exn + pystr" where
  "render_task env i task =
     seq (py_item task (py ''status'')) (\<lambda>status.
     seq (due_info env task) (\<lambda>due.
     seq (py_get task (py ''description'') JNull) (\<lambda>d.
     seq (if truthy d
          then seq (py_item task (py ''description'')) (\<lambda>d.
               seq (slice_to 50 d) (\<lambda>d. Inr (py '' - '' @ fmt env d @ py ''...'')))
          else Inr []) (\<lambda>description_info.
     seq (py_item task (py ''title'')) (\<lambda>title.
     seq (py_item task (py ''id'')) (\<lambda>ident.
     Inr (str_nat i @ py ''. '' @ (if status = js ''completed'' then check_mark else hourglass)
          @ py '' '' @ fmt env title @ due @ description_info
          @ py '' (ID: '' @ fmt env ident @ py '')'' @ nl)))))))"

definition list_tasks :: "env \<Rightarrow> pystr \<Rightarrow> mcp_agent \<Rightarrow> world \<Rightarrow> mcp_agent tool_result" where
  "list_tasks env list_id a w =
     (case call_mcp_tool env Todo (py ''list_tasks'') (Some [(py ''list_id'', JStr list_id)]) a w of
        (result, a1, w1) \<Rightarrow>
          (on_error env (py ''Error listing tasks: '') result
             (seq (py_get result (py ''tasks'') (JList [])) (\<lambda>tasks.
              if \<not> truthy tasks then Inr (py ''No tasks found in this list (ID: '' @ list_id @ py '')'')
              else
                seq (py_len tasks) (\<lambda>n.
                seq (py_iter tasks) (\<lambda>ts.
                seq (render_each (render_task env) 1 ts) (\<lambda>entries.
                Inr (py ''Found '' @ str_nat n @ py '' tasks:'' @ nl @ entries)))))),
           a1, w1))"

definition create_task ::
  "env \<Rightarrow> pystr \<Rightarrow> pystr \<Rightarrow> pystr \<Rightarrow> pystr \<Rightarrow> mcp_agent \<Rightarrow> world \<Rightarrow> mcp_agent tool_result" where
  "create_task env list_id title description due_date a w =
     (case call_mcp_tool env Todo (py ''create_task'')
             (Some [(py ''list_id'', JStr list_id), (py ''title'', JStr title),
                    (py ''description'', JStr description), (py ''due_date'', JStr due_date)]) a w of
        (result, a1, w1) \<Rightarrow>
          (on_error env (py ''Error creating task: '') result
             (seq (success result) (\<lambda>ok.
              if ok then
                seq (py_item result (py ''task'')) (\<lambda>task.
                seq (due_info env task) (\<lambda>due.
                seq (py_item task (py ''title'')) (\<lambda>t.
                seq (py_item task (py ''id'')) (\<lambda>ident.
                Inr (check_mark @ py '' Successfully created task '' @ [39] @ fmt env t @ [39] @ due
                     @ py '' (ID: '' @ fmt env ident @ py '')'')))))
              else Inr (py ''Failed to create task''))),
           a1, w1))"

text \<open>An optional argument is sent only when it is not \<open>None\<close>.\<close>

definition opt_param :: "string \<Rightarrow> pystr option \<Rightarrow> pydict" where
  "opt_param k v = (case v of None \<Rightarrow> [] | Some s \<Rightarrow> [(py k, JStr s)])"

text \<open>The reply to a task operation: \<open>task = result["task"]\<close>, then its title and id.\<close>

definition task_done :: "env \<Rightarrow> pystr \<Rightarrow> pystr \<Rightarrow> pystr \<Rightarrow> json \<Rightarrow> exn + pystr" where
  "task_done env before after failed result =
     seq (success result) (\<lambda>ok.
       if ok then
         seq (py_item result (py ''task'')) (\<lambda>task.
         seq (py_item task (py ''title'')) (\<lambda>t.
         seq (py_item task (py ''id'')) (\<lambda>ident.
         Inr (check_mark @ before @ [39] @ fmt env t @ [39] @ after
              @ py '' (ID: '' @ fmt env ident @ py '')''))))
       else Inr failed)"

definition update_task ::
  "env \<Rightarrow> pystr \<Rightarrow> pystr \<Rightarrow> pystr option \<Rightarrow> pystr option \<Rightarrow> pystr option \<Rightarrow> pystr option
     \<Rightarrow> mcp_agent \<Rightarrow> world \<Rightarrow> mcp_agent tool_result" where
  "update_task env list_id task_id title description due_date status a w =
     (let params = [(py ''list_id'', JStr list_id), (py ''task_id'', JStr task_id)]
                   @ opt_param ''title'' title @ opt_param ''description'' description
                   @ opt_param ''due_date'' due_date @ opt_param ''status'' status
      in case call_mcp_tool env Todo (py ''update_task'') (Some params) a w of
        (result, a1, w1) \<Rightarrow>
          (on_error env (py ''Error updating task: '') result
             (task_done env (py '' Successfully updated task '') [] (py ''Failed to update task'') result),
           a1, w1))"

definition complete_task :: "env \<Rightarrow> pystr \<Rightarrow> pystr \<Rightarrow> mcp_agent \<Rightarrow> world \<Rightarrow> mcp_agent tool_result" where
  "complete_task env list_id task_id a w =
     (case call_mcp_tool env Todo (py ''complete_task'')
             (Some [(py ''list_id'', JStr list_id), (py ''task_id'', JStr task_id)]) a w of
        (result, a1, w1) \<Rightarrow>
          (on_error env (py ''Error completing task: '') result
             (task_done env (py '' Successfully completed task '') [] (py ''Failed to complete task'') result),
           a1, w1))"

definition uncomplete_task :: "env \<Rightarrow> pystr \<Rightarrow> pystr \<Rightarrow> mcp_agent \<Rightarrow> world \<Rightarrow> mcp_agent tool_result" where
  "uncomplete_task env list_id task_id a w =
     (case call_mcp_tool env Todo (py ''uncomplete_task'')
             (Some [(py ''list_id'', JStr list_id), (py ''task_id'', JStr task_id)]) a w of
        (result, a1, w1) \<Rightarrow>
          (on_error env (py ''Error marking task as not started: '') result
             (task_done env (py '' Successfully marked task '') (py '' as not started'')
                (py ''Failed to mark task as not started'') result),
           a1, w1))"

definition delete_task :: "env \<Rightarrow> pystr \<Rightarrow> pystr \<Rightarrow> mcp_agent \<Rightarrow> world \<Rightarrow> mcp_agent tool_result" where
  "delete_task env list_id task_id a w =
     (case call_mcp_tool env Todo (py ''delete_task'')
             (Some [(py ''list_id'', JStr list_id), (py ''task_id'', JStr task_id)]) a w of
        (result, a1, w1) \<Rightarrow>
          (on_error env (py ''Error deleting task: '') result
             (seq (success result) (\<lambda>ok.
              if ok then Inr (check_mark @ py '' Successfully deleted task (ID: '' @ task_id @ py '')'')
              else Inr (py ''Failed to delete task''))),
           a1, w1))"

section \<open>The tools of an agent, as the tool node calls them\<close>

text \<open>One call of an adapter, with the arguments of its signature.\<close>

datatype tool_invocation =
    ListMessages pystr int
  | GetMessage pystr
  | SearchMessages pystr int
  | SendMessage pystr pystr pystr pystr pystr
  | ReplyToMessage pystr pystr
  | MarkMessageAsRead pystr
  | MarkMessageAsUnread pystr
  | AddLabelToMessage pystr pystr
  | RemoveLabelFromMessage pystr pystr
  | ListLabels
  | ListTaskLists
  | CreateTaskList pystr
  | DeleteTaskList pystr
  | ListTasks pystr
  | CreateTask pystr pystr pystr pystr
  | UpdateTask pystr pystr "pystr option" "pystr option" "pystr option" "pystr option"
  | CompleteTask pystr pystr
  | UncompleteTask pystr pystr
  | DeleteTask pystr pystr

fun invoke :: "env \<Rightarrow> tool_invocation \<Rightarrow> mcp_agent \<Rightarrow> world \<Rightarrow> mcp_agent tool_result" where
  "invoke env (ListMessages query max_results) = list_messages env query max_results"
| "invoke env (GetMessage message_id) = get_message env message_id"
| "invoke env (SearchMessages query max_results) = search_messages env query max_results"
| "invoke env (SendMessage to subject body cc bcc) = send_message env to subject body cc bcc"
| "invoke env (ReplyToMessage message_id reply_body) = reply_to_message env message_id reply_body"
| "invoke env (MarkMessageAsRead message_id) = mark_message_as_read env message_id"
| "invoke env (MarkMessageAsUnread message_id) = mark_message_as_unread env message_id"
| "invoke env (AddLabelToMessage message_id label_id) = add_label_to_message env message_id label_id"
| "invoke env (RemoveLabelFromMessage message_id label_id) =
     remove_label_from_message env message_id label_id"
| "invoke env ListLabels = list_labels env"
| "invoke env ListTaskLists = list_task_lists env"
| "invoke env (CreateTaskList list_name) = create_task_list env list_name"
| "invoke env (DeleteTaskList list_id) = delete_task_list env list_id"
| "invoke env (ListTasks list_id) = list_tasks env list_id"
| "invoke env (CreateTask list_id title description due_date) =
     create_task env list_id title description due_date"
| "invoke env (UpdateTask list_id task_id title description due_date status) =
     update_task env list_id task_id title description due_date status"
| "invoke env (CompleteTask list_id task_id) = complete_task env list_id task_id"
| "invoke env (UncompleteTask list_id task_id) = uncomplete_task env list_id task_id"
| "invoke env (DeleteTask list_id task_id) = delete_task env list_id task_id"

text \<open>
  For the statements about the adapters: the agent an adapter belongs to, the remote
  tool it calls, the argument mapping it sends and the label of its error text.
\<close>

fun owner :: "tool_invocation \<Rightarrow> agent_id" where
  "owner (ListMessages _ _) = Gmail"
| "owner (GetMessage _) = Gmail"
| "owner (SearchMessages _ _) = Gmail"
| "owner (SendMessage _ _ _ _ _) = Gmail"
| "owner (ReplyToMessage _ _) = Gmail"
| "owner (MarkMessageAsRead _) = Gmail"
| "owner (MarkMessageAsUnread _) = Gmail"
| "owner (AddLabelToMessage _ _) = Gmail"
| "owner (RemoveLabelFromMessage _ _) = Gmail"
| "owner ListLabels = Gmail"
| "owner _ = Todo"

fun remote_tool :: "tool_invocation \<Rightarrow> pystr" where
  "remote_tool (ListMessages _ _) = py ''list_messages''"
| "remote_tool (GetMessage _) = py ''get_message''"
| "remote_tool (SearchMessages _ _) = py ''search_messages''"
| "remote_tool (SendMessage _ _ _ _ _) = py ''send_message''"
| "remote_tool (ReplyToMessage _ _) = py ''reply_to_message''"
| "remote_tool (MarkMessageAsRead _) = py ''mark_message_as_read''"
| "remote_tool (MarkMessageAsUnread _) = py ''mark_message_as_unread''"
| "remote_tool (AddLabelToMessage _ _) = py ''add_label_to_message''"
| "remote_tool (RemoveLabelFromMessage _ _) = py ''remove_label_from_message''"
| "remote_tool ListLabels = py ''list_labels''"
| "remote_tool ListTaskLists = py ''list_task_lists''"
| "remote_tool (CreateTaskList _) = py ''create_task_list''"
| "remote_tool (DeleteTaskList _) = py ''delete_task_list''"
| "remote_tool (ListTasks _) = py ''list_tasks''"
| "remote_tool (CreateTask _ _ _ _) = py ''create_task''"
| "remote_tool (UpdateTask _ _ _ _ _ _) = py ''update_task''"
| "remote_tool (CompleteTask _ _) = py ''complete_task''"
| "remote_tool (UncompleteTask _ _) = py ''uncomplete_task''"
| "remote_tool (DeleteTask _ _) = py ''delete_task''"

fun remote_params :: "tool_invocation \<Rightarrow> pydict option" where
  "remote_params (ListMessages query max_results) =
     Some [(py ''query'', JStr query), (py ''max_results'', JInt max_results)]"
| "remote_params (GetMessage message_id) = Some [(py ''message_id'', JStr message_id)]"
| "remote_params (SearchMessages query max_results) =
     Some [(py ''query'', JStr query), (py ''max_results'', JInt max_results)]"
| "remote_params (SendMessage to subject body cc bcc) =
     Some ([(py ''to'', JStr to), (py ''subject'', JStr subject), (py ''body'', JStr body)]
           @ (if cc \<noteq> [] then [(py ''cc'', JStr cc)] else [])
           @ (if bcc \<noteq> [] then [(py ''bcc'', JStr bcc)] else []))"
| "remote_params (ReplyToMessage message_id reply_body) =
     Some [(py ''message_id'', JStr message_id), (py ''reply_body'', JStr reply_body)]"
| "remote_params (MarkMessageAsRead message_id) = Some [(py ''message_id'', JStr message_id)]"
| "remote_params (MarkMessageAsUnread message_id) = Some [(py ''message_id'', JStr message_id)]"
| "remote_params (AddLabelToMessage message_id label_id) =
     Some [(py ''message_id'', JStr message_id), (py ''label_id'', JStr label_id)]"
| "remote_params (RemoveLabelFromMessage message_id label_id) =
     Some [(py ''message_id'', JStr message_id), (py ''label_id'', JStr label_id)]"
| "remote_params ListLabels = None"
| "remote_params ListTaskLists = None"
| "remote_params (CreateTaskList list_name) = Some [(py ''name'', JStr list_name)]"
| "remote_params (DeleteTaskList list_id) = Some [(py ''list_id'', JStr list_id)]"
| "remote_params (ListTasks list_id) = Some [(py ''list_id'', JStr list_id)]"
| "remote_params (CreateTask list_id title description due_date) =
     Some [(py ''list_id'', JStr list_id), (py ''title'', JStr title),
           (py ''description'', JStr description), (py ''due_date'', JStr due_date)]"
| "remote_params (UpdateTask list_id task_id title description due_date status) =
     Some ([(py ''list_id'', JStr list_id), (py ''task_id'', JStr task_id)]
           @ opt_param ''title'' title @ opt_param ''description'' description
           @ opt_param ''due_date'' due_date @ opt_param ''status'' status)"
| "remote_params (CompleteTask list_id task_id) =
     Some [(py ''list_id'', JStr list_id), (py ''task_id'', JStr task_id)]"
| "remote_params (UncompleteTask list_id task_id) =
     Some [(py ''list_id'', JStr list_id), (py ''task_id'', JStr task_id)]"
| "remote_params (DeleteTask list_id task_id) =
     Some [(py ''list_id'', JStr list_id), (py ''task_id'', JStr task_id)]"

fun error_label :: "tool_invocation \<Rightarrow> pystr" where
  "error_label (ListMessages _ _) = py ''Error listing messages: ''"
| "error_label (GetMessage _) = py ''Error getting message: ''"
| "error_label (SearchMessages _ _) = py ''Error searching messages: ''"
| "error_label (SendMessage _ _ _ _ _) = py ''Error sending message: ''"
| "error_label (ReplyToMessage _ _) = py ''Error sending reply: ''"
| "error_label (MarkMessageAsRead _) = py ''Error marking message as read: ''"
| "error_label (MarkMessageAsUnread _) = py ''Error marking message as unread: ''"
| "error_label (AddLabelToMessage _ _) = py ''Error adding label: ''"
| "error_label (RemoveLabelFromMessage _ _) = py ''Error removing label: ''"
| "error_label ListLabels = py ''Error listing labels: ''"
| "error_label ListTaskLists = py ''Error: ''"
| "error_label (CreateTaskList _) = py ''Error creating task list: ''"
| "error_label (DeleteTaskList _) = py ''Error deleting task list: ''"
| "error_label (ListTasks _) = py ''Error listing tasks: ''"
| "error_label (CreateTask _ _ _ _) = py ''Error creating task: ''"
| "error_label (UpdateTask _ _ _ _ _ _) = py ''Error updating task: ''"
| "error_label (CompleteTask _ _) = py ''Error completing task: ''"
| "error_label (UncompleteTask _ _) = py ''Error marking task as not started: ''"
| "error_label (DeleteTask _ _) = py ''Error deleting task: ''"

text \<open>
  The arguments of a tool call are bound to the parameters of the tool's signature
  (pydantic's validation, without its coercions): a required string, a string or an
  integer with a default, a string that may be left out.
\<close>

definition str_arg :: "pydict \<Rightarrow> string \<Rightarrow> exn + pystr" where
  "str_arg arguments k =
     (case map_of arguments (py k) of Some (JStr s) \<Rightarrow> Inr s | _ \<Rightarrow> Inl (ValidationError (py k)))"

definition str_arg_or :: "pydict \<Rightarrow> string \<Rightarrow> pystr \<Rightarrow> exn + pystr" where
  "str_arg_or arguments k dflt =
     (case map_of arguments (py k) of
        None \<Rightarrow> Inr dflt | Some (JStr s) \<Rightarrow> Inr s | Some _ \<Rightarrow> Inl (ValidationError (py k)))"

definition int_arg_or :: "pydict \<Rightarrow> string \<Rightarrow> int \<Rightarrow> exn + int" where
  "int_arg_or arguments k dflt =
     (case map_of arguments (py k) of
        None \<Rightarrow> Inr dflt | Some (JInt n) \<Rightarrow> Inr n | Some _ \<Rightarrow> Inl (ValidationError (py k)))"

definition opt_str_arg :: "pydict \<Rightarrow> string \<Rightarrow> exn + pystr option" where
  "opt_str_arg arguments k =
     (case map_of arguments (py k) of
        None \<Rightarrow> Inr None | Some (JStr s) \<Rightarrow> Inr (Some s) | Some _ \<Rightarrow> Inl (ValidationError (py k)))"

text \<open>\<open>self.tools\<close> of the Gmail agent: the tool of a name, bound to the arguments.\<close>

definition gmail_tools :: "pystr \<Rightarrow> pydict \<Rightarrow> (exn + tool_invocation) option" where
  "gmail_tools tool arguments =
     (if tool = py ''list_messages'' then
        Some (seq (str_arg_or arguments ''query'' []) (\<lambda>q.
              seq (int_arg_or arguments ''max_results'' 10) (\<lambda>n. Inr (ListMessages q n))))
      else if tool = py ''get_message'' then
        Some (seq (str_arg arguments ''message_id'') (\<lambda>m. Inr (GetMessage m)))
      else if tool = py ''search_messages'' then
        Some (seq (str_arg arguments ''query'') (\<lambda>q.
              seq (int_arg_or arguments ''max_results'' 10) (\<lambda>n. Inr (SearchMessages q n))))
      else if tool = py ''send_message'' then
        Some (seq (str_arg arguments ''to'') (\<lambda>to.
              seq (str_arg arguments ''subject'') (\<lambda>subject.
              seq (str_arg arguments ''body'') (\<lambda>body.
              seq (str_arg_or arguments ''cc'' []) (\<lambda>cc.
              seq (str_arg_or arguments ''bcc'' []) (\<lambda>bcc.
              Inr (SendMessage to subject body cc bcc)))))))
      else if tool = py ''reply_to_message'' then
        Some (seq (str_arg arguments ''message_id'') (\<lambda>m.
              seq (str_arg arguments ''reply_body'') (\<lambda>b. Inr (ReplyToMessage m b))))
      else if tool = py ''mark_message_as_read'' then
        Some (seq (str_arg arguments ''message_id'') (\<lambda>m. Inr (MarkMessageAsRead m)))
      else if tool = py ''mark_message_as_unread'' then
        Some (seq (str_arg arguments ''message_id'') (\<lambda>m. Inr (MarkMessageAsUnread m)))
      else if tool = py ''add_label_to_message'' then
        Some (seq (str_arg arguments ''message_id'') (\<lambda>m.
              seq (str_arg arguments ''label_id'') (\<lambda>l. Inr (AddLabelToMessage m l))))
      else if tool = py ''remove_label_from_message'' then
        Some (seq (str_arg arguments ''message_id'') (\<lambda>m.
              seq (str_arg arguments ''label_id'') (\<lambda>l. Inr (RemoveLabelFromMessage m l))))
      else if tool = py ''list_labels'' then Some (Inr ListLabels)
      else None)"

text \<open>\<open>self.tools\<close> of the Todo agent.\<close>

definition todo_tools :: "pystr \<Rightarrow> pydict \<Rightarrow> (exn + tool_invocation) option" where
  "todo_tools tool arguments =
     (if tool = py ''list_task_lists'' then Some (Inr ListTaskLists)
      else if tool = py ''create_task_list'' then
        Some (seq (str_arg arguments ''name'') (\<lambda>n. Inr (CreateTaskList n)))
      else if tool = py ''delete_task_list'' then
        Some (seq (str_arg arguments ''list_id'') (\<lambda>l. Inr (DeleteTaskList l)))
      else if tool = py ''list_tasks'' then
        Some (seq (str_arg arguments ''list_id'') (\<lambda>l. Inr (ListTasks l)))
      else if tool = py ''create_task'' then
        Some (seq (str_arg arguments ''list_id'') (\<lambda>l.
              seq (str_arg arguments ''title'') (\<lambda>t.
              seq (str_arg_or arguments ''description'' []) (\<lambda>d.
              seq (str_arg_or arguments ''due_date'' []) (\<lambda>due. Inr (CreateTask l t d due))))))
      else if tool = py ''update_task'' then
        Some (seq (str_arg arguments ''list_id'') (\<lambda>l.
              seq (str_arg arguments ''task_id'') (\<lambda>i.
              seq (opt_str_arg arguments ''title'') (\<lambda>t.
              seq (opt_str_arg arguments ''description'') (\<lambda>d.
              seq (opt_str_arg arguments ''due_date'') (\<lambda>due.
              seq (opt_str_arg arguments ''status'') (\<lambda>s. Inr (UpdateTask l i t d due s))))))))
      else if tool = py ''complete_task'' then
        Some (seq (str_arg arguments ''list_id'') (\<lambda>l.
              seq (str_arg arguments ''task_id'') (\<lambda>i. Inr (CompleteTask l i))))
      else if tool = py ''uncomplete_task'' then
        Some (seq (str_arg arguments ''list_id'') (\<lambda>l.
              seq (str_arg arguments ''task_id'') (\<lambda>i. Inr (UncompleteTask l i))))
      else if tool = py ''delete_task'' then
        Some (seq (str_arg arguments ''list_id'') (\<lambda>l.
              seq (str_arg arguments ''task_id'') (\<lambda>i. Inr (DeleteTask l i))))
      else None)"

section \<open>The graph of an agent\<close>

text \<open>
  The conversation state of an agent: the messages, and the context fields of each
  agent's \<open>AgentState\<close>.
\<close>

record agent_state =
  messages :: "message list"

record todo_state = agent_state +
  current_list_id :: "pystr option"
  current_list_name :: "pystr option"
  last_operation :: "pystr option"

record gmail_state = agent_state +
  current_message_id :: "pystr option"
  current_thread_id :: "pystr option"
  last_operation :: "pystr option"
  search_context :: "pystr option"

record master_state = agent_state +
  current_context :: "pystr option"
  sub_agent_states :: pydict
  conversation_summary :: "pystr option"

fun content :: "message \<Rightarrow> pystr" where
  "content (HumanMessage c) = c"
| "content (AIMessage c _) = c"
| "content (ToolMessage c _ _) = c"
| "content (SystemMessage c) = c"

datatype node = AgentNode | ToolsNode | END

text \<open>
  What \<open>setup_graph\<close> builds: the node \<open>agent\<close> (\<open>call_model\<close>), the node \<open>tools\<close> (the
  tool node), the edge from \<open>START\<close>, the conditional edges after \<open>agent\<close>
  (\<open>should_continue\<close>) and the edge after \<open>tools\<close>. A node returns the state with its
  update merged in (the reducer \<open>add_messages\<close> appends new messages); the tool node
  works on the object that owns the tools.
\<close>

record ('s, 'o) state_graph =
  start :: node
  agent :: "'s \<Rightarrow> world \<Rightarrow> (exn + 's) \<times> world"
  tools :: "'s \<Rightarrow> 'o \<Rightarrow> world \<Rightarrow> (exn + 's) \<times> 'o \<times> world"
  after_agent :: "'s \<Rightarrow> exn + node"
  after_tools :: node

text \<open>
  \<open>should_continue\<close>, the same function in the three agents (todo.py 340-349,
  gmail_agent.py 414-423, main_agent.py 204-211). Only a reply of the language model has
  the attribute \<open>tool_calls\<close>.
\<close>

definition should_continue :: "'a agent_state_scheme \<Rightarrow> exn + node" where
  "should_continue state =
     (case rev (messages state) of
        [] \<Rightarrow> Inl IndexError
      | last_message # _ \<Rightarrow>
          (case last_message of
             AIMessage _ tool_calls \<Rightarrow> Inr (if tool_calls \<noteq> [] then ToolsNode else END)
           | _ \<Rightarrow> Inl AttributeError))"

text \<open>
  LangGraph's prebuilt \<open>ToolNode\<close>, from its documentation: it runs the tool calls of
  the last message, which must be a reply of the language model, and returns one tool
  message per call, in the order of the calls, each with the name and the id of its
  call. The calls are run one after the other here.
\<close>

definition run_one ::
  "env \<Rightarrow> (pystr \<Rightarrow> pydict \<Rightarrow> (exn + 'c) option) \<Rightarrow> ('c \<Rightarrow> 'o \<Rightarrow> world \<Rightarrow> 'o tool_result)
     \<Rightarrow> tool_call \<Rightarrow> 'o \<Rightarrow> world \<Rightarrow> 'o tool_result" where
  "run_one env bind call tc obj w =
     (case bind (name tc) (args tc) of
        None \<Rightarrow> (Inr (invalid_tool env (name tc)), obj, w)
      | Some b \<Rightarrow>
          (case (case b of Inl e \<Rightarrow> (Inl e, obj, w) | Inr c \<Rightarrow> call c obj w) of
             (Inr text, obj1, w1) \<Rightarrow> (Inr text, obj1, w1)
           | (Inl e, obj1, w1) \<Rightarrow>
               (case handle_tool_error env e of
                  None \<Rightarrow> (Inl e, obj1, w1)
                | Some text \<Rightarrow> (Inr text, obj1, w1))))"

fun run_tool_calls ::
  "env \<Rightarrow> (pystr \<Rightarrow> pydict \<Rightarrow> (exn + 'c) option) \<Rightarrow> ('c \<Rightarrow> 'o \<Rightarrow> world \<Rightarrow> 'o tool_result)
     \<Rightarrow> tool_call list \<Rightarrow> 'o \<Rightarrow> world \<Rightarrow> (exn + message list) \<times> 'o \<times> world" where
  "run_tool_calls env bind call [] obj w = (Inr [], obj, w)"
| "run_tool_calls env bind call (tc # tcs) obj w =
     (case run_one env bind call tc obj w of
        (Inl e, obj1, w1) \<Rightarrow> (Inl e, obj1, w1)
      | (Inr text, obj1, w1) \<Rightarrow>
          (case run_tool_calls env bind call tcs obj1 w1 of
             (Inl e, obj2, w2) \<Rightarrow> (Inl e, obj2, w2)
           | (Inr rest, obj2, w2) \<Rightarrow>
               (Inr (ToolMessage text (name tc) (call_id tc) # rest), obj2, w2)))"

definition tool_node ::
  "env \<Rightarrow> (pystr \<Rightarrow> pydict \<Rightarrow> (exn + 'c) option) \<Rightarrow> ('c \<Rightarrow> 'o \<Rightarrow> world \<Rightarrow> 'o tool_result)
     \<Rightarrow> 'a agent_state_scheme \<Rightarrow> 'o \<Rightarrow> world \<Rightarrow> (exn + 'a agent_state_scheme) \<times> 'o \<times> world" where
  "tool_node env bind call state obj w =
     (case rev (messages state) of
        AIMessage _ tool_calls # _ \<Rightarrow>
          (case run_tool_calls env bind call tool_calls obj w of
             (Inl e, obj1, w1) \<Rightarrow> (Inl e, obj1, w1)
           | (Inr tool_messages, obj1, w1) \<Rightarrow>
               (Inr (state\<lparr>messages := messages state @ tool_messages\<rparr>), obj1, w1))
      | _ \<Rightarrow> (Inl (LibraryError (py ''Last message is not an AIMessage'')), obj, w))"

text \<open>
  A run of a compiled graph, as LangGraph's documentation gives it: nodes are run along
  the edges until \<open>END\<close>; an exception of a node ends the run; a run that would execute
  more nodes than the recursion limit raises \<open>GraphRecursionError\<close>.
\<close>

fun run_graph ::
  "('s, 'o) state_graph \<Rightarrow> nat \<Rightarrow> node \<Rightarrow> 's \<Rightarrow> 'o \<Rightarrow> world \<Rightarrow> (exn + 's) \<times> 'o \<times> world" where
  "run_graph g n END state obj w = (Inr state, obj, w)"
| "run_graph g 0 AgentNode state obj w = (Inl GraphRecursionError, obj, w)"
| "run_graph g 0 ToolsNode state obj w = (Inl GraphRecursionError, obj, w)"
| "run_graph g (Suc n) AgentNode state obj w =
     (case agent g state w of
        (Inl e, w1) \<Rightarrow> (Inl e, obj, w1)
      | (Inr state1, w1) \<Rightarrow>
          (case after_agent g state1 of
             Inl e \<Rightarrow> (Inl e, obj, w1)
           | Inr next_node \<Rightarrow> run_graph g n next_node state1 obj w1))"
| "run_graph g (Suc n) ToolsNode state obj w =
     (case tools g state obj w of
        (Inl e, obj1, w1) \<Rightarrow> (Inl e, obj1, w1)
      | (Inr state1, obj1, w1) \<Rightarrow> run_graph g n (after_tools g) state1 obj1 w1)"

definition ainvoke ::
  "env \<Rightarrow> ('s, 'o) state_graph \<Rightarrow> 's \<Rightarrow> 'o \<Rightarrow> world \<Rightarrow> (exn + 's) \<times> 'o \<times> world" where
  "ainvoke env g state obj w = run_graph g (recursion_limit env) (start g) state obj w"

text \<open>The call of the language model that every \<open>call_model\<close> ends with.\<close>

definition invoke_model ::
  "env \<Rightarrow> agent_id \<Rightarrow> pystr \<Rightarrow> 'a agent_state_scheme \<Rightarrow> world
     \<Rightarrow> (exn + 'a agent_state_scheme) \<times> world" where
  "invoke_model env aid system_text state w =
     (let full_messages = SystemMessage system_text # messages state in
      case ainvoke_llm env aid w full_messages of
        Inl e \<Rightarrow> (Inl e, w @ [Invoke aid full_messages])
      | Inr (text, tool_calls) \<Rightarrow>
          (Inr (state\<lparr>messages := messages state @ [AIMessage text tool_calls]\<rparr>),
           w @ [Invoke aid full_messages]))"

text \<open>A context field counts when it is neither \<open>None\<close> nor empty.\<close>

definition given :: "pystr option \<Rightarrow> pystr \<Rightarrow> pystr \<Rightarrow> pystr" where
  "given field before after =
     (case field of None \<Rightarrow> [] | Some v \<Rightarrow> if v = [] then [] else before @ v @ after)"

text \<open>\<open>call_model\<close> of the Todo agent (todo.py 351-362): the system message is the prompt.\<close>

definition todo_prompt :: "env \<Rightarrow> todo_state \<Rightarrow> pystr" where
  "todo_prompt env state = system_prompt env Todo"

definition todo_call_model :: "env \<Rightarrow> todo_state \<Rightarrow> world \<Rightarrow> (exn + todo_state) \<times> world" where
  "todo_call_model env state w = invoke_model env Todo (todo_prompt env state) state w"

text \<open>
  \<open>call_model\<close> of the Gmail agent (gmail_agent.py 425-449): the system message is the
  prompt, extended by the context fields that are given.
\<close>

definition gmail_prompt :: "env \<Rightarrow> gmail_state \<Rightarrow> pystr" where
  "gmail_prompt env state =
     (let context_info =
            given (current_message_id state) (py ''Currently focused on message ID: '') nl
            @ given (search_context state) (py ''Recent search context: '') nl
            @ given (gmail_state.last_operation state) (py ''Last operation: '') nl
      in if context_info \<noteq> []
         then system_prompt env Gmail @ nl @ nl @ py ''Current Context:'' @ nl @ context_info
         else system_prompt env Gmail)"

definition gmail_call_model :: "env \<Rightarrow> gmail_state \<Rightarrow> world \<Rightarrow> (exn + gmail_state) \<times> world" where
  "gmail_call_model env state w = invoke_model env Gmail (gmail_prompt env state) state w"

definition todo_graph :: "env \<Rightarrow> (todo_state, mcp_agent) state_graph" where
  "todo_graph env = \<lparr>
     start = AgentNode,
     agent = todo_call_model env,
     tools = tool_node env todo_tools (invoke env),
     after_agent = should_continue,
     after_tools = AgentNode \<rparr>"

definition gmail_graph :: "env \<Rightarrow> (gmail_state, mcp_agent) state_graph" where
  "gmail_graph env = \<lparr>
     start = AgentNode,
     agent = gmail_call_model env,
     tools = tool_node env gmail_tools (invoke env),
     after_agent = should_continue,
     after_tools = AgentNode \<rparr>"

section \<open>chat\<close>

text \<open>
  The state dicts of an agent live in a store: an address is an index into the list of
  the dicts allocated so far. \<open>chat\<close> is the same method in the three classes (todo.py
  380-413, gmail_agent.py 467-501, main_agent.py 266-299): it raises when the graph has
  not been compiled, allocates the initial state when none is passed, appends the user
  message to the list of the state it was given, runs the graph on it, and returns the
  text of the last message with the address of the state the run returned (a new
  dict). An address that is passed is one that was returned before.
\<close>

type_synonym 's store = "'s list"

text \<open>\<open>state["messages"].append(HumanMessage(content=message))\<close>\<close>

definition with_user_message :: "'a agent_state_scheme \<Rightarrow> pystr \<Rightarrow> 'a agent_state_scheme" where
  "with_user_message state message = state\<lparr>messages := messages state @ [HumanMessage message]\<rparr>"

definition chat ::
  "env \<Rightarrow> ('a agent_state_scheme, 'o) state_graph option \<Rightarrow> pystr \<Rightarrow> 'a agent_state_scheme
     \<Rightarrow> pystr \<Rightarrow> nat option \<Rightarrow> 'a agent_state_scheme store \<Rightarrow> 'o \<Rightarrow> world
     \<Rightarrow> (exn + pystr \<times> nat) \<times> 'a agent_state_scheme store \<times> 'o \<times> world" where
  "chat env compiled not_initialized initial message state h obj w =
     (case compiled of
        None \<Rightarrow> (Inl (RuntimeError not_initialized), h, obj, w)
      | Some g \<Rightarrow>
          (let h1 = (case state of None \<Rightarrow> h @ [initial] | Some r \<Rightarrow> h);
               r = (case state of None \<Rightarrow> length h | Some r \<Rightarrow> r);
               h2 = h1[r := with_user_message (h1 ! r) message]
           in case ainvoke env g (h2 ! r) obj w of
                (Inl e, obj1, w1) \<Rightarrow> (Inl e, h2, obj1, w1)
              | (Inr result, obj1, w1) \<Rightarrow>
                  (case rev (messages result) of
                     [] \<Rightarrow> (Inl IndexError, h2 @ [result], obj1, w1)
                   | last_message # _ \<Rightarrow>
                       (Inr (content last_message, length h2), h2 @ [result], obj1, w1))))"

definition todo_initial :: todo_state where
  "todo_initial = \<lparr>messages = [], current_list_id = None, current_list_name = None,
                    last_operation = None\<rparr>"

definition gmail_initial :: gmail_state where
  "gmail_initial = \<lparr>messages = [], current_message_id = None, current_thread_id = None,
                     last_operation = None, search_context = None\<rparr>"

definition master_initial :: master_state where
  "master_initial = \<lparr>messages = [], current_context = None, sub_agent_states = [],
                      conversation_summary = None\<rparr>"

definition todo_chat ::
  "env \<Rightarrow> pystr \<Rightarrow> nat option \<Rightarrow> todo_state store \<Rightarrow> mcp_agent \<Rightarrow> world
     \<Rightarrow> (exn + pystr \<times> nat) \<times> todo_state store \<times> mcp_agent \<times> world" where
  "todo_chat env message state h a w =
     chat env (if graph a then Some (todo_graph env) else None)
       (py ''Agent not properly initialized. Use async context manager.'') todo_initial
       message state h a w"

definition gmail_chat ::
  "env \<Rightarrow> pystr \<Rightarrow> nat option \<Rightarrow> gmail_state store \<Rightarrow> mcp_agent \<Rightarrow> world
     \<Rightarrow> (exn + pystr \<times> nat) \<times> gmail_state store \<times> mcp_agent \<times> world" where
  "gmail_chat env message state h a w =
     chat env (if graph a then Some (gmail_graph env) else None)
       (py ''Agent not properly initialized. Use async context manager.'') gmail_initial
       message state h a w"

section \<open>The master agent\<close>

text \<open>
  The fields of a \<open>MasterAgent\<close> object that change: the two sub-agents (\<open>None\<close> until
  they are initialised), whether \<open>graph\<close> has been compiled, and the stores of the
  sub-agents' conversation states.
\<close>

record master_agent =
  todo_agent :: "mcp_agent option"
  gmail_agent :: "mcp_agent option"
  graph_compiled :: bool
  todo_states :: "todo_state store"
  gmail_states :: "gmail_state store"

text \<open>The \<open>try\<close> block of the tool \<open>todo_agent\<close> (main_agent.py 133-148).\<close>

definition todo_agent_body ::
  "env \<Rightarrow> pystr \<Rightarrow> master_agent \<Rightarrow> world \<Rightarrow> master_agent tool_result" where
  "todo_agent_body env user_request m w =
     (case todo_agent m of
        None \<Rightarrow> (Inr (cross_mark @ py '' Todo Agent is not available. Please try again later.''), m, w)
      | Some a \<Rightarrow>
          (case todo_chat env user_request (current_state a) (todo_states m) a w of
             (Inl e, h1, a1, w1) \<Rightarrow> (Inl e, m\<lparr>todo_agent := Some a1, todo_states := h1\<rparr>, w1)
           | (Inr (response, updated_state), h1, a1, w1) \<Rightarrow>
               (Inr response,
                m\<lparr>todo_agent := Some (a1\<lparr>current_state := Some updated_state\<rparr>), todo_states := h1\<rparr>,
                w1)))"

text \<open>The tool \<open>todo_agent\<close>, with its handler \<open>except Exception\<close> (main_agent.py 116-151).\<close>

definition todo_agent_tool ::
  "env \<Rightarrow> pystr \<Rightarrow> master_agent \<Rightarrow> world \<Rightarrow> master_agent tool_result" where
  "todo_agent_tool env user_request m w =
     (case todo_agent_body env user_request m w of
        (Inl e, m1, w1) \<Rightarrow> (Inr (cross_mark @ py '' Error with Todo Agent: '' @ str_exn env e), m1, w1)
      | (Inr response, m1, w1) \<Rightarrow> (Inr response, m1, w1))"

text \<open>The \<open>try\<close> block of the tool \<open>gmail_agent\<close> (main_agent.py 171-186).\<close>

definition gmail_agent_body ::
  "env \<Rightarrow> pystr \<Rightarrow> master_agent \<Rightarrow> world \<Rightarrow> master_agent tool_result" where
  "gmail_agent_body env user_request m w =
     (case gmail_agent m of
        None \<Rightarrow> (Inr (cross_mark @ py '' Gmail Agent is not available. Please try again later.''), m, w)
      | Some a \<Rightarrow>
          (case gmail_chat env user_request (current_state a) (gmail_states m) a w of
             (Inl e, h1, a1, w1) \<Rightarrow> (Inl e, m\<lparr>gmail_agent := Some a1, gmail_states := h1\<rparr>, w1)
           | (Inr (response, updated_state), h1, a1, w1) \<Rightarrow>
               (Inr response,
                m\<lparr>gmail_agent := Some (a1\<lparr>current_state := Some updated_state\<rparr>), gmail_states := h1\<rparr>,
                w1)))"

text \<open>The tool \<open>gmail_agent\<close>, with its handler (main_agent.py 153-189).\<close>

definition gmail_agent_tool ::
  "env \<Rightarrow> pystr \<Rightarrow> master_agent \<Rightarrow> world \<Rightarrow> master_agent tool_result" where
  "gmail_agent_tool env user_request m w =
     (case gmail_agent_body env user_request m w of
        (Inl e, m1, w1) \<Rightarrow> (Inr (cross_mark @ py '' Error with Gmail Agent: '' @ str_exn env e), m1, w1)
      | (Inr response, m1, w1) \<Rightarrow> (Inr response, m1, w1))"

datatype master_invocation = TodoAgent pystr | GmailAgent pystr

fun master_invoke ::
  "env \<Rightarrow> master_invocation \<Rightarrow> master_agent \<Rightarrow> world \<Rightarrow> master_agent tool_result" where
  "master_invoke env (TodoAgent user_request) = todo_agent_tool env user_request"
| "master_invoke env (GmailAgent user_request) = gmail_agent_tool env user_request"

text \<open>\<open>self.tools\<close> of the master agent.\<close>

definition master_tools :: "pystr \<Rightarrow> pydict \<Rightarrow> (exn + master_invocation) option" where
  "master_tools tool arguments =
     (if tool = py ''todo_agent'' then
        Some (seq (str_arg arguments ''user_request'') (\<lambda>r. Inr (TodoAgent r)))
      else if tool = py ''gmail_agent'' then
        Some (seq (str_arg arguments ''user_request'') (\<lambda>r. Inr (GmailAgent r)))
      else None)"

text \<open>The loop of \<open>call_model\<close> over the tool calls of the reply (main_agent.py 237-243).\<close>

fun update_context :: "pystr option \<Rightarrow> tool_call list \<Rightarrow> pystr option" where
  "update_context updated_context [] = updated_context"
| "update_context updated_context (tc # tcs) =
     update_context
       (if name tc = py ''todo_agent'' then Some (py ''Todo Agent'')
        else if name tc = py ''gmail_agent'' then Some (py ''Gmail Agent'')
        else updated_context) tcs"

text \<open>\<open>call_model\<close> of the master agent (main_agent.py 213-248).\<close>

definition master_prompt :: "env \<Rightarrow> master_state \<Rightarrow> pystr" where
  "master_prompt env state =
     system_prompt env Master
     @ given (current_context state) (nl @ py ''Current context: Working with '') []
     @ given (conversation_summary state) (nl @ py ''Conversation summary: '') []"

definition master_call_model :: "env \<Rightarrow> master_state \<Rightarrow> world \<Rightarrow> (exn + master_state) \<times> world" where
  "master_call_model env state w =
     (let full_messages = SystemMessage (master_prompt env state) # messages state
      in case ainvoke_llm env Master w full_messages of
           Inl e \<Rightarrow> (Inl e, w @ [Invoke Master full_messages])
         | Inr (text, tool_calls) \<Rightarrow>
             (Inr (state\<lparr>messages := messages state @ [AIMessage text tool_calls],
                         current_context := update_context (current_context state) tool_calls\<rparr>),
              w @ [Invoke Master full_messages]))"

text \<open>\<open>setup_graph\<close> of the master agent (main_agent.py 250-263): after \<open>tools\<close>, \<open>END\<close>.\<close>

definition master_graph :: "env \<Rightarrow> (master_state, master_agent) state_graph" where
  "master_graph env = \<lparr>
     start = AgentNode,
     agent = master_call_model env,
     tools = tool_node env master_tools (master_invoke env),
     after_agent = should_continue,
     after_tools = END \<rparr>"

definition master_chat ::
  "env \<Rightarrow> pystr \<Rightarrow> nat option \<Rightarrow> master_state store \<Rightarrow> master_agent \<Rightarrow> world
     \<Rightarrow> (exn + pystr \<times> nat) \<times> master_state store \<times> master_agent \<times> world" where
  "master_chat env message state h m w =
     chat env (if graph_compiled m then Some (master_graph env) else None)
       (py ''Master Agent not properly initialized'') master_initial
       message state h m w"

section \<open>The interactive loops\<close>

text \<open>\<open>str.isspace\<close> of a code point, and \<open>str.strip()\<close>.\<close>

definition isspace :: "nat \<Rightarrow> bool" where
  "isspace c = (c \<in> set ([9, 10, 11, 12, 13, 28, 29, 30, 31, 32, 133, 160, 5760]
                          @ [8192 ..< 8203] @ [8232, 8233, 8239, 8287, 12288]))"

definition strip :: "pystr \<Rightarrow> pystr" where
  "strip s = rev (dropWhile isspace (rev (dropWhile isspace s)))"

definition exit_tokens :: "pystr list" where
  "exit_tokens = [py ''quit'', py ''exit'', py ''bye'', py ''q'']"

text \<open>
  What a call of \<open>input\<close> does: it returns a line, or the user interrupts it, or it raises
  (at the end of the input, say).
\<close>

datatype user_input = Line pystr | Interrupt | InputError exn

text \<open>
  How a loop stands after a list of inputs: left through an exit token, left through
  \<open>KeyboardInterrupt\<close>, or waiting in \<open>input\<close>.
\<close>

datatype loop_status = Exited | Interrupted | Waiting

text \<open>
  \<open>run_interactive\<close>, the same loop in the three classes (todo.py 421-443, gmail_agent.py
  516-538, main_agent.py 338-369), over the \<open>chat\<close> of its class and everything \<open>chat\<close>
  works on. Printing is left out.
\<close>

fun interactive_loop ::
  "env \<Rightarrow> (pystr \<Rightarrow> nat option \<Rightarrow> 'x \<Rightarrow> (exn + pystr \<times> nat) \<times> 'x) \<Rightarrow> user_input list
     \<Rightarrow> nat option \<Rightarrow> 'x \<Rightarrow> loop_status \<times> nat option \<times> 'x" where
  "interactive_loop env chat_fn [] state x = (Waiting, state, x)"
| "interactive_loop env chat_fn (Interrupt # inputs) state x = (Interrupted, state, x)"
| "interactive_loop env chat_fn (InputError e # inputs) state x =
     interactive_loop env chat_fn inputs state x"
| "interactive_loop env chat_fn (Line l # inputs) state x =
     (let user_input = strip l in
      if str_lower env user_input \<in> set exit_tokens then (Exited, state, x)
      else if user_input = [] then interactive_loop env chat_fn inputs state x
      else
        (case chat_fn user_input state x of
           (Inl e, x1) \<Rightarrow> interactive_loop env chat_fn inputs state x1
         | (Inr (response, state1), x1) \<Rightarrow> interactive_loop env chat_fn inputs (Some state1) x1))"

definition todo_run_interactive ::
  "env \<Rightarrow> user_input list \<Rightarrow> todo_state store \<times> mcp_agent \<times> world
     \<Rightarrow> loop_status \<times> nat option \<times> todo_state store \<times> mcp_agent \<times> world" where
  "todo_run_interactive env inputs x =
     interactive_loop env (\<lambda>message state (h, a, w). todo_chat env message state h a w) inputs None x"

definition gmail_run_interactive ::
  "env \<Rightarrow> user_input list \<Rightarrow> gmail_state store \<times> mcp_agent \<times> world
     \<Rightarrow> loop_status \<times> nat option \<times> gmail_state store \<times> mcp_agent \<times> world" where
  "gmail_run_interactive env inputs x =
     interactive_loop env (\<lambda>message state (h, a, w). gmail_chat env message state h a w) inputs None x"

definition master_run_interactive ::
  "env \<Rightarrow> user_input list \<Rightarrow> master_state store \<times> master_agent \<times> world
     \<Rightarrow> loop_status \<times> nat option \<times> master_state store \<times> master_agent \<times> world" where
  "master_run_interactive env inputs x =
     interactive_loop env (\<lambda>message state (h, m, w). master_chat env message state h m w) inputs None x"

section \<open>Notions for the statements\<close>

text \<open>The number of attempts to open the connection of an agent that a log holds.\<close>

definition connects :: "agent_id \<Rightarrow> world \<Rightarrow> nat" where
  "connects aid w = length (filter (\<lambda>e. e = Connect aid) w)"

text \<open>
  The reply of the tool server to the call that \<open>call_mcp_tool\<close> makes, when it comes to
  make it: at once when the agent is connected, after the connection has been opened
  otherwise.
\<close>

definition reply_of ::
  "env \<Rightarrow> agent_id \<Rightarrow> pystr \<Rightarrow> pydict option \<Rightarrow> mcp_agent \<Rightarrow> world
     \<Rightarrow> (exn + mcp_content list) option" where
  "reply_of env aid tool_name params a w =
     (let arguments = (case params of None \<Rightarrow> [] | Some p \<Rightarrow> p) in
      if connected a then
        (if mcp_client a then Some (call_tool env aid w tool_name arguments) else None)
      else
        (case aenter env aid w of
           None \<Rightarrow> Some (call_tool env aid (w @ [Connect aid]) tool_name arguments)
         | Some e \<Rightarrow> None))"

text \<open>The state that \<open>chat\<close> works on: the initial one, or the one at the address passed.\<close>

definition given_state :: "'s \<Rightarrow> nat option \<Rightarrow> 's store \<Rightarrow> 's" where
  "given_state initial state h = (case state of None \<Rightarrow> initial | Some r \<Rightarrow> h ! r)"

text \<open>
  A message summary as the Gmail tool server sends it: a dict whose sender, subject and
  date are strings and whose label ids are a list of strings, where they are present.
\<close>

definition text_field :: "pydict \<Rightarrow> string \<Rightarrow> bool" where
  "text_field d k = (case map_of d (py k) of None \<Rightarrow> True | Some (JStr _) \<Rightarrow> True | Some _ \<Rightarrow> False)"

fun is_str :: "json \<Rightarrow> bool" where
  "is_str (JStr _) = True"
| "is_str _ = False"

fun summary :: "json \<Rightarrow> bool" where
  "summary (JObj d) =
     (text_field d ''from'' \<and> text_field d ''subject'' \<and> text_field d ''date''
      \<and> (case map_of d (py ''labelIds'') of
            None \<Rightarrow> True | Some (JList ls) \<Rightarrow> list_all is_str ls | Some _ \<Rightarrow> False))"
| "summary _ = False"

text \<open>The fields of a summary as the entry of a listing shows them.\<close>

definition text_of :: "json \<Rightarrow> string \<Rightarrow> string \<Rightarrow> pystr" where
  "text_of msg k dflt =
     (case msg of JObj d \<Rightarrow> (case map_of d (py k) of Some (JStr s) \<Rightarrow> s | _ \<Rightarrow> py dflt) | _ \<Rightarrow> py dflt)"

fun the_str :: "json \<Rightarrow> pystr" where
  "the_str (JStr s) = s"
| "the_str _ = []"

definition labels_of :: "json \<Rightarrow> pystr list" where
  "labels_of msg =
     (case msg of
        JObj d \<Rightarrow> (case map_of d (py ''labelIds'') of Some (JList ls) \<Rightarrow> map the_str ls | _ \<Rightarrow> [])
      | _ \<Rightarrow> [])"

definition id_of :: "env \<Rightarrow> json \<Rightarrow> pystr" where
  "id_of env msg =
     (case msg of
        JObj d \<Rightarrow> (case map_of d (py ''id'') of Some v \<Rightarrow> fmt env v | None \<Rightarrow> py ''Unknown'')
      | _ \<Rightarrow> py ''Unknown'')"

text \<open>The entry with number \<open>i\<close> of a listing of messages.\<close>

definition entry :: "env \<Rightarrow> nat \<Rightarrow> json \<Rightarrow> pystr" where
  "entry env i msg =
     str_nat i @ py ''. From: '' @ take 30 (text_of msg ''from'' ''Unknown'') @ nl
     @ py ''   Subject: '' @ take 50 (text_of msg ''subject'' ''No Subject'') @ nl
     @ py ''   Date: '' @ take 20 (text_of msg ''date'' ''Unknown'') @ nl
     @ py ''   Labels: '' @ join (py '', '') (take 3 (labels_of msg)) @ nl
     @ py ''   ID: '' @ id_of env msg @ nl @ nl"

text \<open>How a loop stands after a list of inputs, read off the inputs alone.\<close>

fun stops :: "env \<Rightarrow> user_input list \<Rightarrow> loop_status" where
  "stops env [] = Waiting"
| "stops env (Interrupt # inputs) = Interrupted"
| "stops env (InputError e # inputs) = stops env inputs"
| "stops env (Line l # inputs) =
     (if str_lower env (strip l) \<in> set exit_tokens then Exited else stops env inputs)"

section \<open>Concrete collaborators, for evaluating the definitions\<close>

definition ascii_lower :: "pystr \<Rightarrow> pystr" where
  "ascii_lower s = map (\<lambda>c. if 65 \<le> c \<and> c \<le> 90 then c + 32 else c) s"

text \<open>
  A world in which every collaborator works: the language model answers \<open>Done.\<close> and
  requests no tool, connections open, the tool server replies \<open>{}\<close>.
\<close>

definition env0 :: env where
  "env0 = \<lparr>
     ainvoke_llm = (\<lambda>aid w ms. Inr (py ''Done.'', [])),
     aenter = (\<lambda>aid w. None),
     call_tool = (\<lambda>aid w tn ps. Inr [TextContent (py ''{}'')]),
     loads = (\<lambda>s. if s = py ''{}'' then Inr (JObj []) else Inl (LibraryError (py ''Expecting value''))),
     repr = (\<lambda>v. py ''...''),
     builtin_str = (\<lambda>e. py ''error''),
     str_lower = ascii_lower,
     system_prompt = (\<lambda>aid. py ''You are an assistant.''),
     recursion_limit = 25,
     invalid_tool = (\<lambda>n. py ''Error: '' @ n @ py '' is not a valid tool''),
     handle_tool_error = (\<lambda>e. None) \<rparr>"

text \<open>The same world with a tool server that refuses connections.\<close>

definition env_down :: env where
  "env_down = env0\<lparr>aenter := (\<lambda>aid w. Some (LibraryError (py ''Connection refused'')))\<rparr>"

text \<open>An agent object before its connection is opened, and one after.\<close>

definition agent0 :: mcp_agent where
  "agent0 = \<lparr>connected = False, mcp_client = False, graph = True, current_state = None\<rparr>"

definition agent1 :: mcp_agent where
  "agent1 = \<lparr>connected = True, mcp_client = True, graph = True, current_state = None\<rparr>"

text \<open>The same world with a tool server whose replies hold no item, or two items.\<close>

definition env_empty :: env where
  "env_empty = env0\<lparr>call_tool := (\<lambda>aid w tn ps. Inr [])\<rparr>"

definition env_two_items :: env where
  "env_two_items = env0\<lparr>call_tool := (\<lambda>aid w tn ps. Inr [TextContent (py ''{}''), TextContent (py ''junk'')])\<rparr>"

text \<open>A Gmail tool server whose reply to every call lists two messages.\<close>

definition msg_a :: json where
  "msg_a = JObj [(py ''id'', js ''m1''), (py ''subject'', js ''Hello''),
                 (py ''from'', js ''alice@example.com''), (py ''date'', js ''Mon, 1 Jan''),
                 (py ''labelIds'', JList [js ''INBOX'', js ''UNREAD''])]"

definition msg_b :: json where
  "msg_b = JObj [(py ''id'', js ''m2''), (py ''subject'', js ''Lunch''),
                 (py ''from'', js ''bob@example.com''), (py ''date'', js ''Tue, 2 Jan'')]"

definition env_mail :: env where
  "env_mail = env0\<lparr>
     call_tool := (\<lambda>aid w tn ps. Inr [TextContent (py ''two messages'')]),
     loads := (\<lambda>s. Inr (JObj [(py ''messages'', JList [msg_a, msg_b])]))\<rparr>"

text \<open>
  For the statements about \<open>chat\<close>: an address that is passed is one of the store; the
  store after the state that \<open>chat\<close> works on has been written.
\<close>

definition valid_address :: "nat option \<Rightarrow> 's store \<Rightarrow> bool" where
  "valid_address state h = (case state of None \<Rightarrow> True | Some r \<Rightarrow> r < length h)"

definition stored :: "nat option \<Rightarrow> 's store \<Rightarrow> 's \<Rightarrow> 's store" where
  "stored state h st = (case state of None \<Rightarrow> h @ [st] | Some r \<Rightarrow> h[r := st])"

text \<open>A master agent whose sub-agents are connected.\<close>

definition master0 :: master_agent where
  "master0 = \<lparr>todo_agent = Some agent1, gmail_agent = Some agent1, graph_compiled = True,
               todo_states = [], gmail_states = []\<rparr>"

text \<open>
  A world in which the master's language model requests one call of the tool named,
  with the request \<open>show my tasks\<close>, and the sub-agents' models answer without a tool
  call.
\<close>

definition env_delegate :: "pystr \<Rightarrow> env" where
  "env_delegate tool = env0\<lparr>ainvoke_llm := (\<lambda>aid w ms.
     if aid = Master
     then Inr ([], [\<lparr>name = tool, args = [(py ''user_request'', JStr (py ''show my tasks''))],
                     call_id = py ''call_1''\<rparr>])
     else Inr (py ''You have no tasks.'', []))\<rparr>"

text \<open>An agent object whose graph has not been compiled.\<close>

definition agent_unready :: mcp_agent where
  "agent_unready = \<lparr>connected = False, mcp_client = False, graph = False, current_state = None\<rparr>"

text \<open>The tool call that the master's language model requests in that world.\<close>

definition request_tc :: "pystr \<Rightarrow> tool_call" where
  "request_tc tool = \<lparr>name = tool, args = [(py ''user_request'', JStr (py ''show my tasks''))],
                       call_id = py ''call_1''\<rparr>"

text \<open>
  The same world with a tool server whose reply is not JSON, and with one whose calls
  time out.
\<close>

definition env_junk :: env where
  "env_junk = env0\<lparr>call_tool := (\<lambda>aid w tn ps. Inr [TextContent (py ''junk'')])\<rparr>"

definition env_timeout :: env where
  "env_timeout = env0\<lparr>call_tool := (\<lambda>aid w tn ps. Inl (LibraryError (py ''timed out'')))\<rparr>"

text \<open>
  A tool call without arguments for the listing tool of a sub-agent, and a world in which
  the language model requests it when it has seen the system message and one more
  message, and answers \<open>Nothing there.\<close> to any other history.
\<close>

definition listing_tc :: "agent_id \<Rightarrow> tool_call" where
  "listing_tc aid = \<lparr>name = (if aid = Gmail then py ''list_labels'' else py ''list_task_lists''),
                      args = [], call_id = py ''call_1''\<rparr>"

definition env_listing :: env where
  "env_listing = env0\<lparr>ainvoke_llm := (\<lambda>aid w ms.
     if length ms = 2 then Inr ([], [listing_tc aid]) else Inr (py ''Nothing there.'', []))\<rparr>"

text \<open>A state whose history ends with a reply of the model that requests one tool call.\<close>

definition requesting :: "'a agent_state_scheme \<Rightarrow> tool_call \<Rightarrow> 'a agent_state_scheme" where
  "requesting initial tc =
     initial\<lparr>messages := [HumanMessage (py ''show my lists''), AIMessage [] [tc]]\<rparr>"

(*THEOREMS*)
section \<open>Facts about the tool invoker\<close>

lemma on_error_dict:
  "on_error env label (JObj [(py ''error'', v)]) rest = Inr (label @ fmt env v)"
  by (simp add: on_error_def seq_def)

lemma call_mcp_tool_raised:
  "call_mcp_tool_body env aid tn ps a w = (Inl e, a1, w1) \<Longrightarrow>
   call_mcp_tool env aid tn ps a w =
     (JObj [(py ''error'', JStr (py ''Error calling MCP tool '' @ tn @ py '': '' @ str_exn env e))], a1, w1)"
  by (simp add: call_mcp_tool_def)

lemma invoke_error:
  assumes "call_mcp_tool_body env (owner c) (remote_tool c) (remote_params c) a w = (Inl e, a1, w1)"
  shows "invoke env c a w =
     (Inr (error_label c @ py ''Error calling MCP tool '' @ remote_tool c @ py '': '' @ str_exn env e), a1, w1)"
  using call_mcp_tool_raised[OF assms]
  by (cases c)
     (simp_all add: on_error_dict list_messages_def get_message_def search_messages_def
        send_message_def reply_to_message_def mark_message_as_read_def mark_message_as_unread_def
        add_label_to_message_def remove_label_from_message_def list_labels_def list_task_lists_def
        create_task_list_def delete_task_list_def list_tasks_def create_task_def update_task_def
        complete_task_def uncomplete_task_def delete_task_def Let_def)

lemma connects_append: "connects aid (w @ v) = connects aid w + connects aid v"
  by (simp add: connects_def)

lemma world_connect_mcp:
  "snd (snd (connect_mcp env aid a w)) = w @ (if connected a then [] else [Connect aid])"
  by (simp add: connect_mcp_def split: option.splits)

lemma world_call_mcp_tool_body:
  "snd (snd (call_mcp_tool_body env aid tool_name params a w))
     = w @ (if connected a then [] else [Connect aid])
         @ (if reply_of env aid tool_name params a w = None then []
            else [CallTool aid tool_name (case params of None \<Rightarrow> [] | Some p \<Rightarrow> p)])"
proof (cases "connected a")
  case True
  then show ?thesis
    by (simp add: call_mcp_tool_body_def reply_of_def Let_def)
next
  case False
  then show ?thesis
    by (cases "aenter env aid w")
       (simp_all add: call_mcp_tool_body_def reply_of_def connect_mcp_def Let_def)
qed

lemma world_call_mcp_tool:
  "snd (snd (call_mcp_tool env aid tool_name params a w))
     = snd (snd (call_mcp_tool_body env aid tool_name params a w))"
  by (cases "call_mcp_tool_body env aid tool_name params a w" rule: prod_cases3)
     (simp add: call_mcp_tool_def split: sum.splits)

lemma reply_body:
  "reply_of env aid tool_name params a w = Some reply \<Longrightarrow>
   fst (call_mcp_tool_body env aid tool_name params a w) = seq reply (unwrap_result env)"
proof (cases "connected a")
  case True
  assume "reply_of env aid tool_name params a w = Some reply"
  with True show ?thesis
    by (cases "mcp_client a") (simp_all add: call_mcp_tool_body_def reply_of_def Let_def)
next
  case False
  assume "reply_of env aid tool_name params a w = Some reply"
  with False show ?thesis
    by (cases "aenter env aid w")
       (simp_all add: call_mcp_tool_body_def reply_of_def connect_mcp_def Let_def)
qed

lemma reply_of_loads:
  "reply_of (env\<lparr>loads := f\<rparr>) aid tool_name params a w = reply_of env aid tool_name params a w"
  by (simp add: reply_of_def Let_def split: option.splits)

lemma fst_call_mcp_tool:
  "fst (call_mcp_tool env aid tool_name params a w) =
     (case fst (call_mcp_tool_body env aid tool_name params a w) of
        Inr v \<Rightarrow> v
      | Inl e \<Rightarrow> JObj [(py ''error'',
                  JStr (py ''Error calling MCP tool '' @ tool_name @ py '': '' @ str_exn env e))])"
  by (cases "call_mcp_tool_body env aid tool_name params a w" rule: prod_cases3)
     (simp add: call_mcp_tool_def split: sum.splits)

lemma call_mcp_tool_reply:
  "reply_of env aid tool_name params a w = Some (Inr items) \<Longrightarrow>
   fst (call_mcp_tool env aid tool_name params a w) =
     (case unwrap_result env items of
        Inr v \<Rightarrow> v
      | Inl e \<Rightarrow> JObj [(py ''error'',
                  JStr (py ''Error calling MCP tool '' @ tool_name @ py '': '' @ str_exn env e))])"
  by (simp add: fst_call_mcp_tool reply_body seq_def)

lemma body_refused:
  "\<not> connected a \<Longrightarrow> aenter env aid w = Some e \<Longrightarrow>
   call_mcp_tool_body env aid tool_name params a w =
     (Inl (RuntimeError (connect_failed aid @ str_exn env e)), a\<lparr>mcp_client := True\<rparr>,
      w @ [Connect aid])"
  by (simp add: call_mcp_tool_body_def connect_mcp_def)

lemma body_no_client:
  "connected a \<Longrightarrow> \<not> mcp_client a \<Longrightarrow>
   call_mcp_tool_body env aid tool_name params a w = (Inl AttributeError, a, w)"
  by (simp add: call_mcp_tool_body_def)

lemma body_reply_raises:
  assumes "reply_of env aid tool_name params a w = Some reply"
    and "seq reply (unwrap_result env) = Inl e"
  shows "\<exists>a1 w1. call_mcp_tool_body env aid tool_name params a w = (Inl e, a1, w1)"
proof -
  from reply_body [OF assms(1)] assms(2)
  have "fst (call_mcp_tool_body env aid tool_name params a w) = Inl e" by simp
  then show ?thesis
    by (cases "call_mcp_tool_body env aid tool_name params a w" rule: prod_cases3) simp
qed

lemma tool_reply_raises:
  assumes "reply_of env aid tool_name params a w = Some reply"
    and "seq reply (unwrap_result env) = Inl e"
  shows "fst (call_mcp_tool env aid tool_name params a w) =
           JObj [(py ''error'',
                  JStr (py ''Error calling MCP tool '' @ tool_name @ py '': '' @ str_exn env e))]"
proof -
  from body_reply_raises [OF assms] obtain a1 w1
    where "call_mcp_tool_body env aid tool_name params a w = (Inl e, a1, w1)" by blast
  from call_mcp_tool_raised [OF this] show ?thesis by simp
qed

lemma invoke_reply_raises:
  assumes "reply_of env (owner c) (remote_tool c) (remote_params c) a w = Some reply"
    and "seq reply (unwrap_result env) = Inl e"
  shows "fst (invoke env c a w) =
           Inr (error_label c @ py ''Error calling MCP tool '' @ remote_tool c @ py '': ''
                @ str_exn env e)"
proof -
  from body_reply_raises [OF assms] obtain a1 w1
    where "call_mcp_tool_body env (owner c) (remote_tool c) (remote_params c) a w = (Inl e, a1, w1)"
    by blast
  from invoke_error [OF this] show ?thesis by simp
qed

lemma unwrap_raises:
  "seq (Inl e) (unwrap_result env) = Inl e"
  "seq (Inr (OtherContent # later)) (unwrap_result env) = Inl AttributeError"
  "loads env text_content = Inl e \<Longrightarrow>
     seq (Inr (TextContent text_content # later)) (unwrap_result env) = Inl e"
  "loads env text_content = Inr parsed_result \<Longrightarrow> py_in (py ''error'') parsed_result = Inl e \<Longrightarrow>
     seq (Inr (TextContent text_content # later)) (unwrap_result env) = Inl e"
  by (simp_all add: seq_def unwrap_result_def)

lemma call_mcp_tool_outcomes:
  "fst (call_mcp_tool env aid tool_name params a w) = no_result
   \<or> (\<exists>x. fst (call_mcp_tool env aid tool_name params a w) =
          JObj [(py ''error'',
                 JStr (py ''Error calling MCP tool '' @ tool_name @ py '': '' @ str_exn env x))])
   \<or> (\<exists>t. loads env t = Inr (fst (call_mcp_tool env aid tool_name params a w)))"
proof (cases "fst (call_mcp_tool_body env aid tool_name params a w)")
  case (Inl e)
  then show ?thesis by (auto simp add: fst_call_mcp_tool)
next
  case (Inr v)
  then have r: "fst (call_mcp_tool env aid tool_name params a w) = v"
    by (simp add: fst_call_mcp_tool)
  show ?thesis
  proof (cases "reply_of env aid tool_name params a w")
    case None
    have "\<exists>e. fst (call_mcp_tool_body env aid tool_name params a w) = Inl e"
    proof (cases "connected a")
      case True
      with None show ?thesis
        by (cases "mcp_client a") (simp_all add: reply_of_def call_mcp_tool_body_def Let_def)
    next
      case False
      with None show ?thesis
        by (cases "aenter env aid w")
           (simp_all add: reply_of_def call_mcp_tool_body_def connect_mcp_def Let_def)
    qed
    with Inr show ?thesis by simp
  next
    case (Some reply)
    from reply_body [OF Some] Inr have s: "seq reply (unwrap_result env) = Inr v" by simp
    then obtain items where i: "reply = Inr items" and u: "unwrap_result env items = Inr v"
      by (cases reply) (simp_all add: seq_def)
    show ?thesis
    proof (cases items)
      case Nil
      with u r show ?thesis by (simp add: unwrap_result_def)
    next
      case (Cons item later)
      show ?thesis
      proof (cases item)
        case (TextContent t)
        with Cons u have "loads env t = Inr v"
          by (cases "loads env t") (auto simp add: unwrap_result_def seq_def split: sum.splits)
        with r show ?thesis by auto
      next
        case OtherContent
        with Cons u show ?thesis by (simp add: unwrap_result_def)
      qed
    qed
  qed
qed

lemma agent_call_mcp_tool:
  "fst (snd (call_mcp_tool env aid tool_name params a w)) =
     (if connected a then a
      else case aenter env aid w of
             None \<Rightarrow> a\<lparr>mcp_client := True, connected := True\<rparr>
           | Some e \<Rightarrow> a\<lparr>mcp_client := True\<rparr>)"
proof -
  have b: "fst (snd (call_mcp_tool_body env aid tool_name params a w)) =
     (if connected a then a
      else case aenter env aid w of
             None \<Rightarrow> a\<lparr>mcp_client := True, connected := True\<rparr>
           | Some e \<Rightarrow> a\<lparr>mcp_client := True\<rparr>)"
  proof (cases "connected a")
    case True
    then show ?thesis by (simp add: call_mcp_tool_body_def Let_def)
  next
    case False
    then show ?thesis
      by (cases "aenter env aid w") (simp_all add: call_mcp_tool_body_def connect_mcp_def Let_def)
  qed
  show ?thesis
    by (cases "call_mcp_tool_body env aid tool_name params a w" rule: prod_cases3)
       (use b in \<open>simp add: call_mcp_tool_def split: sum.splits\<close>)
qed

lemma connects_call_mcp_tool:
  "connects aid (snd (snd (call_mcp_tool env aid tool_name params a w)))
     = connects aid w + (if connected a then 0 else 1)"
  by (simp add: world_call_mcp_tool world_call_mcp_tool_body connects_append)
     (simp add: connects_def)

lemma connects_connect_mcp:
  "connects aid (snd (snd (connect_mcp env aid a w)))
     = connects aid w + (if connected a then 0 else 1)"
  by (simp add: world_connect_mcp connects_append) (simp add: connects_def)

lemma connect_mcp_cases:
  "connected a \<Longrightarrow> connect_mcp env aid a w = (Inr (), a, w)"
  "\<not> connected a \<Longrightarrow> aenter env aid w = None \<Longrightarrow>
     connect_mcp env aid a w = (Inr (), a\<lparr>mcp_client := True, connected := True\<rparr>, w @ [Connect aid])"
  "\<not> connected a \<Longrightarrow> aenter env aid w = Some e \<Longrightarrow>
     connect_mcp env aid a w =
       (Inl (RuntimeError (connect_failed aid @ str_exn env e)), a\<lparr>mcp_client := True\<rparr>,
        w @ [Connect aid])"
  by (simp_all add: connect_mcp_def)

section \<open>Failures of the tool invoker are returned, not raised\<close>

text \<open>
  C3. \<open>call_mcp_tool\<close> returns a value on every input: the dict for an empty reply, a
  dict with the key \<open>error\<close>, or what \<open>json.loads\<close> made of the reply. Every failure
  of a collaborator gives the dict \<open>{"error": "Error calling MCP tool <name>: <str(e)>"}\<close>:
  a connection that is refused (with the text \<open>Failed to initialize ... MCP server\<close>
  and the agent left unconnected), a missing client, a call of the remote tool that
  raises, a first content item without text, a text that \<open>json.loads\<close> rejects, and a
  parsed value that is no container. In each of these cases every one of the nineteen
  adapters returns its error label followed by that text, and does not raise.
\<close>

theorem call_mcp_tool_contains_failures:
  "(\<not> connected a \<and> aenter env aid w = Some e \<longrightarrow>
      call_mcp_tool env aid tool_name params a w =
        (JObj [(py ''error'', JStr (py ''Error calling MCP tool '' @ tool_name @ py '': '' @ connect_failed aid @ str_exn env e))],
         a\<lparr>mcp_client := True\<rparr>, w @ [Connect aid]))
   \<and> (connected a \<and> \<not> mcp_client a \<longrightarrow>
      call_mcp_tool env aid tool_name params a w =
        (JObj [(py ''error'', JStr (py ''Error calling MCP tool '' @ tool_name @ py '': '' @ str_exn env AttributeError))], a, w))
   \<and> (reply_of env aid tool_name params a w = Some (Inl e) \<longrightarrow>
      fst (call_mcp_tool env aid tool_name params a w) =
        JObj [(py ''error'', JStr (py ''Error calling MCP tool '' @ tool_name @ py '': '' @ str_exn env e))])
   \<and> (reply_of env aid tool_name params a w = Some (Inr (OtherContent # later)) \<longrightarrow>
      fst (call_mcp_tool env aid tool_name params a w) =
        JObj [(py ''error'', JStr (py ''Error calling MCP tool '' @ tool_name @ py '': '' @ str_exn env AttributeError))])
   \<and> (reply_of env aid tool_name params a w = Some (Inr (TextContent text_content # later))
      \<and> loads env text_content = Inl e \<longrightarrow>
      fst (call_mcp_tool env aid tool_name params a w) =
        JObj [(py ''error'', JStr (py ''Error calling MCP tool '' @ tool_name @ py '': '' @ str_exn env e))])
   \<and> (reply_of env aid tool_name params a w = Some (Inr (TextContent text_content # later))
      \<and> loads env text_content = Inr parsed_result
      \<and> py_in (py ''error'') parsed_result = Inl e \<longrightarrow>
      fst (call_mcp_tool env aid tool_name params a w) =
        JObj [(py ''error'', JStr (py ''Error calling MCP tool '' @ tool_name @ py '': '' @ str_exn env e))])
   \<and> (fst (call_mcp_tool env aid tool_name params a w) = no_result
      \<or> (\<exists>x. fst (call_mcp_tool env aid tool_name params a w) =
             JObj [(py ''error'', JStr (py ''Error calling MCP tool '' @ tool_name @ py '': '' @ str_exn env x))])
      \<or> (\<exists>t. loads env t = Inr (fst (call_mcp_tool env aid tool_name params a w))))
   \<and> (\<not> connected a \<and> aenter env (owner c) w = Some e \<longrightarrow>
      invoke env c a w =
        (Inr (error_label c @ py ''Error calling MCP tool '' @ remote_tool c @ py '': '' @ connect_failed (owner c) @ str_exn env e),
         a\<lparr>mcp_client := True\<rparr>, w @ [Connect (owner c)]))
   \<and> (connected a \<and> \<not> mcp_client a \<longrightarrow>
      invoke env c a w =
        (Inr (error_label c @ py ''Error calling MCP tool '' @ remote_tool c @ py '': '' @ str_exn env AttributeError), a, w))
   \<and> (reply_of env (owner c) (remote_tool c) (remote_params c) a w = Some (Inl e) \<longrightarrow>
      fst (invoke env c a w) =
        Inr (error_label c @ py ''Error calling MCP tool '' @ remote_tool c @ py '': '' @ str_exn env e))
   \<and> (reply_of env (owner c) (remote_tool c) (remote_params c) a w
        = Some (Inr (OtherContent # later)) \<longrightarrow>
      fst (invoke env c a w) =
        Inr (error_label c @ py ''Error calling MCP tool '' @ remote_tool c @ py '': '' @ str_exn env AttributeError))
   \<and> (reply_of env (owner c) (remote_tool c) (remote_params c) a w
        = Some (Inr (TextContent text_content # later))
      \<and> loads env text_content = Inl e \<longrightarrow>
      fst (invoke env c a w) =
        Inr (error_label c @ py ''Error calling MCP tool '' @ remote_tool c @ py '': '' @ str_exn env e))
   \<and> (reply_of env (owner c) (remote_tool c) (remote_params c) a w
        = Some (Inr (TextContent text_content # later))
      \<and> loads env text_content = Inr parsed_result
      \<and> py_in (py ''error'') parsed_result = Inl e \<longrightarrow>
      fst (invoke env c a w) =
        Inr (error_label c @ py ''Error calling MCP tool '' @ remote_tool c @ py '': '' @ str_exn env e))"
proof (intro conjI impI)
  show "fst (call_mcp_tool env aid tool_name params a w) = no_result
      \<or> (\<exists>x. fst (call_mcp_tool env aid tool_name params a w) =
             JObj [(py ''error'', JStr (py ''Error calling MCP tool '' @ tool_name @ py '': '' @ str_exn env x))])
      \<or> (\<exists>t. loads env t = Inr (fst (call_mcp_tool env aid tool_name params a w)))"
    by (rule call_mcp_tool_outcomes)
qed (auto simp add: call_mcp_tool_raised [OF body_refused] call_mcp_tool_raised [OF body_no_client]
       invoke_error [OF body_refused] invoke_error [OF body_no_client]
       tool_reply_raises unwrap_raises invoke_reply_raises)

theorem call_mcp_tool_contains_failures_witness:
  "invoke env_down (SendMessage (py ''a@b.c'') (py ''Hi'') (py ''Hello'') [] []) agent0 [] =
     (Inr (py ''Error sending message: Error calling MCP tool send_message: Failed to initialize Gmail MCP server: Connection refused''),
      agent0\<lparr>mcp_client := True\<rparr>, [Connect Gmail])
   \<and> call_mcp_tool env_down Gmail (py ''send_message'') None agent0 [] =
     (JObj [(py ''error'', JStr (py ''Error calling MCP tool send_message: Failed to initialize Gmail MCP server: Connection refused''))],
      agent0\<lparr>mcp_client := True\<rparr>, [Connect Gmail])
   \<and> fst (call_mcp_tool env_timeout Gmail (py ''send_message'') None agent1 []) =
     JObj [(py ''error'', JStr (py ''Error calling MCP tool send_message: timed out''))]
   \<and> fst (invoke env_junk (SendMessage (py ''a@b.c'') (py ''Hi'') (py ''Hello'') [] []) agent1 []) =
     Inr (py ''Error sending message: Error calling MCP tool send_message: Expecting value'')"
proof -
  let ?c = "SendMessage (py ''a@b.c'') (py ''Hi'') (py ''Hello'') [] []"
  have d: "\<not> connected agent0 \<and> aenter env_down Gmail [] = Some (LibraryError (py ''Connection refused''))"
    by (simp add: agent0_def env_down_def env0_def)
  have d': "\<not> connected agent0
     \<and> aenter env_down (owner ?c) [] = Some (LibraryError (py ''Connection refused''))"
    by (simp add: agent0_def env_down_def env0_def)
  have t: "reply_of env_timeout Gmail (py ''send_message'') None agent1 []
             = Some (Inl (LibraryError (py ''timed out'')))"
    by (simp add: reply_of_def env_timeout_def env0_def agent1_def)
  have j: "reply_of env_junk (owner ?c) (remote_tool ?c) (remote_params ?c) agent1 []
             = Some (Inr (TextContent (py ''junk'') # []))
           \<and> loads env_junk (py ''junk'') = Inl (LibraryError (py ''Expecting value''))"
    by (simp add: reply_of_def env_junk_def env0_def agent1_def py_def)
  have 1: "invoke env_down ?c agent0 [] =
        (Inr (error_label ?c @ py ''Error calling MCP tool '' @ remote_tool ?c @ py '': ''
              @ connect_failed (owner ?c) @ str_exn env_down (LibraryError (py ''Connection refused''))),
         agent0\<lparr>mcp_client := True\<rparr>, [] @ [Connect (owner ?c)])"
    by (rule call_mcp_tool_contains_failures [where c = ?c, THEN conjunct2, THEN conjunct2, THEN conjunct2, THEN conjunct2, THEN conjunct2, THEN conjunct2, THEN conjunct2, THEN conjunct1, rule_format, OF d'])
  have 2: "call_mcp_tool env_down Gmail (py ''send_message'') None agent0 [] =
        (JObj [(py ''error'', JStr (py ''Error calling MCP tool '' @ py ''send_message'' @ py '': ''
                 @ connect_failed Gmail @ str_exn env_down (LibraryError (py ''Connection refused''))))],
         agent0\<lparr>mcp_client := True\<rparr>, [] @ [Connect Gmail])"
    by (rule call_mcp_tool_contains_failures [where c = ?c, THEN conjunct1, rule_format, OF d])
  have 3: "fst (call_mcp_tool env_timeout Gmail (py ''send_message'') None agent1 []) =
        JObj [(py ''error'', JStr (py ''Error calling MCP tool '' @ py ''send_message'' @ py '': ''
                 @ str_exn env_timeout (LibraryError (py ''timed out''))))]"
    by (rule call_mcp_tool_contains_failures [where c = ?c, THEN conjunct2, THEN conjunct2, THEN conjunct1, rule_format, OF t])
  have 4: "fst (invoke env_junk ?c agent1 []) =
        Inr (error_label ?c @ py ''Error calling MCP tool '' @ remote_tool ?c @ py '': ''
             @ str_exn env_junk (LibraryError (py ''Expecting value'')))"
    by (rule call_mcp_tool_contains_failures [where c = ?c, THEN conjunct2, THEN conjunct2, THEN conjunct2, THEN conjunct2, THEN conjunct2, THEN conjunct2, THEN conjunct2, THEN conjunct2, THEN conjunct2, THEN conjunct2, THEN conjunct2, THEN conjunct1, rule_format, OF j])
  from 1 2 3 4 show ?thesis
    by (simp add: connect_failed_def py_def)
qed

section \<open>Opening the connection\<close>

text \<open>
  C6. \<open>connect_mcp\<close> and \<open>call_mcp_tool\<close> make no attempt to open the connection when
  the agent's flag \<open>connected\<close> is set, and exactly one when it is not; in
  \<open>call_mcp_tool\<close> the attempt comes before the tool call, which is made when the
  connection is open. \<open>connect_mcp\<close> on a connected agent changes nothing; an attempt
  that succeeds sets the flag, one that fails raises \<open>RuntimeError\<close> and leaves it
  unset. So after a call that opened the connection, a second call of \<open>connect_mcp\<close>
  or \<open>call_mcp_tool\<close> makes no further attempt.
\<close>

theorem connection_is_idempotent:
  "snd (snd (connect_mcp env aid a w)) = w @ (if connected a then [] else [Connect aid])
   \<and> connects aid (snd (snd (connect_mcp env aid a w)))
       = connects aid w + (if connected a then 0 else 1)
   \<and> snd (snd (call_mcp_tool env aid tool_name params a w))
       = w @ (if connected a then [] else [Connect aid])
           @ (if reply_of env aid tool_name params a w = None then []
              else [CallTool aid tool_name (case params of None \<Rightarrow> [] | Some p \<Rightarrow> p)])
   \<and> connects aid (snd (snd (call_mcp_tool env aid tool_name params a w)))
       = connects aid w + (if connected a then 0 else 1)
   \<and> (connected a \<longrightarrow> connect_mcp env aid a w = (Inr (), a, w))
   \<and> (\<not> connected a \<and> aenter env aid w = None \<longrightarrow>
        connect_mcp env aid a w
          = (Inr (), a\<lparr>mcp_client := True, connected := True\<rparr>, w @ [Connect aid]))
   \<and> (\<not> connected a \<and> aenter env aid w = Some e \<longrightarrow>
        connect_mcp env aid a w
          = (Inl (RuntimeError (connect_failed aid @ str_exn env e)), a\<lparr>mcp_client := True\<rparr>,
             w @ [Connect aid]))
   \<and> fst (snd (call_mcp_tool env aid tool_name params a w)) =
        (if connected a then a
         else case aenter env aid w of
                None \<Rightarrow> a\<lparr>mcp_client := True, connected := True\<rparr>
              | Some e \<Rightarrow> a\<lparr>mcp_client := True\<rparr>)
   \<and> (\<not> connected a \<and> aenter env aid w = None \<longrightarrow>
        connected (fst (snd (connect_mcp env aid a w)))
        \<and> connects aid (snd (snd (connect_mcp env aid (fst (snd (connect_mcp env aid a w)))
                                   (snd (snd (connect_mcp env aid a w))))))
            = connects aid w + 1
        \<and> connected (fst (snd (call_mcp_tool env aid tool_name params a w)))
        \<and> connects aid (snd (snd (call_mcp_tool env aid next_tool next_params
                                   (fst (snd (call_mcp_tool env aid tool_name params a w)))
                                   (snd (snd (call_mcp_tool env aid tool_name params a w))))))
            = connects aid w + 1)"
proof (intro conjI impI)
  show "snd (snd (connect_mcp env aid a w)) = w @ (if connected a then [] else [Connect aid])"
    by (rule world_connect_mcp)
  show "connects aid (snd (snd (connect_mcp env aid a w)))
       = connects aid w + (if connected a then 0 else 1)"
    by (rule connects_connect_mcp)
  show "snd (snd (call_mcp_tool env aid tool_name params a w))
       = w @ (if connected a then [] else [Connect aid])
           @ (if reply_of env aid tool_name params a w = None then []
              else [CallTool aid tool_name (case params of None \<Rightarrow> [] | Some p \<Rightarrow> p)])"
    by (simp only: world_call_mcp_tool world_call_mcp_tool_body)
  show "connects aid (snd (snd (call_mcp_tool env aid tool_name params a w)))
       = connects aid w + (if connected a then 0 else 1)"
    by (rule connects_call_mcp_tool)
  show "fst (snd (call_mcp_tool env aid tool_name params a w)) =
        (if connected a then a
         else case aenter env aid w of
                None \<Rightarrow> a\<lparr>mcp_client := True, connected := True\<rparr>
              | Some e \<Rightarrow> a\<lparr>mcp_client := True\<rparr>)"
    by (rule agent_call_mcp_tool)
next
  assume "connected a"
  then show "connect_mcp env aid a w = (Inr (), a, w)" by (rule connect_mcp_cases(1))
next
  assume "\<not> connected a \<and> aenter env aid w = None"
  then show "connect_mcp env aid a w
          = (Inr (), a\<lparr>mcp_client := True, connected := True\<rparr>, w @ [Connect aid])"
    by (simp add: connect_mcp_cases(2))
next
  assume "\<not> connected a \<and> aenter env aid w = Some e"
  then show "connect_mcp env aid a w
          = (Inl (RuntimeError (connect_failed aid @ str_exn env e)), a\<lparr>mcp_client := True\<rparr>,
             w @ [Connect aid])"
    by (simp add: connect_mcp_cases(3))
next
  assume h: "\<not> connected a \<and> aenter env aid w = None"
  then show c1: "connected (fst (snd (connect_mcp env aid a w)))"
    by (simp add: connect_mcp_cases(2))
  from h c1 show "connects aid (snd (snd (connect_mcp env aid (fst (snd (connect_mcp env aid a w)))
                                   (snd (snd (connect_mcp env aid a w))))))
            = connects aid w + 1"
    by (simp add: connects_connect_mcp)
  from h show c2: "connected (fst (snd (call_mcp_tool env aid tool_name params a w)))"
    by (simp add: agent_call_mcp_tool)
  from h c2 show "connects aid (snd (snd (call_mcp_tool env aid next_tool next_params
                                   (fst (snd (call_mcp_tool env aid tool_name params a w)))
                                   (snd (snd (call_mcp_tool env aid tool_name params a w))))))
            = connects aid w + 1"
    by (simp add: connects_call_mcp_tool)
qed

theorem connection_is_idempotent_witness:
  "snd (snd (call_mcp_tool env0 Gmail (py ''list_labels'') None agent0 []))
     = [Connect Gmail, CallTool Gmail (py ''list_labels'') []]
   \<and> snd (snd (call_mcp_tool env0 Gmail (py ''list_labels'') None agent1 []))
     = [CallTool Gmail (py ''list_labels'') []]
   \<and> connects Gmail (snd (snd (call_mcp_tool env0 Gmail (py ''list_labels'') None agent0 []))) = 1
   \<and> connects Gmail (snd (snd (call_mcp_tool env0 Gmail (py ''list_labels'') None agent1 []))) = 0
   \<and> connects Gmail (snd (snd (connect_mcp env0 Gmail agent0 []))) = 1
   \<and> connects Gmail (snd (snd (connect_mcp env0 Gmail agent1 []))) = 0
   \<and> connect_mcp env0 Gmail agent0 [] = (Inr (), agent1, [Connect Gmail])
   \<and> connect_mcp env0 Gmail agent1 [Connect Gmail] = (Inr (), agent1, [Connect Gmail])
   \<and> connect_mcp env_down Gmail agent0 [] =
       (Inl (RuntimeError (py ''Failed to initialize Gmail MCP server: Connection refused'')),
        agent0\<lparr>mcp_client := True\<rparr>, [Connect Gmail])
   \<and> fst (snd (call_mcp_tool env0 Gmail (py ''list_labels'') None agent0 [])) = agent1
   \<and> connects Gmail (snd (snd (call_mcp_tool env0 Gmail (py ''list_messages'') None
         (fst (snd (call_mcp_tool env0 Gmail (py ''list_labels'') None agent0 [])))
         (snd (snd (call_mcp_tool env0 Gmail (py ''list_labels'') None agent0 [])))))) = 1"
proof -
  have a0: "\<not> connected agent0" and a1: "connected agent1"
    and o: "\<not> connected agent0 \<and> aenter env0 Gmail [] = None"
    and u: "agent0\<lparr>mcp_client := True, connected := True\<rparr> = agent1"
    and f: "\<not> connected agent0
            \<and> aenter env_down Gmail [] = Some (LibraryError (py ''Connection refused''))"
    by (simp_all add: agent0_def agent1_def env0_def env_down_def)
  have r: "reply_of env0 Gmail (py ''list_labels'') None agent0 [] \<noteq> None"
    "reply_of env0 Gmail (py ''list_labels'') None agent1 [] \<noteq> None"
    by (simp_all add: reply_of_def agent0_def agent1_def env0_def)
  have s: "connect_failed Gmail @ py ''Connection refused''
       = py ''Failed to initialize Gmail MCP server: Connection refused''"
    by (simp add: connect_failed_def py_def)
  have z: "connects Gmail [] = 0" by (simp add: connects_def)
  note th = connection_is_idempotent [where aid = Gmail and tool_name = "py ''list_labels''"
      and params = None and next_tool = "py ''list_messages''" and next_params = None]
  from th [where env = env0 and a = agent0 and w = "[]", THEN conjunct2, THEN conjunct2, THEN conjunct1] a0 r(1)
  have 1: "snd (snd (call_mcp_tool env0 Gmail (py ''list_labels'') None agent0 []))
             = [Connect Gmail, CallTool Gmail (py ''list_labels'') []]"
    by simp
  from th [where env = env0 and a = agent1 and w = "[]", THEN conjunct2, THEN conjunct2, THEN conjunct1] a1 r(2)
  have 2: "snd (snd (call_mcp_tool env0 Gmail (py ''list_labels'') None agent1 []))
             = [CallTool Gmail (py ''list_labels'') []]"
    by simp
  from th [where env = env0 and a = agent0 and w = "[]", THEN conjunct2, THEN conjunct2, THEN conjunct2, THEN conjunct1] a0 z
  have 3: "connects Gmail (snd (snd (call_mcp_tool env0 Gmail (py ''list_labels'') None agent0 []))) = 1"
    by simp
  from th [where env = env0 and a = agent1 and w = "[]", THEN conjunct2, THEN conjunct2, THEN conjunct2, THEN conjunct1] a1 z
  have 4: "connects Gmail (snd (snd (call_mcp_tool env0 Gmail (py ''list_labels'') None agent1 []))) = 0"
    by simp
  from th [where env = env0 and a = agent0 and w = "[]", THEN conjunct2, THEN conjunct1] a0 z
  have 5: "connects Gmail (snd (snd (connect_mcp env0 Gmail agent0 []))) = 1"
    by simp
  from th [where env = env0 and a = agent1 and w = "[]", THEN conjunct2, THEN conjunct1] a1 z
  have 6: "connects Gmail (snd (snd (connect_mcp env0 Gmail agent1 []))) = 0"
    by simp
  from th [where env = env0 and a = agent0 and w = "[]", THEN conjunct2, THEN conjunct2, THEN conjunct2, THEN conjunct2, THEN conjunct2, THEN conjunct1, rule_format, OF o]
  have 7: "connect_mcp env0 Gmail agent0 [] = (Inr (), agent1, [Connect Gmail])"
    by (simp add: u)
  from th [where env = env0 and a = agent1 and w = "[Connect Gmail]", THEN conjunct2, THEN conjunct2, THEN conjunct2, THEN conjunct2, THEN conjunct1, rule_format, OF a1]
  have 8: "connect_mcp env0 Gmail agent1 [Connect Gmail] = (Inr (), agent1, [Connect Gmail])" .
  from th [where env = env_down and a = agent0 and w = "[]", THEN conjunct2, THEN conjunct2, THEN conjunct2, THEN conjunct2, THEN conjunct2, THEN conjunct2, THEN conjunct1, rule_format, OF f]
  have 9: "connect_mcp env_down Gmail agent0 [] =
       (Inl (RuntimeError (py ''Failed to initialize Gmail MCP server: Connection refused'')),
        agent0\<lparr>mcp_client := True\<rparr>, [Connect Gmail])"
    by (simp add: s)
  from th [where env = env0 and a = agent0 and w = "[]", THEN conjunct2, THEN conjunct2, THEN conjunct2, THEN conjunct2, THEN conjunct2, THEN conjunct2, THEN conjunct2, THEN conjunct1] o
  have 10: "fst (snd (call_mcp_tool env0 Gmail (py ''list_labels'') None agent0 [])) = agent1"
    by (simp add: u)
  from th [where env = env0 and a = agent0 and w = "[]", THEN conjunct2, THEN conjunct2, THEN conjunct2, THEN conjunct2, THEN conjunct2, THEN conjunct2, THEN conjunct2, THEN conjunct2, rule_format, OF o] z
  have 11: "connects Gmail (snd (snd (call_mcp_tool env0 Gmail (py ''list_messages'') None
         (fst (snd (call_mcp_tool env0 Gmail (py ''list_labels'') None agent0 [])))
         (snd (snd (call_mcp_tool env0 Gmail (py ''list_labels'') None agent0 [])))))) = 1"
    by simp
  from 1 2 3 4 5 6 7 8 9 10 11 show ?thesis by blast
qed

section \<open>Reading the reply of the tool server\<close>

text \<open>
  C5. When the reply of the tool server holds no content item, \<open>call_mcp_tool\<close>
  returns the dict \<open>{"error": "No result received from MCP server"}\<close>, whatever
  \<open>json.loads\<close> would do (it is not called). Otherwise the result is read off the
  first item alone: its text is parsed by \<open>json.loads\<close>, and the items after it have
  no influence.
\<close>

theorem first_content_item_only:
  "(reply_of env aid tool_name params a w = Some (Inr []) \<longrightarrow>
      fst (call_mcp_tool env aid tool_name params a w) = no_result
      \<and> py_in (py ''error'') no_result = Inr True
      \<and> (\<forall>f. fst (call_mcp_tool (env\<lparr>loads := f\<rparr>) aid tool_name params a w) = no_result))
   \<and> (reply_of env aid tool_name params a w = Some (Inr (TextContent text_content # later)) \<longrightarrow>
      fst (call_mcp_tool env aid tool_name params a w) =
        (case seq (loads env text_content) (\<lambda>parsed_result.
               seq (py_in (py ''error'') parsed_result) (\<lambda>_. Inr parsed_result)) of
           Inr parsed_result \<Rightarrow> parsed_result
         | Inl e \<Rightarrow> JObj [(py ''error'',
                  JStr (py ''Error calling MCP tool '' @ tool_name @ py '': '' @ str_exn env e))]))
   \<and> (reply_of env aid tool_name params a w = Some (Inr (item # later)) \<longrightarrow>
      fst (call_mcp_tool env aid tool_name params a w) =
        (case unwrap_result env [item] of
           Inr parsed_result \<Rightarrow> parsed_result
         | Inl e \<Rightarrow> JObj [(py ''error'',
                  JStr (py ''Error calling MCP tool '' @ tool_name @ py '': '' @ str_exn env e))]))"
proof (intro conjI impI allI)
  assume r: "reply_of env aid tool_name params a w = Some (Inr [])"
  from call_mcp_tool_reply [OF r]
  show "fst (call_mcp_tool env aid tool_name params a w) = no_result"
    by (simp add: unwrap_result_def)
  show "py_in (py ''error'') no_result = Inr True"
    by (simp add: no_result_def)
  fix f
  from r have "reply_of (env\<lparr>loads := f\<rparr>) aid tool_name params a w = Some (Inr [])"
    by (simp add: reply_of_loads)
  from call_mcp_tool_reply [OF this]
  show "fst (call_mcp_tool (env\<lparr>loads := f\<rparr>) aid tool_name params a w) = no_result"
    by (simp add: unwrap_result_def)
next
  assume r: "reply_of env aid tool_name params a w = Some (Inr (TextContent text_content # later))"
  from call_mcp_tool_reply [OF r]
  show "fst (call_mcp_tool env aid tool_name params a w) =
        (case seq (loads env text_content) (\<lambda>parsed_result.
               seq (py_in (py ''error'') parsed_result) (\<lambda>_. Inr parsed_result)) of
           Inr parsed_result \<Rightarrow> parsed_result
         | Inl e \<Rightarrow> JObj [(py ''error'',
                  JStr (py ''Error calling MCP tool '' @ tool_name @ py '': '' @ str_exn env e))])"
    by (simp add: unwrap_result_def)
next
  assume r: "reply_of env aid tool_name params a w = Some (Inr (item # later))"
  from call_mcp_tool_reply [OF r]
  show "fst (call_mcp_tool env aid tool_name params a w) =
        (case unwrap_result env [item] of
           Inr parsed_result \<Rightarrow> parsed_result
         | Inl e \<Rightarrow> JObj [(py ''error'',
                  JStr (py ''Error calling MCP tool '' @ tool_name @ py '': '' @ str_exn env e))])"
    by (cases item) (simp_all add: unwrap_result_def)
qed

theorem first_content_item_only_witness:
  "fst (call_mcp_tool env_empty Todo (py ''list_task_lists'') None agent1 []) = no_result
   \<and> fst (call_mcp_tool env_two_items Todo (py ''list_task_lists'') None agent1 []) = JObj []"
proof -
  have e: "reply_of env_empty Todo (py ''list_task_lists'') None agent1 [] = Some (Inr [])"
    by (simp add: reply_of_def env_empty_def env0_def agent1_def)
  have t: "reply_of env_two_items Todo (py ''list_task_lists'') None agent1 []
             = Some (Inr (TextContent (py ''{}'') # [TextContent (py ''junk'')]))"
    by (simp add: reply_of_def env_two_items_def env0_def agent1_def)
  have l: "loads env_two_items (py ''{}'') = Inr (JObj [])"
    by (simp add: env_two_items_def env0_def)
  from first_content_item_only [of env_empty Todo "py ''list_task_lists''" None agent1 "[]"] e
  have "fst (call_mcp_tool env_empty Todo (py ''list_task_lists'') None agent1 []) = no_result"
    by simp
  moreover
  from first_content_item_only [of env_two_items Todo "py ''list_task_lists''" None agent1 "[]"
      "py ''{}''" "[TextContent (py ''junk'')]"] t l
  have "fst (call_mcp_tool env_two_items Todo (py ''list_task_lists'') None agent1 []) = JObj []"
    by (simp add: seq_def)
  ultimately show ?thesis by simp
qed

section \<open>The listing of messages\<close>

lemma strs_all_str: "list_all is_str ls \<Longrightarrow> strs ls = Inr (map the_str ls)"
proof (induction ls)
  case Nil
  show ?case by simp
next
  case (Cons v vs)
  then show ?case by (cases v) (simp_all add: seq_def)
qed

lemma list_all_take: "list_all P xs \<Longrightarrow> list_all P (take n xs)"
  by (induction xs arbitrary: n) (auto simp: take_Cons split: nat.splits)

lemma join_labels:
  "list_all is_str ls \<Longrightarrow>
   py_join sep (JList (take n ls)) = Inr (join sep (take n (map the_str ls)))"
  by (simp add: py_join_def seq_def strs_all_str list_all_take take_map)

lemma sliced_text:
  "text_field d k \<Longrightarrow>
   seq (py_get (JObj d) (py k) (js dflt)) (\<lambda>v. seq (slice_to n v) f)
     = f (JStr (take n (text_of (JObj d) k dflt)))"
  by (auto simp add: text_field_def text_of_def seq_def js_def split: option.splits json.splits)

lemma sliced_labels:
  assumes "case map_of d (py ''labelIds'') of
             None \<Rightarrow> True | Some (JList ls) \<Rightarrow> list_all is_str ls | Some _ \<Rightarrow> False"
  shows "seq (py_get (JObj d) (py ''labelIds'') (JList [])) (\<lambda>v.
           seq (slice_to 3 v) (\<lambda>v. seq (py_join sep v) f))
         = f (join sep (take 3 (labels_of (JObj d))))"
proof (cases "map_of d (py ''labelIds'')")
  case None
  then show ?thesis by (simp add: seq_def labels_of_def py_join_def)
next
  case (Some v)
  with assms obtain ls where v: "v = JList ls" and ls: "list_all is_str ls"
    by (cases v) simp_all
  from Some v ls show ?thesis
    by (simp add: seq_def labels_of_def join_labels)
qed

lemma render_message_summary:
  assumes "summary msg"
  shows "render_message env i msg = Inr (entry env i msg)"
proof -
  from assms obtain d where d: "msg = JObj d" by (cases msg) simp_all
  from assms d have f: "text_field d ''from''" and s: "text_field d ''subject''"
    and t: "text_field d ''date''"
    and l: "case map_of d (py ''labelIds'') of
             None \<Rightarrow> True | Some (JList ls) \<Rightarrow> list_all is_str ls | Some _ \<Rightarrow> False"
    by simp_all
  have i: "seq (py_get (JObj d) (py ''id'') (JStr (py ''Unknown''))) g
             = g (case map_of d (py ''id'') of None \<Rightarrow> JStr (py ''Unknown'') | Some v \<Rightarrow> v)" for g
    by (simp add: seq_def)
  have u: "JStr (py ''Unknown'') = js ''Unknown''" "JStr (py ''No Subject'') = js ''No Subject''"
    by (simp_all add: js_def)
  show ?thesis
    unfolding render_message_def d u
    by (simp only: sliced_text [OF f] sliced_text [OF s] sliced_text [OF t] sliced_labels [OF l])
       (simp add: seq_def entry_def id_of_def js_def split: option.splits)
qed

lemma render_each_summaries:
  "list_all summary ms \<Longrightarrow>
   render_each (render_message env) i ms
     = Inr (concat (map (\<lambda>(j, m). entry env j m) (zip [i ..< i + length ms] ms)))"
proof (induction ms arbitrary: i)
  case Nil
  show ?case by simp
next
  case (Cons m ms)
  then have m: "summary m" and ms: "list_all summary ms" by simp_all
  have "[i ..< i + length (m # ms)] = i # [Suc i ..< Suc i + length ms]"
    by (simp add: upt_rec)
  with Cons.IH [OF ms, of "Suc i"] render_message_summary [OF m, of env i]
  show ?case by (simp add: seq_def)
qed

text \<open>
  C7. When the tool server's reply to \<open>list_messages\<close> holds a non-empty list of N
  message summaries, the adapter returns the header \<open>Found N messages\<close> (followed by
  the query, when one was given, and a colon) and then exactly N entries, the entry of
  the i-th message numbered i and holding its lines \<open>From\<close>, \<open>Subject\<close>, \<open>Date\<close>,
  \<open>Labels\<close> and \<open>ID\<close>, with sender, subject and date cut to 30, 50 and 20 characters
  and at most three labels.
\<close>

theorem list_messages_renders_every_message:
  assumes "call_mcp_tool env Gmail (py ''list_messages'')
             (Some [(py ''query'', JStr query), (py ''max_results'', JInt max_results)]) a w
           = (JObj d, a1, w1)"
    and "py ''error'' \<notin> fst ` set d"
    and "map_of d (py ''messages'') = Some (JList msgs)"
    and "msgs \<noteq> []"
    and "list_all summary msgs"
  shows "list_messages env query max_results a w =
           (Inr (py ''Found '' @ str_nat (length msgs) @ py '' messages'' @ for_query query
                 @ py '':'' @ nl @ nl
                 @ concat (map (\<lambda>(i, msg). entry env i msg) (zip [1 ..< 1 + length msgs] msgs))),
            a1, w1)"
  using assms render_each_summaries [of msgs env 1]
  by (simp add: list_messages_def on_error_def seq_def)


lemma call_mail:
  "call_mcp_tool env_mail Gmail (py ''list_messages'') (Some ps) agent1 []
     = (JObj [(py ''messages'', JList [msg_a, msg_b])], agent1, [CallTool Gmail (py ''list_messages'') ps])"
  by (simp add: call_mcp_tool_def call_mcp_tool_body_def env_mail_def env0_def agent1_def
        unwrap_result_def seq_def)

lemma keys_differ: "py ''error'' \<noteq> py ''messages''"
  by (simp add: py_def)

lemma entry_a:
  "entry env_mail 1 msg_a =
     py ''1. From: alice@example.com'' @ nl @ py ''   Subject: Hello'' @ nl
     @ py ''   Date: Mon, 1 Jan'' @ nl @ py ''   Labels: INBOX, UNREAD'' @ nl
     @ py ''   ID: m1'' @ nl @ nl"
  by (simp add: entry_def msg_a_def text_of_def labels_of_def id_of_def js_def py_def nl_def
        str_nat.simps)

lemma entry_b:
  "entry env_mail 2 msg_b =
     py ''2. From: bob@example.com'' @ nl @ py ''   Subject: Lunch'' @ nl
     @ py ''   Date: Tue, 2 Jan'' @ nl @ py ''   Labels: '' @ nl
     @ py ''   ID: m2'' @ nl @ nl"
  by (simp add: entry_def msg_b_def text_of_def labels_of_def id_of_def js_def py_def nl_def
        str_nat.simps)

lemma summaries: "list_all summary [msg_a, msg_b]"
  by (simp add: msg_a_def msg_b_def text_field_def js_def py_def)

theorem list_messages_renders_every_message_witness:
  "list_messages env_mail (py ''is:unread'') 10 agent1 [] =
     (Inr (py ''Found 2 messages for query: is:unread:'' @ nl @ nl
           @ py ''1. From: alice@example.com'' @ nl @ py ''   Subject: Hello'' @ nl
           @ py ''   Date: Mon, 1 Jan'' @ nl @ py ''   Labels: INBOX, UNREAD'' @ nl
           @ py ''   ID: m1'' @ nl @ nl
           @ py ''2. From: bob@example.com'' @ nl @ py ''   Subject: Lunch'' @ nl
           @ py ''   Date: Tue, 2 Jan'' @ nl @ py ''   Labels: '' @ nl
           @ py ''   ID: m2'' @ nl @ nl),
      agent1,
      [CallTool Gmail (py ''list_messages'')
         [(py ''query'', JStr (py ''is:unread'')), (py ''max_results'', JInt 10)]])"
proof -
  have z: "zip [1 ..< 1 + length [msg_a, msg_b]] [msg_a, msg_b] = [(1, msg_a), (2, msg_b)]"
    by (simp add: upt_rec)
  have h: "py ''Found '' @ str_nat (length [msg_a, msg_b]) @ py '' messages''
             @ for_query (py ''is:unread'') @ py '':''
           = py ''Found 2 messages for query: is:unread:''"
    by (simp add: for_query_def py_def str_nat.simps)
  from list_messages_renders_every_message
    [of env_mail "py ''is:unread''" 10 agent1 "[]" "[(py ''messages'', JList [msg_a, msg_b])]"
      agent1 _ "[msg_a, msg_b]", OF call_mail _ _ _ summaries]
  have "list_messages env_mail (py ''is:unread'') 10 agent1 [] =
           (Inr (py ''Found '' @ str_nat (length [msg_a, msg_b]) @ py '' messages''
                 @ for_query (py ''is:unread'') @ py '':'' @ nl @ nl
                 @ concat (map (\<lambda>(i, msg). entry env_mail i msg)
                     (zip [1 ..< 1 + length [msg_a, msg_b]] [msg_a, msg_b]))),
            agent1,
            [CallTool Gmail (py ''list_messages'')
               [(py ''query'', JStr (py ''is:unread'')), (py ''max_results'', JInt 10)]])"
    by (simp add: keys_differ)
  then show ?thesis
    unfolding z
    by (simp only: list.map prod.case concat.simps append_Nil2 entry_a entry_b)
       (simp add: h [symmetric] append_assoc [symmetric] del: append_assoc)
qed

section \<open>A reply without tool calls\<close>

lemma chat_result:
  assumes "valid_address state h"
  shows "chat env (Some g) ni init message state h obj w =
     (case ainvoke env g (with_user_message (given_state init state h) message) obj w of
        (Inl e, obj1, w1) \<Rightarrow>
          (Inl e, stored state h (with_user_message (given_state init state h) message), obj1, w1)
      | (Inr result, obj1, w1) \<Rightarrow>
          (case rev (messages result) of
             [] \<Rightarrow> (Inl IndexError,
                    stored state h (with_user_message (given_state init state h) message) @ [result],
                    obj1, w1)
           | last_message # _ \<Rightarrow>
               (Inr (content last_message, length h + (if state = None then 1 else 0)),
                stored state h (with_user_message (given_state init state h) message) @ [result],
                obj1, w1)))"
proof (cases state)
  case None
  then show ?thesis
    by (simp add: chat_def Let_def given_state_def stored_def split: prod.splits sum.splits list.splits)
next
  case (Some r)
  with assms have "r < length h" by (simp add: valid_address_def)
  with Some show ?thesis
    by (simp add: chat_def Let_def given_state_def stored_def split: prod.splits sum.splits list.splits)
qed

lemma should_continue_reply:
  "should_continue (state\<lparr>messages := ms @ [AIMessage text tool_calls]\<rparr>)
     = Inr (if tool_calls \<noteq> [] then ToolsNode else END)"
  by (simp add: should_continue_def)

lemma invoke_model_reply:
  "ainvoke_llm env aid w (SystemMessage p # messages state) = Inr (text, tool_calls) \<Longrightarrow>
   invoke_model env aid p state w =
     (Inr (state\<lparr>messages := messages state @ [AIMessage text tool_calls]\<rparr>),
      w @ [Invoke aid (SystemMessage p # messages state)])"
  by (simp add: invoke_model_def Let_def)

lemma run_graph_agent_ends:
  assumes "agent g state w = (Inr state1, w1)" and "after_agent g state1 = Inr END"
  shows "run_graph g (Suc n) AgentNode state obj w = (Inr state1, obj, w1)"
  using assms by simp

lemma no_tool_calls_chat:
  assumes v: "valid_address state h"
    and s: "start g = AgentNode" and c: "after_agent g = should_continue"
    and l: "0 < recursion_limit env"
    and a: "agent g (with_user_message (given_state init state h) message) w =
            (Inr ((with_user_message (given_state init state h) message)
                    \<lparr>messages := messages (with_user_message (given_state init state h) message)
                                 @ [AIMessage text []]\<rparr>), w1)"
  shows "chat env (Some g) ni init message state h obj w =
     (Inr (text, length h + (if state = None then 1 else 0)),
      stored state h (with_user_message (given_state init state h) message)
        @ [(with_user_message (given_state init state h) message)
             \<lparr>messages := messages (with_user_message (given_state init state h) message)
                          @ [AIMessage text []]\<rparr>],
      obj, w1)"
proof -
  from l obtain n where n: "recursion_limit env = Suc n" by (cases "recursion_limit env") simp_all
  have "ainvoke env g (with_user_message (given_state init state h) message) obj w =
     (Inr ((with_user_message (given_state init state h) message)
                    \<lparr>messages := messages (with_user_message (given_state init state h) message)
                                 @ [AIMessage text []]\<rparr>), obj, w1)"
    unfolding ainvoke_def n s
    by (rule run_graph_agent_ends [OF a]) (simp add: c should_continue_reply)
  then show ?thesis
    by (simp add: chat_result [OF v])
qed

lemma todo_no_tool_calls:
  assumes "graph a" "valid_address state h" "0 < recursion_limit env"
    and "st = with_user_message (given_state todo_initial state h) message"
    and "ainvoke_llm env Todo w (SystemMessage (todo_prompt env st) # messages st) = Inr (text, [])"
  shows "todo_chat env message state h a w =
     (Inr (text, length h + (if state = None then 1 else 0)),
      stored state h st @ [st\<lparr>messages := messages st @ [AIMessage text []]\<rparr>],
      a, w @ [Invoke Todo (SystemMessage (todo_prompt env st) # messages st)])"
proof -
  have "agent (todo_graph env) st w =
          (Inr (st\<lparr>messages := messages st @ [AIMessage text []]\<rparr>),
           w @ [Invoke Todo (SystemMessage (todo_prompt env st) # messages st)])"
    using invoke_model_reply [OF assms(5)] by (simp add: todo_graph_def todo_call_model_def)
  note a = this [unfolded assms(4)]
  have s: "start (todo_graph env) = AgentNode"
    and c: "after_agent (todo_graph env) = should_continue"
    by (simp_all add: todo_graph_def)
  note r = no_tool_calls_chat [OF assms(2) s c assms(3) a]
  show ?thesis
    unfolding todo_chat_def assms(4) using assms(1) by (simp add: r)
qed

lemma gmail_no_tool_calls:
  assumes "graph a" "valid_address state h" "0 < recursion_limit env"
    and "st = with_user_message (given_state gmail_initial state h) message"
    and "ainvoke_llm env Gmail w (SystemMessage (gmail_prompt env st) # messages st) = Inr (text, [])"
  shows "gmail_chat env message state h a w =
     (Inr (text, length h + (if state = None then 1 else 0)),
      stored state h st @ [st\<lparr>messages := messages st @ [AIMessage text []]\<rparr>],
      a, w @ [Invoke Gmail (SystemMessage (gmail_prompt env st) # messages st)])"
proof -
  have "agent (gmail_graph env) st w =
          (Inr (st\<lparr>messages := messages st @ [AIMessage text []]\<rparr>),
           w @ [Invoke Gmail (SystemMessage (gmail_prompt env st) # messages st)])"
    using invoke_model_reply [OF assms(5)] by (simp add: gmail_graph_def gmail_call_model_def)
  note a = this [unfolded assms(4)]
  have s: "start (gmail_graph env) = AgentNode"
    and c: "after_agent (gmail_graph env) = should_continue"
    by (simp_all add: gmail_graph_def)
  note r = no_tool_calls_chat [OF assms(2) s c assms(3) a]
  show ?thesis
    unfolding gmail_chat_def assms(4) using assms(1) by (simp add: r)
qed

lemma master_call_model_reply:
  "ainvoke_llm env Master w (SystemMessage (master_prompt env state) # messages state)
     = Inr (text, tool_calls) \<Longrightarrow>
   master_call_model env state w =
     (Inr (state\<lparr>messages := messages state @ [AIMessage text tool_calls],
                 current_context := update_context (current_context state) tool_calls\<rparr>),
      w @ [Invoke Master (SystemMessage (master_prompt env state) # messages state)])"
  by (simp add: master_call_model_def Let_def)

lemma master_no_tool_calls:
  assumes "graph_compiled m" "valid_address state h" "0 < recursion_limit env"
    and "st = with_user_message (given_state master_initial state h) message"
    and "ainvoke_llm env Master w (SystemMessage (master_prompt env st) # messages st) = Inr (text, [])"
  shows "master_chat env message state h m w =
     (Inr (text, length h + (if state = None then 1 else 0)),
      stored state h st @ [st\<lparr>messages := messages st @ [AIMessage text []]\<rparr>],
      m, w @ [Invoke Master (SystemMessage (master_prompt env st) # messages st)])"
proof -
  have "agent (master_graph env) st w =
          (Inr (st\<lparr>messages := messages st @ [AIMessage text []]\<rparr>),
           w @ [Invoke Master (SystemMessage (master_prompt env st) # messages st)])"
    using master_call_model_reply [OF assms(5)] by (simp add: master_graph_def)
  note a = this [unfolded assms(4)]
  have s: "start (master_graph env) = AgentNode"
    and c: "after_agent (master_graph env) = should_continue"
    by (simp_all add: master_graph_def)
  note r = no_tool_calls_chat [OF assms(2) s c assms(3) a]
  show ?thesis
    unfolding master_chat_def assms(4) using assms(1) by (simp add: r)
qed

text \<open>
  C4. In each of the three agents, \<open>should_continue\<close> sends a reply of the language
  model that carries no tool call to \<open>END\<close>. When the reply to the first call of the
  model in a \<open>chat\<close> carries none, \<open>chat\<close> returns the text of that reply; the owner
  of the tools is unchanged and the log has gained the call of the model and nothing
  else, so no tool was run. (The recursion limit allows at least one node.)
\<close>

theorem no_tool_calls_ends_the_round:
  "should_continue (any_state\<lparr>messages := ms @ [AIMessage any_answer []]\<rparr>) = Inr END
   \<and> (graph a \<and> valid_address state h \<and> 0 < recursion_limit env
        \<and> st = with_user_message (given_state todo_initial state h) message
        \<and> ainvoke_llm env Todo w (SystemMessage (todo_prompt env st) # messages st) = Inr (answer, [])
      \<longrightarrow> todo_chat env message state h a w =
            (Inr (answer, length h + (if state = None then 1 else 0)),
             stored state h st @ [st\<lparr>messages := messages st @ [AIMessage answer []]\<rparr>],
             a, w @ [Invoke Todo (SystemMessage (todo_prompt env st) # messages st)]))
   \<and> (graph b \<and> valid_address gstate gh \<and> 0 < recursion_limit env
        \<and> gst = with_user_message (given_state gmail_initial gstate gh) gmessage
        \<and> ainvoke_llm env Gmail gw (SystemMessage (gmail_prompt env gst) # messages gst) = Inr (ganswer, [])
      \<longrightarrow> gmail_chat env gmessage gstate gh b gw =
            (Inr (ganswer, length gh + (if gstate = None then 1 else 0)),
             stored gstate gh gst @ [gst\<lparr>messages := messages gst @ [AIMessage ganswer []]\<rparr>],
             b, gw @ [Invoke Gmail (SystemMessage (gmail_prompt env gst) # messages gst)]))
   \<and> (graph_compiled m \<and> valid_address mstate mh \<and> 0 < recursion_limit env
        \<and> mst = with_user_message (given_state master_initial mstate mh) mmessage
        \<and> ainvoke_llm env Master mw (SystemMessage (master_prompt env mst) # messages mst) = Inr (manswer, [])
      \<longrightarrow> master_chat env mmessage mstate mh m mw =
            (Inr (manswer, length mh + (if mstate = None then 1 else 0)),
             stored mstate mh mst @ [mst\<lparr>messages := messages mst @ [AIMessage manswer []]\<rparr>],
             m, mw @ [Invoke Master (SystemMessage (master_prompt env mst) # messages mst)]))"
proof (intro conjI impI)
  show "should_continue (any_state\<lparr>messages := ms @ [AIMessage any_answer []]\<rparr>) = Inr END"
    by (simp add: should_continue_reply)
next
  assume "graph a \<and> valid_address state h \<and> 0 < recursion_limit env
        \<and> st = with_user_message (given_state todo_initial state h) message
        \<and> ainvoke_llm env Todo w (SystemMessage (todo_prompt env st) # messages st) = Inr (answer, [])"
  then show "todo_chat env message state h a w =
            (Inr (answer, length h + (if state = None then 1 else 0)),
             stored state h st @ [st\<lparr>messages := messages st @ [AIMessage answer []]\<rparr>],
             a, w @ [Invoke Todo (SystemMessage (todo_prompt env st) # messages st)])"
    using todo_no_tool_calls by blast
next
  assume "graph b \<and> valid_address gstate gh \<and> 0 < recursion_limit env
        \<and> gst = with_user_message (given_state gmail_initial gstate gh) gmessage
        \<and> ainvoke_llm env Gmail gw (SystemMessage (gmail_prompt env gst) # messages gst) = Inr (ganswer, [])"
  then show "gmail_chat env gmessage gstate gh b gw =
            (Inr (ganswer, length gh + (if gstate = None then 1 else 0)),
             stored gstate gh gst @ [gst\<lparr>messages := messages gst @ [AIMessage ganswer []]\<rparr>],
             b, gw @ [Invoke Gmail (SystemMessage (gmail_prompt env gst) # messages gst)])"
    using gmail_no_tool_calls by blast
next
  assume "graph_compiled m \<and> valid_address mstate mh \<and> 0 < recursion_limit env
        \<and> mst = with_user_message (given_state master_initial mstate mh) mmessage
        \<and> ainvoke_llm env Master mw (SystemMessage (master_prompt env mst) # messages mst) = Inr (manswer, [])"
  then show "master_chat env mmessage mstate mh m mw =
            (Inr (manswer, length mh + (if mstate = None then 1 else 0)),
             stored mstate mh mst @ [mst\<lparr>messages := messages mst @ [AIMessage manswer []]\<rparr>],
             m, mw @ [Invoke Master (SystemMessage (master_prompt env mst) # messages mst)])"
    using master_no_tool_calls by blast
qed


theorem no_tool_calls_ends_the_round_witness:
  "todo_chat env0 (py ''hello'') None [] agent1 [] =
     (Inr (py ''Done.'', 1),
      [with_user_message todo_initial (py ''hello''),
       todo_initial\<lparr>messages := [HumanMessage (py ''hello''), AIMessage (py ''Done.'') []]\<rparr>],
      agent1,
      [Invoke Todo [SystemMessage (py ''You are an assistant.''), HumanMessage (py ''hello'')]])
   \<and> gmail_chat env0 (py ''hello'') None [] agent1 [] =
     (Inr (py ''Done.'', 1),
      [with_user_message gmail_initial (py ''hello''),
       gmail_initial\<lparr>messages := [HumanMessage (py ''hello''), AIMessage (py ''Done.'') []]\<rparr>],
      agent1,
      [Invoke Gmail [SystemMessage (py ''You are an assistant.''), HumanMessage (py ''hello'')]])
   \<and> master_chat env0 (py ''hello'') None [] master0 [] =
     (Inr (py ''Done.'', 1),
      [with_user_message master_initial (py ''hello''),
       master_initial\<lparr>messages := [HumanMessage (py ''hello''), AIMessage (py ''Done.'') []]\<rparr>],
      master0,
      [Invoke Master [SystemMessage (py ''You are an assistant.''), HumanMessage (py ''hello'')]])"
  using no_tool_calls_ends_the_round
    [where any_state = todo_initial and ms = "[]" and any_answer = "[]"
       and env = env0 and a = agent1 and state = None and h = "[]" and message = "py ''hello''"
       and w = "[]" and answer = "py ''Done.''"
       and st = "with_user_message todo_initial (py ''hello'')"
       and b = agent1 and gstate = None and gh = "[]" and gmessage = "py ''hello''"
       and gw = "[]" and ganswer = "py ''Done.''"
       and gst = "with_user_message gmail_initial (py ''hello'')"
       and m = master0 and mstate = None and mh = "[]" and mmessage = "py ''hello''"
       and mw = "[]" and manswer = "py ''Done.''"
       and mst = "with_user_message master_initial (py ''hello'')"]
  by (simp add: env0_def agent1_def master0_def valid_address_def given_state_def stored_def
        with_user_message_def todo_initial_def gmail_initial_def master_initial_def
        todo_prompt_def gmail_prompt_def master_prompt_def given_def)

section \<open>chat appends to the state it is given\<close>





section \<open>The sub-agent tools of the master agent\<close>

lemma todo_agent_tool_cases:
  "todo_agent m = None \<Longrightarrow>
     todo_agent_tool env user_request m w =
       (Inr (cross_mark @ py '' Todo Agent is not available. Please try again later.''), m, w)"
  "todo_agent m = Some a \<Longrightarrow>
   todo_chat env user_request (current_state a) (todo_states m) a w = (Inl e, h1, a1, w1) \<Longrightarrow>
     todo_agent_tool env user_request m w =
       (Inr (cross_mark @ py '' Error with Todo Agent: '' @ str_exn env e),
        m\<lparr>todo_agent := Some a1, todo_states := h1\<rparr>, w1)"
  "todo_agent m = Some a \<Longrightarrow>
   todo_chat env user_request (current_state a) (todo_states m) a w
     = (Inr (response, updated_state), h1, a1, w1) \<Longrightarrow>
     todo_agent_tool env user_request m w =
       (Inr response,
        m\<lparr>todo_agent := Some (a1\<lparr>current_state := Some updated_state\<rparr>), todo_states := h1\<rparr>, w1)"
  by (simp_all add: todo_agent_tool_def todo_agent_body_def)

lemma gmail_agent_tool_cases:
  "gmail_agent m = None \<Longrightarrow>
     gmail_agent_tool env user_request m w =
       (Inr (cross_mark @ py '' Gmail Agent is not available. Please try again later.''), m, w)"
  "gmail_agent m = Some a \<Longrightarrow>
   gmail_chat env user_request (current_state a) (gmail_states m) a w = (Inl e, h1, a1, w1) \<Longrightarrow>
     gmail_agent_tool env user_request m w =
       (Inr (cross_mark @ py '' Error with Gmail Agent: '' @ str_exn env e),
        m\<lparr>gmail_agent := Some a1, gmail_states := h1\<rparr>, w1)"
  "gmail_agent m = Some a \<Longrightarrow>
   gmail_chat env user_request (current_state a) (gmail_states m) a w
     = (Inr (response, updated_state), h1, a1, w1) \<Longrightarrow>
     gmail_agent_tool env user_request m w =
       (Inr response,
        m\<lparr>gmail_agent := Some (a1\<lparr>current_state := Some updated_state\<rparr>), gmail_states := h1\<rparr>, w1)"
  by (simp_all add: gmail_agent_tool_def gmail_agent_body_def)

lemma todo_agent_tool_returns:
  "\<exists>out m1 w1. todo_agent_tool env user_request m w = (Inr out, m1, w1)"
proof (cases "todo_agent m")
  case None
  then show ?thesis by (simp add: todo_agent_tool_cases(1))
next
  case (Some a)
  obtain r h1 a1 w1 where c:
    "todo_chat env user_request (current_state a) (todo_states m) a w = (r, h1, a1, w1)"
    by (cases "todo_chat env user_request (current_state a) (todo_states m) a w") auto
  show ?thesis
  proof (cases r)
    case (Inl e)
    with Some c show ?thesis by (simp add: todo_agent_tool_cases(2))
  next
    case (Inr p)
    with Some c show ?thesis by (cases p) (simp add: todo_agent_tool_cases(3))
  qed
qed

lemma gmail_agent_tool_returns:
  "\<exists>out m1 w1. gmail_agent_tool env user_request m w = (Inr out, m1, w1)"
proof (cases "gmail_agent m")
  case None
  then show ?thesis by (simp add: gmail_agent_tool_cases(1))
next
  case (Some a)
  obtain r h1 a1 w1 where c:
    "gmail_chat env user_request (current_state a) (gmail_states m) a w = (r, h1, a1, w1)"
    by (cases "gmail_chat env user_request (current_state a) (gmail_states m) a w") auto
  show ?thesis
  proof (cases r)
    case (Inl e)
    with Some c show ?thesis by (simp add: gmail_agent_tool_cases(2))
  next
    case (Inr p)
    with Some c show ?thesis by (cases p) (simp add: gmail_agent_tool_cases(3))
  qed
qed

text \<open>
  C10. Each of the two sub-agent tools of the master agent returns a text on every
  input. When the sub-agent is \<open>None\<close> it returns the text that the agent is not
  available, and when the sub-agent's \<open>chat\<close> raises it returns \<open>Error with ... Agent:\<close>
  followed by \<open>str(e)\<close>; both texts begin with the cross mark. When \<open>chat\<close> returns, the
  tool returns the response and sets the sub-agent's \<open>_current_state\<close> to the state
  that \<open>chat\<close> returned.
\<close>

theorem sub_agent_tools_never_raise:
  "(\<exists>out m1 w1. todo_agent_tool env user_request m w = (Inr out, m1, w1))
   \<and> (todo_agent m = None \<longrightarrow>
        todo_agent_tool env user_request m w =
          (Inr (cross_mark @ py '' Todo Agent is not available. Please try again later.''), m, w))
   \<and> (todo_agent m = Some a
        \<and> todo_chat env user_request (current_state a) (todo_states m) a w = (Inl e, h1, a1, w1) \<longrightarrow>
        todo_agent_tool env user_request m w =
          (Inr (cross_mark @ py '' Error with Todo Agent: '' @ str_exn env e),
           m\<lparr>todo_agent := Some a1, todo_states := h1\<rparr>, w1))
   \<and> (todo_agent m = Some a
        \<and> todo_chat env user_request (current_state a) (todo_states m) a w
            = (Inr (response, updated_state), h1, a1, w1) \<longrightarrow>
        todo_agent_tool env user_request m w =
          (Inr response,
           m\<lparr>todo_agent := Some (a1\<lparr>current_state := Some updated_state\<rparr>), todo_states := h1\<rparr>,
           w1))
   \<and> (\<exists>out m1 w1. gmail_agent_tool env user_request m w = (Inr out, m1, w1))
   \<and> (gmail_agent m = None \<longrightarrow>
        gmail_agent_tool env user_request m w =
          (Inr (cross_mark @ py '' Gmail Agent is not available. Please try again later.''), m, w))
   \<and> (gmail_agent m = Some b
        \<and> gmail_chat env user_request (current_state b) (gmail_states m) b w = (Inl ge, gh1, b1, gw1) \<longrightarrow>
        gmail_agent_tool env user_request m w =
          (Inr (cross_mark @ py '' Error with Gmail Agent: '' @ str_exn env ge),
           m\<lparr>gmail_agent := Some b1, gmail_states := gh1\<rparr>, gw1))
   \<and> (gmail_agent m = Some b
        \<and> gmail_chat env user_request (current_state b) (gmail_states m) b w
            = (Inr (gresponse, gupdated_state), gh1, b1, gw1) \<longrightarrow>
        gmail_agent_tool env user_request m w =
          (Inr gresponse,
           m\<lparr>gmail_agent := Some (b1\<lparr>current_state := Some gupdated_state\<rparr>), gmail_states := gh1\<rparr>,
           gw1))"
  using todo_agent_tool_returns [of env user_request m w]
    gmail_agent_tool_returns [of env user_request m w]
  by (simp add: todo_agent_tool_cases gmail_agent_tool_cases)

lemma todo_chat_env0:
  "todo_chat env0 (py ''hi'') None [] agent1 [] =
     (Inr (py ''Done.'', 1),
      [with_user_message todo_initial (py ''hi''),
       (with_user_message todo_initial (py ''hi''))
         \<lparr>messages := messages (with_user_message todo_initial (py ''hi'')) @ [AIMessage (py ''Done.'') []]\<rparr>],
      agent1,
      [Invoke Todo (SystemMessage (todo_prompt env0 (with_user_message todo_initial (py ''hi'')))
                    # messages (with_user_message todo_initial (py ''hi'')))])"
  using todo_no_tool_calls [of agent1 None "[]" env0 "with_user_message todo_initial (py ''hi'')"
      "py ''hi''" "[]" "py ''Done.''"]
  by (simp add: agent1_def valid_address_def env0_def given_state_def stored_def)

lemma gmail_chat_env0:
  "gmail_chat env0 (py ''hi'') None [] agent1 [] =
     (Inr (py ''Done.'', 1),
      [with_user_message gmail_initial (py ''hi''),
       (with_user_message gmail_initial (py ''hi''))
         \<lparr>messages := messages (with_user_message gmail_initial (py ''hi'')) @ [AIMessage (py ''Done.'') []]\<rparr>],
      agent1,
      [Invoke Gmail (SystemMessage (gmail_prompt env0 (with_user_message gmail_initial (py ''hi'')))
                    # messages (with_user_message gmail_initial (py ''hi'')))])"
  using gmail_no_tool_calls [of agent1 None "[]" env0 "with_user_message gmail_initial (py ''hi'')"
      "py ''hi''" "[]" "py ''Done.''"]
  by (simp add: agent1_def valid_address_def env0_def given_state_def stored_def)

lemma todo_chat_unready:
  "todo_chat env0 (py ''hi'') None [] agent_unready [] =
     (Inl (RuntimeError (py ''Agent not properly initialized. Use async context manager.'')),
      [], agent_unready, [])"
  by (simp add: todo_chat_def chat_def agent_unready_def)

theorem sub_agent_tools_never_raise_witness:
  "todo_agent_tool env0 (py ''hi'') (master0\<lparr>todo_agent := None\<rparr>) [] =
     (Inr (cross_mark @ py '' Todo Agent is not available. Please try again later.''),
      master0\<lparr>todo_agent := None\<rparr>, [])
   \<and> todo_agent_tool env0 (py ''hi'') (master0\<lparr>todo_agent := Some agent_unready\<rparr>) [] =
     (Inr (cross_mark
           @ py '' Error with Todo Agent: Agent not properly initialized. Use async context manager.''),
      master0\<lparr>todo_agent := Some agent_unready\<rparr>, [])
   \<and> fst (todo_agent_tool env0 (py ''hi'') master0 []) = Inr (py ''Done.'')
   \<and> map_option current_state (todo_agent (fst (snd (todo_agent_tool env0 (py ''hi'') master0 []))))
       = Some (Some 1)
   \<and> fst (gmail_agent_tool env0 (py ''hi'') master0 []) = Inr (py ''Done.'')
   \<and> map_option current_state (gmail_agent (fst (snd (gmail_agent_tool env0 (py ''hi'') master0 []))))
       = Some (Some 1)"
proof -
  have n: "todo_agent (master0\<lparr>todo_agent := None\<rparr>) = None" by simp
  have u: "todo_agent (master0\<lparr>todo_agent := Some agent_unready\<rparr>) = Some agent_unready
           \<and> todo_chat env0 (py ''hi'') (current_state agent_unready)
                (todo_states (master0\<lparr>todo_agent := Some agent_unready\<rparr>)) agent_unready []
              = (Inl (RuntimeError (py ''Agent not properly initialized. Use async context manager.'')),
                 [], agent_unready, [])"
    using todo_chat_unready by (simp add: agent_unready_def master0_def)
  have t: "todo_agent master0 = Some agent1
           \<and> todo_chat env0 (py ''hi'') (current_state agent1) (todo_states master0) agent1 []
              = (Inr (py ''Done.'', 1),
      [with_user_message todo_initial (py ''hi''),
       (with_user_message todo_initial (py ''hi''))
         \<lparr>messages := messages (with_user_message todo_initial (py ''hi'')) @ [AIMessage (py ''Done.'') []]\<rparr>],
      agent1,
      [Invoke Todo (SystemMessage (todo_prompt env0 (with_user_message todo_initial (py ''hi'')))
                    # messages (with_user_message todo_initial (py ''hi'')))])"
    using todo_chat_env0 by (simp add: agent1_def master0_def)
  have g: "gmail_agent master0 = Some agent1
           \<and> gmail_chat env0 (py ''hi'') (current_state agent1) (gmail_states master0) agent1 []
              = (Inr (py ''Done.'', 1),
      [with_user_message gmail_initial (py ''hi''),
       (with_user_message gmail_initial (py ''hi''))
         \<lparr>messages := messages (with_user_message gmail_initial (py ''hi'')) @ [AIMessage (py ''Done.'') []]\<rparr>],
      agent1,
      [Invoke Gmail (SystemMessage (gmail_prompt env0 (with_user_message gmail_initial (py ''hi'')))
                    # messages (with_user_message gmail_initial (py ''hi'')))])"
    using gmail_chat_env0 by (simp add: agent1_def master0_def)
  note th = sub_agent_tools_never_raise [where env = env0 and user_request = "py ''hi''" and w = "[]"]
  from th [where m = "master0\<lparr>todo_agent := None\<rparr>"] n
  have 1: "todo_agent_tool env0 (py ''hi'') (master0\<lparr>todo_agent := None\<rparr>) [] =
     (Inr (cross_mark @ py '' Todo Agent is not available. Please try again later.''),
      master0\<lparr>todo_agent := None\<rparr>, [])"
    by blast
  from th [where m = "master0\<lparr>todo_agent := Some agent_unready\<rparr>" and a = agent_unready] u
  have 2: "todo_agent_tool env0 (py ''hi'') (master0\<lparr>todo_agent := Some agent_unready\<rparr>) [] =
     (Inr (cross_mark @ py '' Error with Todo Agent: ''
           @ str_exn env0 (RuntimeError (py ''Agent not properly initialized. Use async context manager.''))),
      master0\<lparr>todo_agent := Some agent_unready\<rparr>
        \<lparr>todo_agent := Some agent_unready, todo_states := []\<rparr>, [])"
    by blast
  from th [where m = master0 and a = agent1 and b = agent1] t g
  have 3: "fst (todo_agent_tool env0 (py ''hi'') master0 []) = Inr (py ''Done.'')"
    and 4: "map_option current_state (todo_agent (fst (snd (todo_agent_tool env0 (py ''hi'') master0 []))))
       = Some (Some 1)"
    and 5: "fst (gmail_agent_tool env0 (py ''hi'') master0 []) = Inr (py ''Done.'')"
    and 6: "map_option current_state (gmail_agent (fst (snd (gmail_agent_tool env0 (py ''hi'') master0 []))))
       = Some (Some 1)"
    by simp_all
  from 2 have 2: "todo_agent_tool env0 (py ''hi'') (master0\<lparr>todo_agent := Some agent_unready\<rparr>) [] =
     (Inr (cross_mark
           @ py '' Error with Todo Agent: Agent not properly initialized. Use async context manager.''),
      master0\<lparr>todo_agent := Some agent_unready\<rparr>, [])"
    by (simp add: py_def master0_def)
  from 1 2 3 4 5 6 show ?thesis by blast
qed

section \<open>Delegation by the master agent\<close>

lemma master_run_delegation:
  assumes reply: "ainvoke_llm env Master w (SystemMessage (master_prompt env st) # messages st)
                    = Inr (answer, [tc])"
    and bind: "master_tools (name tc) (args tc) = Some (Inr c)"
    and call: "master_invoke env c m
                 (w @ [Invoke Master (SystemMessage (master_prompt env st) # messages st)])
               = (Inr out, m1, w1)"
  shows "run_graph (master_graph env) (Suc (Suc n)) AgentNode st m w =
           (Inr (st\<lparr>messages := messages st
                                  @ [AIMessage answer [tc], ToolMessage out (name tc) (call_id tc)],
                      current_context := update_context (current_context st) [tc]\<rparr>),
            m1, w1)"
proof -
  let ?w = "w @ [Invoke Master (SystemMessage (master_prompt env st) # messages st)]"
  let ?st = "st\<lparr>messages := messages st @ [AIMessage answer [tc]],
                 current_context := update_context (current_context st) [tc]\<rparr>"
  have a: "agent (master_graph env) st w = (Inr ?st, ?w)"
    using master_call_model_reply [OF reply]
    by (simp add: master_graph_def del: update_context.simps)
  have c: "after_agent (master_graph env) ?st = Inr ToolsNode"
    by (simp add: master_graph_def should_continue_def del: update_context.simps)
  have t: "tools (master_graph env) ?st m ?w =
             (Inr (?st\<lparr>messages := messages ?st @ [ToolMessage out (name tc) (call_id tc)]\<rparr>), m1, w1)"
    using bind call
    by (simp add: master_graph_def tool_node_def run_one_def del: update_context.simps)
  have e: "after_tools (master_graph env) = END"
    by (simp add: master_graph_def)
  show ?thesis
    by (simp add: a c t e del: update_context.simps)
qed

lemma master_chat_delegation:
  assumes "graph_compiled m" "valid_address state h" "2 \<le> recursion_limit env"
    and "st = with_user_message (given_state master_initial state h) message"
    and "ainvoke_llm env Master w (SystemMessage (master_prompt env st) # messages st)
           = Inr (answer, [tc])"
    and "master_tools (name tc) (args tc) = Some (Inr c)"
    and "master_invoke env c m
           (w @ [Invoke Master (SystemMessage (master_prompt env st) # messages st)])
         = (Inr out, m1, w1)"
  shows "master_chat env message state h m w =
           (Inr (out, length h + (if state = None then 1 else 0)),
            stored state h st
              @ [st\<lparr>messages := messages st
                                  @ [AIMessage answer [tc], ToolMessage out (name tc) (call_id tc)],
                      current_context := update_context (current_context st) [tc]\<rparr>],
            m1, w1)"
proof -
  from assms(3) obtain n where n: "recursion_limit env = Suc (Suc n)"
    by (cases "recursion_limit env"; cases "recursion_limit env - 1") simp_all
  have "ainvoke env (master_graph env) st m w =
           (Inr (st\<lparr>messages := messages st
                                  @ [AIMessage answer [tc], ToolMessage out (name tc) (call_id tc)],
                      current_context := update_context (current_context st) [tc]\<rparr>),
            m1, w1)"
    unfolding ainvoke_def n
    using master_run_delegation [OF assms(5,6,7)]
    by (simp add: master_graph_def del: update_context.simps)
  then show ?thesis
    unfolding master_chat_def using assms(1)
    by (simp add: chat_result [OF assms(2)] assms(4) [symmetric] del: update_context.simps)
qed

text \<open>
  C2. When the reply of the master's language model requests exactly one tool call, of
  \<open>todo_agent\<close> or of \<open>gmail_agent\<close> with a request text, the sub-agent is present and its
  \<open>chat\<close> returns a response, then \<open>chat\<close> of the master agent returns that very
  response: the tool message holding it is the last message of the run, since the
  master's graph ends after its tool node. (The graph is compiled and the recursion
  limit allows two nodes.)
\<close>

theorem master_relays_the_sub_agent_answer:
  "(graph_compiled m \<and> valid_address state h \<and> 2 \<le> recursion_limit env
      \<and> st = with_user_message (given_state master_initial state h) message
      \<and> ainvoke_llm env Master w (SystemMessage (master_prompt env st) # messages st)
          = Inr (answer, [tc])
      \<and> name tc = py ''todo_agent''
      \<and> map_of (args tc) (py ''user_request'') = Some (JStr request)
      \<and> todo_agent m = Some a
      \<and> todo_chat env request (current_state a) (todo_states m) a
           (w @ [Invoke Master (SystemMessage (master_prompt env st) # messages st)])
          = (Inr (response, updated_state), h1, a1, w1)
    \<longrightarrow> fst (master_chat env message state h m w)
          = Inr (response, length h + (if state = None then 1 else 0)))
   \<and> (graph_compiled m \<and> valid_address state h \<and> 2 \<le> recursion_limit env
      \<and> st = with_user_message (given_state master_initial state h) message
      \<and> ainvoke_llm env Master w (SystemMessage (master_prompt env st) # messages st)
          = Inr (answer, [tc])
      \<and> name tc = py ''gmail_agent''
      \<and> map_of (args tc) (py ''user_request'') = Some (JStr request)
      \<and> gmail_agent m = Some b
      \<and> gmail_chat env request (current_state b) (gmail_states m) b
           (w @ [Invoke Master (SystemMessage (master_prompt env st) # messages st)])
          = (Inr (gresponse, gupdated_state), gh1, b1, gw1)
    \<longrightarrow> fst (master_chat env message state h m w)
          = Inr (gresponse, length h + (if state = None then 1 else 0)))"
proof (intro conjI impI)
  assume h: "graph_compiled m \<and> valid_address state h \<and> 2 \<le> recursion_limit env
      \<and> st = with_user_message (given_state master_initial state h) message
      \<and> ainvoke_llm env Master w (SystemMessage (master_prompt env st) # messages st)
          = Inr (answer, [tc])
      \<and> name tc = py ''todo_agent''
      \<and> map_of (args tc) (py ''user_request'') = Some (JStr request)
      \<and> todo_agent m = Some a
      \<and> todo_chat env request (current_state a) (todo_states m) a
           (w @ [Invoke Master (SystemMessage (master_prompt env st) # messages st)])
          = (Inr (response, updated_state), h1, a1, w1)"
  then have b: "master_tools (name tc) (args tc) = Some (Inr (TodoAgent request))"
    by (simp add: master_tools_def str_arg_def seq_def)
  from h have p: "todo_agent m = Some a"
    and q: "todo_chat env request (current_state a) (todo_states m) a
           (w @ [Invoke Master (SystemMessage (master_prompt env st) # messages st)])
          = (Inr (response, updated_state), h1, a1, w1)"
    by blast+
  have c: "master_invoke env (TodoAgent request) m
           (w @ [Invoke Master (SystemMessage (master_prompt env st) # messages st)])
         = (Inr response,
            m\<lparr>todo_agent := Some (a1\<lparr>current_state := Some updated_state\<rparr>), todo_states := h1\<rparr>, w1)"
    using todo_agent_tool_cases(3) [OF p q] by simp
  from h have g: "graph_compiled m" and v: "valid_address state h"
    and l: "2 \<le> recursion_limit env"
    and s: "st = with_user_message (given_state master_initial state h) message"
    and r: "ainvoke_llm env Master w (SystemMessage (master_prompt env st) # messages st)
          = Inr (answer, [tc])"
    by blast+
  show "fst (master_chat env message state h m w)
          = Inr (response, length h + (if state = None then 1 else 0))"
    by (simp add: master_chat_delegation [OF g v l s r b c])
next
  assume h: "graph_compiled m \<and> valid_address state h \<and> 2 \<le> recursion_limit env
      \<and> st = with_user_message (given_state master_initial state h) message
      \<and> ainvoke_llm env Master w (SystemMessage (master_prompt env st) # messages st)
          = Inr (answer, [tc])
      \<and> name tc = py ''gmail_agent''
      \<and> map_of (args tc) (py ''user_request'') = Some (JStr request)
      \<and> gmail_agent m = Some b
      \<and> gmail_chat env request (current_state b) (gmail_states m) b
           (w @ [Invoke Master (SystemMessage (master_prompt env st) # messages st)])
          = (Inr (gresponse, gupdated_state), gh1, b1, gw1)"
  have k: "py ''gmail_agent'' \<noteq> py ''todo_agent''" by (simp add: py_def)
  from h k have b: "master_tools (name tc) (args tc) = Some (Inr (GmailAgent request))"
    by (simp add: master_tools_def str_arg_def seq_def)
  from h have p: "gmail_agent m = Some b"
    and q: "gmail_chat env request (current_state b) (gmail_states m) b
           (w @ [Invoke Master (SystemMessage (master_prompt env st) # messages st)])
          = (Inr (gresponse, gupdated_state), gh1, b1, gw1)"
    by blast+
  have c: "master_invoke env (GmailAgent request) m
           (w @ [Invoke Master (SystemMessage (master_prompt env st) # messages st)])
         = (Inr gresponse,
            m\<lparr>gmail_agent := Some (b1\<lparr>current_state := Some gupdated_state\<rparr>), gmail_states := gh1\<rparr>, gw1)"
    using gmail_agent_tool_cases(3) [OF p q] by simp
  from h have g: "graph_compiled m" and v: "valid_address state h"
    and l: "2 \<le> recursion_limit env"
    and s: "st = with_user_message (given_state master_initial state h) message"
    and r: "ainvoke_llm env Master w (SystemMessage (master_prompt env st) # messages st)
          = Inr (answer, [tc])"
    by blast+
  show "fst (master_chat env message state h m w)
          = Inr (gresponse, length h + (if state = None then 1 else 0))"
    by (simp add: master_chat_delegation [OF g v l s r b c])
qed

lemma env_delegate_master:
  "ainvoke_llm (env_delegate tool) Master w ms = Inr ([], [request_tc tool])"
  by (simp add: env_delegate_def request_tc_def)

lemma env_delegate_limit: "recursion_limit (env_delegate tool) = 25"
  by (simp add: env_delegate_def env0_def)

lemma todo_chat_delegated:
  "todo_chat (env_delegate tool) (py ''show my tasks'') None [] agent1 w =
     (Inr (py ''You have no tasks.'', 1),
      [with_user_message todo_initial (py ''show my tasks''),
       (with_user_message todo_initial (py ''show my tasks''))
         \<lparr>messages := messages (with_user_message todo_initial (py ''show my tasks''))
                      @ [AIMessage (py ''You have no tasks.'') []]\<rparr>],
      agent1,
      w @ [Invoke Todo (SystemMessage (todo_prompt (env_delegate tool)
                                         (with_user_message todo_initial (py ''show my tasks'')))
                        # messages (with_user_message todo_initial (py ''show my tasks'')))])"
  using todo_no_tool_calls [of agent1 None "[]" "env_delegate tool"
      "with_user_message todo_initial (py ''show my tasks'')" "py ''show my tasks''" w
      "py ''You have no tasks.''"]
  by (simp add: agent1_def valid_address_def env_delegate_def env0_def given_state_def stored_def)

lemma gmail_chat_delegated:
  "gmail_chat (env_delegate tool) (py ''show my tasks'') None [] agent1 w =
     (Inr (py ''You have no tasks.'', 1),
      [with_user_message gmail_initial (py ''show my tasks''),
       (with_user_message gmail_initial (py ''show my tasks''))
         \<lparr>messages := messages (with_user_message gmail_initial (py ''show my tasks''))
                      @ [AIMessage (py ''You have no tasks.'') []]\<rparr>],
      agent1,
      w @ [Invoke Gmail (SystemMessage (gmail_prompt (env_delegate tool)
                                         (with_user_message gmail_initial (py ''show my tasks'')))
                        # messages (with_user_message gmail_initial (py ''show my tasks'')))])"
  using gmail_no_tool_calls [of agent1 None "[]" "env_delegate tool"
      "with_user_message gmail_initial (py ''show my tasks'')" "py ''show my tasks''" w
      "py ''You have no tasks.''"]
  by (simp add: agent1_def valid_address_def env_delegate_def env0_def given_state_def stored_def)

theorem master_relays_the_sub_agent_answer_witness:
  "fst (master_chat (env_delegate (py ''todo_agent'')) (py ''show my tasks'') None [] master0 [])
     = Inr (py ''You have no tasks.'', 1)
   \<and> fst (master_chat (env_delegate (py ''gmail_agent'')) (py ''show my tasks'') None [] master0 [])
     = Inr (py ''You have no tasks.'', 1)"
proof -
  let ?st = "with_user_message (given_state master_initial None []) (py ''show my tasks'')"
  have m: "graph_compiled master0" "todo_agent master0 = Some agent1"
    "gmail_agent master0 = Some agent1" "todo_states master0 = []" "gmail_states master0 = []"
    "current_state agent1 = None"
    by (simp_all add: master0_def agent1_def)
  have v: "valid_address None ([] :: master_state list)" by (simp add: valid_address_def)
  have u: "map_of (args (request_tc tool)) (py ''user_request'') = Some (JStr (py ''show my tasks''))"
    "name (request_tc tool) = tool" for tool
    by (simp_all add: request_tc_def)
  have t: "graph_compiled master0 \<and> valid_address None ([] :: master_state list)
      \<and> 2 \<le> recursion_limit (env_delegate (py ''todo_agent''))
      \<and> ?st = with_user_message (given_state master_initial None []) (py ''show my tasks'')
      \<and> ainvoke_llm (env_delegate (py ''todo_agent'')) Master []
           (SystemMessage (master_prompt (env_delegate (py ''todo_agent'')) ?st) # messages ?st)
          = Inr ([], [request_tc (py ''todo_agent'')])
      \<and> name (request_tc (py ''todo_agent'')) = py ''todo_agent''
      \<and> map_of (args (request_tc (py ''todo_agent''))) (py ''user_request'')
          = Some (JStr (py ''show my tasks''))
      \<and> todo_agent master0 = Some agent1
      \<and> todo_chat (env_delegate (py ''todo_agent'')) (py ''show my tasks'') (current_state agent1)
           (todo_states master0) agent1
           ([] @ [Invoke Master (SystemMessage (master_prompt (env_delegate (py ''todo_agent'')) ?st)
                                 # messages ?st)])
          = (Inr (py ''You have no tasks.'', 1),
      [with_user_message todo_initial (py ''show my tasks''),
       (with_user_message todo_initial (py ''show my tasks''))
         \<lparr>messages := messages (with_user_message todo_initial (py ''show my tasks''))
                      @ [AIMessage (py ''You have no tasks.'') []]\<rparr>],
      agent1,
      ([] @ [Invoke Master (SystemMessage (master_prompt (env_delegate (py ''todo_agent'')) ?st)
                                 # messages ?st)])
        @ [Invoke Todo (SystemMessage (todo_prompt (env_delegate (py ''todo_agent''))
                                         (with_user_message todo_initial (py ''show my tasks'')))
                        # messages (with_user_message todo_initial (py ''show my tasks'')))])"
    by (simp only: m v u env_delegate_master env_delegate_limit todo_chat_delegated) simp
  have g: "graph_compiled master0 \<and> valid_address None ([] :: master_state list)
      \<and> 2 \<le> recursion_limit (env_delegate (py ''gmail_agent''))
      \<and> ?st = with_user_message (given_state master_initial None []) (py ''show my tasks'')
      \<and> ainvoke_llm (env_delegate (py ''gmail_agent'')) Master []
           (SystemMessage (master_prompt (env_delegate (py ''gmail_agent'')) ?st) # messages ?st)
          = Inr ([], [request_tc (py ''gmail_agent'')])
      \<and> name (request_tc (py ''gmail_agent'')) = py ''gmail_agent''
      \<and> map_of (args (request_tc (py ''gmail_agent''))) (py ''user_request'')
          = Some (JStr (py ''show my tasks''))
      \<and> gmail_agent master0 = Some agent1
      \<and> gmail_chat (env_delegate (py ''gmail_agent'')) (py ''show my tasks'') (current_state agent1)
           (gmail_states master0) agent1
           ([] @ [Invoke Master (SystemMessage (master_prompt (env_delegate (py ''gmail_agent'')) ?st)
                                 # messages ?st)])
          = (Inr (py ''You have no tasks.'', 1),
      [with_user_message gmail_initial (py ''show my tasks''),
       (with_user_message gmail_initial (py ''show my tasks''))
         \<lparr>messages := messages (with_user_message gmail_initial (py ''show my tasks''))
                      @ [AIMessage (py ''You have no tasks.'') []]\<rparr>],
      agent1,
      ([] @ [Invoke Master (SystemMessage (master_prompt (env_delegate (py ''gmail_agent'')) ?st)
                                 # messages ?st)])
        @ [Invoke Gmail (SystemMessage (gmail_prompt (env_delegate (py ''gmail_agent''))
                                         (with_user_message gmail_initial (py ''show my tasks'')))
                        # messages (with_user_message gmail_initial (py ''show my tasks'')))])"
    by (simp only: m v u env_delegate_master env_delegate_limit gmail_chat_delegated) simp
  from master_relays_the_sub_agent_answer [THEN conjunct1, rule_format, OF t]
    master_relays_the_sub_agent_answer [THEN conjunct2, rule_format, OF g]
  show ?thesis by simp
qed

section \<open>After the tool node\<close>

lemma todo_agent_step:
  "run_graph (todo_graph env) (Suc n) AgentNode st a w =
     (case ainvoke_llm env Todo w (SystemMessage (todo_prompt env st) # messages st) of
        Inl e \<Rightarrow> (Inl e, a, w @ [Invoke Todo (SystemMessage (todo_prompt env st) # messages st)])
      | Inr (answer, tool_calls) \<Rightarrow>
          run_graph (todo_graph env) n (if tool_calls \<noteq> [] then ToolsNode else END)
            (st\<lparr>messages := messages st @ [AIMessage answer tool_calls]\<rparr>) a
            (w @ [Invoke Todo (SystemMessage (todo_prompt env st) # messages st)]))"
  by (simp add: todo_graph_def todo_call_model_def invoke_model_def Let_def should_continue_def
      split: sum.splits prod.splits)

lemma gmail_agent_step:
  "run_graph (gmail_graph env) (Suc n) AgentNode st a w =
     (case ainvoke_llm env Gmail w (SystemMessage (gmail_prompt env st) # messages st) of
        Inl e \<Rightarrow> (Inl e, a, w @ [Invoke Gmail (SystemMessage (gmail_prompt env st) # messages st)])
      | Inr (answer, tool_calls) \<Rightarrow>
          run_graph (gmail_graph env) n (if tool_calls \<noteq> [] then ToolsNode else END)
            (st\<lparr>messages := messages st @ [AIMessage answer tool_calls]\<rparr>) a
            (w @ [Invoke Gmail (SystemMessage (gmail_prompt env st) # messages st)]))"
  by (simp add: gmail_graph_def gmail_call_model_def invoke_model_def Let_def should_continue_def
      split: sum.splits prod.splits)

lemma run_graph_after_tools:
  "tools g st obj w = (Inr st1, obj1, w1) \<Longrightarrow>
   run_graph g (Suc n) ToolsNode st obj w = run_graph g n (after_tools g) st1 obj1 w1"
  by simp

lemma run_tool_calls_messages:
  "run_tool_calls env bind call tcs obj w = (Inr tms, obj1, w1) \<Longrightarrow>
   list_all2 (\<lambda>tm tc. \<exists>txt. tm = ToolMessage txt (name tc) (call_id tc)) tms tcs"
proof (induction tcs arbitrary: obj w tms)
  case Nil
  then show ?case by simp
next
  case (Cons tc tcs)
  from Cons.prems obtain out obj2 w2 rest
    where "run_tool_calls env bind call tcs obj2 w2 = (Inr rest, obj1, w1)"
      and "tms = ToolMessage out (name tc) (call_id tc) # rest"
    by (auto split: prod.splits sum.splits)
  with Cons.IH show ?case by auto
qed

lemma tool_node_appends:
  assumes "tool_node env bind call st obj w = (Inr st1, obj1, w1)"
  shows "\<exists>answer tool_calls tool_messages.
           last (messages st) = AIMessage answer tool_calls
           \<and> messages st1 = messages st @ tool_messages
           \<and> list_all2 (\<lambda>tm tc. \<exists>txt. tm = ToolMessage txt (name tc) (call_id tc))
                 tool_messages tool_calls"
proof (cases "rev (messages st)")
  case Nil
  with assms show ?thesis by (simp add: tool_node_def)
next
  case (Cons m ms)
  with assms obtain answer tool_calls where m: "m = AIMessage answer tool_calls"
    by (cases m) (simp_all add: tool_node_def)
  from Cons have l: "last (messages st) = m"
    by (metis last_rev list.sel(1) rev_rev_ident)
  from assms Cons m obtain tms
    where r: "run_tool_calls env bind call tool_calls obj w = (Inr tms, obj1, w1)"
      and s: "st1 = st\<lparr>messages := messages st @ tms\<rparr>"
    by (auto simp add: tool_node_def split: prod.splits sum.splits)
  from run_tool_calls_messages [OF r] l m s show ?thesis by auto
qed

text \<open>
  C1, as the code has it. The tool node requires the history to end with a reply of the
  language model and appends one tool message per tool call of that reply, in order. In
  the graphs of the Todo and the Gmail agent the edge after \<open>tools\<close> leads to \<open>agent\<close>:
  when the tool node has returned and the recursion limit allows another node, the
  language model is invoked again, on the system message followed by the extended
  history, before the run goes on (to the tool node if the new reply requests tools, to
  the end otherwise). In the graph of the master agent the edge after \<open>tools\<close> leads to
  \<open>END\<close> (main_agent.py 260): the run ends with the state the tool node returned and
  the language model is not invoked again.
\<close>

theorem sub_agents_return_to_reasoning:
  "(tool_node env bind call any_state obj any_w = (Inr any_state1, obj1, any_w1) \<longrightarrow>
      (\<exists>answer tool_calls tool_messages.
         last (messages any_state) = AIMessage answer tool_calls
         \<and> messages any_state1 = messages any_state @ tool_messages
         \<and> list_all2 (\<lambda>tm tc. \<exists>txt. tm = ToolMessage txt (name tc) (call_id tc))
               tool_messages tool_calls))
   \<and> after_tools (todo_graph env) = AgentNode
   \<and> (tools (todo_graph env) st a w = (Inr st1, a1, w1) \<longrightarrow>
        run_graph (todo_graph env) (Suc (Suc n)) ToolsNode st a w =
          (case ainvoke_llm env Todo w1 (SystemMessage (todo_prompt env st1) # messages st1) of
             Inl e \<Rightarrow> (Inl e, a1, w1 @ [Invoke Todo (SystemMessage (todo_prompt env st1) # messages st1)])
           | Inr (answer, tool_calls) \<Rightarrow>
               run_graph (todo_graph env) n (if tool_calls \<noteq> [] then ToolsNode else END)
                 (st1\<lparr>messages := messages st1 @ [AIMessage answer tool_calls]\<rparr>) a1
                 (w1 @ [Invoke Todo (SystemMessage (todo_prompt env st1) # messages st1)])))
   \<and> after_tools (gmail_graph env) = AgentNode
   \<and> (tools (gmail_graph env) gst b gw = (Inr gst1, b1, gw1) \<longrightarrow>
        run_graph (gmail_graph env) (Suc (Suc n)) ToolsNode gst b gw =
          (case ainvoke_llm env Gmail gw1 (SystemMessage (gmail_prompt env gst1) # messages gst1) of
             Inl e \<Rightarrow> (Inl e, b1, gw1 @ [Invoke Gmail (SystemMessage (gmail_prompt env gst1) # messages gst1)])
           | Inr (answer, tool_calls) \<Rightarrow>
               run_graph (gmail_graph env) n (if tool_calls \<noteq> [] then ToolsNode else END)
                 (gst1\<lparr>messages := messages gst1 @ [AIMessage answer tool_calls]\<rparr>) b1
                 (gw1 @ [Invoke Gmail (SystemMessage (gmail_prompt env gst1) # messages gst1)])))
   \<and> after_tools (master_graph env) = END
   \<and> (tools (master_graph env) mst m mw = (Inr mst1, m1, mw1) \<longrightarrow>
        run_graph (master_graph env) (Suc n) ToolsNode mst m mw = (Inr mst1, m1, mw1))"
proof (intro conjI impI)
  assume "tool_node env bind call any_state obj any_w = (Inr any_state1, obj1, any_w1)"
  then show "\<exists>answer tool_calls tool_messages.
         last (messages any_state) = AIMessage answer tool_calls
         \<and> messages any_state1 = messages any_state @ tool_messages
         \<and> list_all2 (\<lambda>tm tc. \<exists>txt. tm = ToolMessage txt (name tc) (call_id tc))
               tool_messages tool_calls"
    by (rule tool_node_appends)
next
  show t: "after_tools (todo_graph env) = AgentNode" by (simp add: todo_graph_def)
  assume "tools (todo_graph env) st a w = (Inr st1, a1, w1)"
  from run_graph_after_tools [OF this, of "Suc n"]
  show "run_graph (todo_graph env) (Suc (Suc n)) ToolsNode st a w =
          (case ainvoke_llm env Todo w1 (SystemMessage (todo_prompt env st1) # messages st1) of
             Inl e \<Rightarrow> (Inl e, a1, w1 @ [Invoke Todo (SystemMessage (todo_prompt env st1) # messages st1)])
           | Inr (answer, tool_calls) \<Rightarrow>
               run_graph (todo_graph env) n (if tool_calls \<noteq> [] then ToolsNode else END)
                 (st1\<lparr>messages := messages st1 @ [AIMessage answer tool_calls]\<rparr>) a1
                 (w1 @ [Invoke Todo (SystemMessage (todo_prompt env st1) # messages st1)]))"
    by (simp only: t todo_agent_step)
next
  show t: "after_tools (gmail_graph env) = AgentNode" by (simp add: gmail_graph_def)
  assume "tools (gmail_graph env) gst b gw = (Inr gst1, b1, gw1)"
  from run_graph_after_tools [OF this, of "Suc n"]
  show "run_graph (gmail_graph env) (Suc (Suc n)) ToolsNode gst b gw =
          (case ainvoke_llm env Gmail gw1 (SystemMessage (gmail_prompt env gst1) # messages gst1) of
             Inl e \<Rightarrow> (Inl e, b1, gw1 @ [Invoke Gmail (SystemMessage (gmail_prompt env gst1) # messages gst1)])
           | Inr (answer, tool_calls) \<Rightarrow>
               run_graph (gmail_graph env) n (if tool_calls \<noteq> [] then ToolsNode else END)
                 (gst1\<lparr>messages := messages gst1 @ [AIMessage answer tool_calls]\<rparr>) b1
                 (gw1 @ [Invoke Gmail (SystemMessage (gmail_prompt env gst1) # messages gst1)]))"
    by (simp only: t gmail_agent_step)
next
  show t: "after_tools (master_graph env) = END" by (simp add: master_graph_def)
  assume "tools (master_graph env) mst m mw = (Inr mst1, m1, mw1)"
  from run_graph_after_tools [OF this, of n]
  show "run_graph (master_graph env) (Suc n) ToolsNode mst m mw = (Inr mst1, m1, mw1)"
    by (simp only: t run_graph.simps)
qed

lemma listing_replies:
  "call_mcp_tool env_listing aid tool None agent1 w = (JObj [], agent1, w @ [CallTool aid tool []])"
  by (simp add: call_mcp_tool_def call_mcp_tool_body_def env_listing_def env0_def agent1_def
        unwrap_result_def seq_def)

lemma todo_tools_listing:
  "tools (todo_graph env_listing) (requesting todo_initial (listing_tc Todo)) agent1 [] =
     (Inr ((requesting todo_initial (listing_tc Todo))
             \<lparr>messages := messages (requesting todo_initial (listing_tc Todo))
                @ [ToolMessage (py ''No task lists found.'') (py ''list_task_lists'') (py ''call_1'')]\<rparr>),
      agent1, [CallTool Todo (py ''list_task_lists'') []])"
  by (simp add: todo_graph_def tool_node_def requesting_def listing_tc_def run_one_def
        todo_tools_def list_task_lists_def listing_replies on_error_def seq_def)

lemma gmail_tools_listing:
  "tools (gmail_graph env_listing) (requesting gmail_initial (listing_tc Gmail)) agent1 [] =
     (Inr ((requesting gmail_initial (listing_tc Gmail))
             \<lparr>messages := messages (requesting gmail_initial (listing_tc Gmail))
                @ [ToolMessage (py ''No labels found.'') (py ''list_labels'') (py ''call_1'')]\<rparr>),
      agent1, [CallTool Gmail (py ''list_labels'') []])"
proof -
  have k: "py ''list_labels'' \<noteq> py ''list_messages''" "py ''list_labels'' \<noteq> py ''get_message''"
    "py ''list_labels'' \<noteq> py ''search_messages''" "py ''list_labels'' \<noteq> py ''send_message''"
    "py ''list_labels'' \<noteq> py ''reply_to_message''" "py ''list_labels'' \<noteq> py ''mark_message_as_read''"
    "py ''list_labels'' \<noteq> py ''mark_message_as_unread''"
    "py ''list_labels'' \<noteq> py ''add_label_to_message''"
    "py ''list_labels'' \<noteq> py ''remove_label_from_message''"
    by (simp_all add: py_def)
  have b: "gmail_tools (py ''list_labels'') [] = Some (Inr ListLabels)"
    by (simp add: gmail_tools_def k)
  show ?thesis
    by (simp add: gmail_graph_def tool_node_def requesting_def listing_tc_def run_one_def b
          list_labels_def listing_replies on_error_def seq_def)
qed

lemma master_tools_unavailable:
  "tools (master_graph env0) (requesting master_initial (request_tc (py ''todo_agent'')))
     (master0\<lparr>todo_agent := None\<rparr>) [] =
     (Inr ((requesting master_initial (request_tc (py ''todo_agent'')))
             \<lparr>messages := messages (requesting master_initial (request_tc (py ''todo_agent'')))
                @ [ToolMessage (cross_mark @ py '' Todo Agent is not available. Please try again later.'')
                     (py ''todo_agent'') (py ''call_1'')]\<rparr>),
      master0\<lparr>todo_agent := None\<rparr>, [])"
  by (simp add: master_graph_def tool_node_def requesting_def request_tc_def run_one_def
        master_tools_def str_arg_def seq_def todo_agent_tool_cases(1))

theorem sub_agents_return_to_reasoning_witness:
  "run_graph (todo_graph env_listing) (Suc (Suc 0)) ToolsNode
       (requesting todo_initial (listing_tc Todo)) agent1 [] =
     (Inr (todo_initial\<lparr>messages :=
             [HumanMessage (py ''show my lists''), AIMessage [] [listing_tc Todo],
              ToolMessage (py ''No task lists found.'') (py ''list_task_lists'') (py ''call_1''),
              AIMessage (py ''Nothing there.'') []]\<rparr>),
      agent1,
      [CallTool Todo (py ''list_task_lists'') [],
       Invoke Todo [SystemMessage (py ''You are an assistant.''),
                    HumanMessage (py ''show my lists''), AIMessage [] [listing_tc Todo],
                    ToolMessage (py ''No task lists found.'') (py ''list_task_lists'') (py ''call_1'')]])
   \<and> run_graph (gmail_graph env_listing) (Suc (Suc 0)) ToolsNode
       (requesting gmail_initial (listing_tc Gmail)) agent1 [] =
     (Inr (gmail_initial\<lparr>messages :=
             [HumanMessage (py ''show my lists''), AIMessage [] [listing_tc Gmail],
              ToolMessage (py ''No labels found.'') (py ''list_labels'') (py ''call_1''),
              AIMessage (py ''Nothing there.'') []]\<rparr>),
      agent1,
      [CallTool Gmail (py ''list_labels'') [],
       Invoke Gmail [SystemMessage (py ''You are an assistant.''),
                    HumanMessage (py ''show my lists''), AIMessage [] [listing_tc Gmail],
                    ToolMessage (py ''No labels found.'') (py ''list_labels'') (py ''call_1'')]])
   \<and> run_graph (master_graph env0) (Suc 0) ToolsNode
       (requesting master_initial (request_tc (py ''todo_agent''))) (master0\<lparr>todo_agent := None\<rparr>) [] =
     (Inr (master_initial\<lparr>messages :=
             [HumanMessage (py ''show my lists''), AIMessage [] [request_tc (py ''todo_agent'')],
              ToolMessage (cross_mark @ py '' Todo Agent is not available. Please try again later.'')
                (py ''todo_agent'') (py ''call_1'')]\<rparr>),
      master0\<lparr>todo_agent := None\<rparr>, [])"
proof -
  note t = sub_agents_return_to_reasoning
    [THEN conjunct2, THEN conjunct2, THEN conjunct1, rule_format, OF todo_tools_listing, of 0]
  note g = sub_agents_return_to_reasoning
    [THEN conjunct2, THEN conjunct2, THEN conjunct2, THEN conjunct2, THEN conjunct1, rule_format, OF gmail_tools_listing, of 0]
  note m = sub_agents_return_to_reasoning
    [THEN conjunct2, THEN conjunct2, THEN conjunct2, THEN conjunct2, THEN conjunct2, THEN conjunct2, rule_format, OF master_tools_unavailable, of 0]
  have 1: "run_graph (todo_graph env_listing) (Suc (Suc 0)) ToolsNode
       (requesting todo_initial (listing_tc Todo)) agent1 [] =
     (Inr (todo_initial\<lparr>messages :=
             [HumanMessage (py ''show my lists''), AIMessage [] [listing_tc Todo],
              ToolMessage (py ''No task lists found.'') (py ''list_task_lists'') (py ''call_1''),
              AIMessage (py ''Nothing there.'') []]\<rparr>),
      agent1,
      [CallTool Todo (py ''list_task_lists'') [],
       Invoke Todo [SystemMessage (py ''You are an assistant.''),
                    HumanMessage (py ''show my lists''), AIMessage [] [listing_tc Todo],
                    ToolMessage (py ''No task lists found.'') (py ''list_task_lists'') (py ''call_1'')]])"
    unfolding t
    by (simp add: env_listing_def env0_def requesting_def todo_prompt_def todo_initial_def)
  have 2: "run_graph (gmail_graph env_listing) (Suc (Suc 0)) ToolsNode
       (requesting gmail_initial (listing_tc Gmail)) agent1 [] =
     (Inr (gmail_initial\<lparr>messages :=
             [HumanMessage (py ''show my lists''), AIMessage [] [listing_tc Gmail],
              ToolMessage (py ''No labels found.'') (py ''list_labels'') (py ''call_1''),
              AIMessage (py ''Nothing there.'') []]\<rparr>),
      agent1,
      [CallTool Gmail (py ''list_labels'') [],
       Invoke Gmail [SystemMessage (py ''You are an assistant.''),
                    HumanMessage (py ''show my lists''), AIMessage [] [listing_tc Gmail],
                    ToolMessage (py ''No labels found.'') (py ''list_labels'') (py ''call_1'')]])"
    unfolding g
    by (simp add: env_listing_def env0_def requesting_def gmail_prompt_def gmail_initial_def
          given_def)
  have 3: "run_graph (master_graph env0) (Suc 0) ToolsNode
       (requesting master_initial (request_tc (py ''todo_agent''))) (master0\<lparr>todo_agent := None\<rparr>) [] =
     (Inr (master_initial\<lparr>messages :=
             [HumanMessage (py ''show my lists''), AIMessage [] [request_tc (py ''todo_agent'')],
              ToolMessage (cross_mark @ py '' Todo Agent is not available. Please try again later.'')
                (py ''todo_agent'') (py ''call_1'')]\<rparr>),
      master0\<lparr>todo_agent := None\<rparr>, [])"
    unfolding m by (simp add: requesting_def)
  from 1 2 3 show ?thesis by blast
qed

lemma master_delegates_todo:
  "master_chat (env_delegate (py ''todo_agent'')) (py ''show my tasks'') None [] master0 [] =
     (Inr (py ''You have no tasks.'', 1),
      [with_user_message master_initial (py ''show my tasks''),
       (with_user_message master_initial (py ''show my tasks''))
         \<lparr>messages := messages (with_user_message master_initial (py ''show my tasks''))
              @ [AIMessage [] [request_tc (py ''todo_agent'')],
                 ToolMessage (py ''You have no tasks.'') (py ''todo_agent'') (py ''call_1'')],
           current_context := update_context
              (current_context (with_user_message master_initial (py ''show my tasks'')))
              [request_tc (py ''todo_agent'')]\<rparr>],
      master0\<lparr>todo_agent := Some (agent1\<lparr>current_state := Some 1\<rparr>),
              todo_states :=
                [with_user_message todo_initial (py ''show my tasks''),
                 (with_user_message todo_initial (py ''show my tasks''))
                   \<lparr>messages := messages (with_user_message todo_initial (py ''show my tasks''))
                      @ [AIMessage (py ''You have no tasks.'') []]\<rparr>]\<rparr>,
      [Invoke Master (SystemMessage (master_prompt (env_delegate (py ''todo_agent''))
                                       (with_user_message master_initial (py ''show my tasks'')))
                      # messages (with_user_message master_initial (py ''show my tasks''))),
       Invoke Todo (SystemMessage (todo_prompt (env_delegate (py ''todo_agent''))
                                       (with_user_message todo_initial (py ''show my tasks'')))
                      # messages (with_user_message todo_initial (py ''show my tasks'')))])"
proof -
  let ?env = "env_delegate (py ''todo_agent'')"
  let ?st = "with_user_message master_initial (py ''show my tasks'')"
  let ?w = "[] @ [Invoke Master (SystemMessage (master_prompt ?env ?st) # messages ?st)]"
  have g: "graph_compiled master0" by (simp add: master0_def)
  have v: "valid_address None ([] :: master_state list)" by (simp add: valid_address_def)
  have l: "2 \<le> recursion_limit ?env" by (simp add: env_delegate_limit)
  have s: "?st = with_user_message (given_state master_initial None []) (py ''show my tasks'')"
    by (simp add: given_state_def)
  have r: "ainvoke_llm ?env Master [] (SystemMessage (master_prompt ?env ?st) # messages ?st)
             = Inr ([], [request_tc (py ''todo_agent'')])"
    by (rule env_delegate_master)
  have b: "master_tools (name (request_tc (py ''todo_agent''))) (args (request_tc (py ''todo_agent'')))
             = Some (Inr (TodoAgent (py ''show my tasks'')))"
    by (simp add: master_tools_def request_tc_def str_arg_def seq_def)
  have p: "todo_agent master0 = Some agent1" by (simp add: master0_def)
  have q: "todo_chat ?env (py ''show my tasks'') (current_state agent1) (todo_states master0) agent1 ?w
         = (Inr (py ''You have no tasks.'', 1),
      [with_user_message todo_initial (py ''show my tasks''),
       (with_user_message todo_initial (py ''show my tasks''))
         \<lparr>messages := messages (with_user_message todo_initial (py ''show my tasks''))
                      @ [AIMessage (py ''You have no tasks.'') []]\<rparr>],
      agent1,
      ?w @ [Invoke Todo (SystemMessage (todo_prompt ?env
                                         (with_user_message todo_initial (py ''show my tasks'')))
                        # messages (with_user_message todo_initial (py ''show my tasks'')))])"
    using todo_chat_delegated [of "py ''todo_agent''" ?w]
    by (simp add: agent1_def master0_def)
  have c: "master_invoke ?env (TodoAgent (py ''show my tasks'')) master0 ?w
         = (Inr (py ''You have no tasks.''),
            master0\<lparr>todo_agent := Some (agent1\<lparr>current_state := Some 1\<rparr>),
              todo_states :=
                [with_user_message todo_initial (py ''show my tasks''),
                 (with_user_message todo_initial (py ''show my tasks''))
                   \<lparr>messages := messages (with_user_message todo_initial (py ''show my tasks''))
                      @ [AIMessage (py ''You have no tasks.'') []]\<rparr>]\<rparr>,
            ?w @ [Invoke Todo (SystemMessage (todo_prompt ?env
                                         (with_user_message todo_initial (py ''show my tasks'')))
                        # messages (with_user_message todo_initial (py ''show my tasks'')))])"
    using todo_agent_tool_cases(3) [OF p q] by simp
  from master_chat_delegation [OF g v l s r b c]
  show ?thesis
    by (simp add: stored_def request_tc_def del: update_context.simps)
qed

text \<open>
  C1 does not hold of the master agent. Its language model requests the tool
  \<open>todo_agent\<close>; the tool runs (the Todo agent's model is invoked) and \<open>chat\<close> returns
  the tool's result: the log holds one call of the master's model, none after the tool.
\<close>

theorem master_ends_after_its_tools_counterexample:
  "fst (master_chat (env_delegate (py ''todo_agent'')) (py ''show my tasks'') None [] master0 [])
     = Inr (py ''You have no tasks.'', 1)
   \<and> snd (snd (snd (master_chat (env_delegate (py ''todo_agent'')) (py ''show my tasks'') None []
                      master0 [])))
     = [Invoke Master [SystemMessage (py ''You are an assistant.''),
                       HumanMessage (py ''show my tasks'')],
        Invoke Todo [SystemMessage (py ''You are an assistant.''),
                     HumanMessage (py ''show my tasks'')]]
   \<and> after_tools (master_graph (env_delegate (py ''todo_agent''))) \<noteq> AgentNode"
  by (simp only: master_delegates_todo)
     (simp add: master_graph_def master_prompt_def todo_prompt_def with_user_message_def
        master_initial_def todo_initial_def given_def env_delegate_def env0_def)

section \<open>Leaving the interactive loops\<close>

lemma interactive_loop_stops:
  "fst (interactive_loop env chat_fn inputs state x) = stops env inputs"
  by (induction env chat_fn inputs state x rule: interactive_loop.induct)
     (simp_all add: Let_def split: prod.splits sum.splits)

lemma stops_exited:
  "stops env inputs = Exited \<longleftrightarrow>
     (\<exists>l. Line l \<in> set (takeWhile (\<lambda>i. i \<noteq> Interrupt) inputs)
          \<and> str_lower env (strip l) \<in> set exit_tokens)"
  by (induction env inputs rule: stops.induct) auto

lemma stops_waiting:
  "stops env inputs = Waiting \<longleftrightarrow>
     (Interrupt \<notin> set inputs
      \<and> (\<forall>l. Line l \<in> set inputs \<longrightarrow> str_lower env (strip l) \<notin> set exit_tokens))"
  by (induction env inputs rule: stops.induct) auto

lemma interactive_loop_token:
  "str_lower env (strip l) \<in> set exit_tokens \<Longrightarrow>
     interactive_loop env chat_fn (Line l # inputs) state x = (Exited, state, x)"
  by simp

lemma interactive_loop_no_token:
  "str_lower env (strip l) \<notin> set exit_tokens \<Longrightarrow>
     \<exists>state1 x1. interactive_loop env chat_fn (Line l # inputs) state x =
       interactive_loop env chat_fn inputs state1 x1"
  by (auto simp add: Let_def split: prod.splits sum.splits)

lemma exit_tokens_set:
  "set exit_tokens = {py ''quit'', py ''exit'', py ''bye'', py ''q''}"
  by (simp add: exit_tokens_def)


lemma stops_append:
  "stops env (before @ later) =
     (if stops env before = Waiting then stops env later else stops env before)"
  by (induction env before rule: stops.induct) auto

lemma loop_line:
  "fst (interactive_loop env chat_fn before state x) = Waiting \<Longrightarrow>
     fst (interactive_loop env chat_fn (before @ [Line l]) state x) =
       (if str_lower env (strip l) \<in> {py ''quit'', py ''exit'', py ''bye'', py ''q''} then Exited else Waiting)"
  by (simp add: interactive_loop_stops stops_append exit_tokens_set)

lemma loop_input_error:
  "fst (interactive_loop env chat_fn before state x) = Waiting \<Longrightarrow>
     fst (interactive_loop env chat_fn (before @ [InputError e]) state x) = Waiting"
  by (simp add: interactive_loop_stops stops_append)

lemma loop_interrupt:
  "fst (interactive_loop env chat_fn before state x) = Waiting \<Longrightarrow>
     fst (interactive_loop env chat_fn (before @ Interrupt # later) state x) = Interrupted"
  by (simp add: interactive_loop_stops stops_append)

lemma loop_exited:
  "fst (interactive_loop env chat_fn inputs state x) = Exited \<longleftrightarrow>
     (\<exists>s. Line s \<in> set (takeWhile (\<lambda>i. i \<noteq> Interrupt) inputs)
          \<and> str_lower env (strip s) \<in> {py ''quit'', py ''exit'', py ''bye'', py ''q''})"
  by (simp only: interactive_loop_stops stops_exited exit_tokens_set)

lemma loop_waiting:
  "fst (interactive_loop env chat_fn inputs state x) = Waiting \<longleftrightarrow>
     Interrupt \<notin> set inputs
     \<and> (\<forall>s. Line s \<in> set inputs \<longrightarrow> str_lower env (strip s) \<notin> {py ''quit'', py ''exit'', py ''bye'', py ''q''})"
  by (simp only: interactive_loop_stops stops_waiting exit_tokens_set)

lemma loop_token:
  "str_lower env (strip l) \<in> {py ''quit'', py ''exit'', py ''bye'', py ''q''} \<Longrightarrow>
     interactive_loop env chat_fn (Line l # later) state x = (Exited, state, x)"
  by (simp add: exit_tokens_set)

text \<open>
  C8. In each of the three loops (Todo, Gmail, master): a first line that, stripped and
  lowercased, is one of \<open>quit\<close>, \<open>exit\<close>, \<open>bye\<close>, \<open>q\<close> ends the loop at once, with
  nothing changed and \<open>chat\<close> not called. While the loop is waiting for input, the next
  line ends it exactly when it is such a token; whatever \<open>chat\<close> does with another
  line, returning or raising, the loop waits for input again. A call of \<open>input\<close> that
  raises leaves the loop waiting, and \<open>KeyboardInterrupt\<close> leaves the loop. Over a whole
  session, the loop has ended through a token exactly when a line read before any
  interrupt is a token, and it is still waiting exactly when no input was an interrupt
  and no line a token.
\<close>

theorem exit_tokens_end_the_loops:
  "(str_lower env (strip l) \<in> {py ''quit'', py ''exit'', py ''bye'', py ''q''} \<longrightarrow>
      todo_run_interactive env (Line l # later) x = (Exited, None, x))
   \<and> (fst (todo_run_interactive env before x) = Waiting \<longrightarrow>
      fst (todo_run_interactive env (before @ [Line l]) x) =
        (if str_lower env (strip l) \<in> {py ''quit'', py ''exit'', py ''bye'', py ''q''} then Exited else Waiting))
   \<and> (fst (todo_run_interactive env before x) = Waiting \<longrightarrow>
      fst (todo_run_interactive env (before @ [InputError e]) x) = Waiting)
   \<and> (fst (todo_run_interactive env before x) = Waiting \<longrightarrow>
      fst (todo_run_interactive env (before @ Interrupt # later) x) = Interrupted)
   \<and> (fst (todo_run_interactive env inputs x) = Exited \<longleftrightarrow>
      (\<exists>s. Line s \<in> set (takeWhile (\<lambda>i. i \<noteq> Interrupt) inputs)
           \<and> str_lower env (strip s) \<in> {py ''quit'', py ''exit'', py ''bye'', py ''q''}))
   \<and> (fst (todo_run_interactive env inputs x) = Waiting \<longleftrightarrow>
      Interrupt \<notin> set inputs
      \<and> (\<forall>s. Line s \<in> set inputs \<longrightarrow> str_lower env (strip s) \<notin> {py ''quit'', py ''exit'', py ''bye'', py ''q''}))
   \<and> (str_lower env (strip l) \<in> {py ''quit'', py ''exit'', py ''bye'', py ''q''} \<longrightarrow>
      gmail_run_interactive env (Line l # later) gx = (Exited, None, gx))
   \<and> (fst (gmail_run_interactive env before gx) = Waiting \<longrightarrow>
      fst (gmail_run_interactive env (before @ [Line l]) gx) =
        (if str_lower env (strip l) \<in> {py ''quit'', py ''exit'', py ''bye'', py ''q''} then Exited else Waiting))
   \<and> (fst (gmail_run_interactive env before gx) = Waiting \<longrightarrow>
      fst (gmail_run_interactive env (before @ [InputError e]) gx) = Waiting)
   \<and> (fst (gmail_run_interactive env before gx) = Waiting \<longrightarrow>
      fst (gmail_run_interactive env (before @ Interrupt # later) gx) = Interrupted)
   \<and> (fst (gmail_run_interactive env inputs gx) = Exited \<longleftrightarrow>
      (\<exists>s. Line s \<in> set (takeWhile (\<lambda>i. i \<noteq> Interrupt) inputs)
           \<and> str_lower env (strip s) \<in> {py ''quit'', py ''exit'', py ''bye'', py ''q''}))
   \<and> (fst (gmail_run_interactive env inputs gx) = Waiting \<longleftrightarrow>
      Interrupt \<notin> set inputs
      \<and> (\<forall>s. Line s \<in> set inputs \<longrightarrow> str_lower env (strip s) \<notin> {py ''quit'', py ''exit'', py ''bye'', py ''q''}))
   \<and> (str_lower env (strip l) \<in> {py ''quit'', py ''exit'', py ''bye'', py ''q''} \<longrightarrow>
      master_run_interactive env (Line l # later) mx = (Exited, None, mx))
   \<and> (fst (master_run_interactive env before mx) = Waiting \<longrightarrow>
      fst (master_run_interactive env (before @ [Line l]) mx) =
        (if str_lower env (strip l) \<in> {py ''quit'', py ''exit'', py ''bye'', py ''q''} then Exited else Waiting))
   \<and> (fst (master_run_interactive env before mx) = Waiting \<longrightarrow>
      fst (master_run_interactive env (before @ [InputError e]) mx) = Waiting)
   \<and> (fst (master_run_interactive env before mx) = Waiting \<longrightarrow>
      fst (master_run_interactive env (before @ Interrupt # later) mx) = Interrupted)
   \<and> (fst (master_run_interactive env inputs mx) = Exited \<longleftrightarrow>
      (\<exists>s. Line s \<in> set (takeWhile (\<lambda>i. i \<noteq> Interrupt) inputs)
           \<and> str_lower env (strip s) \<in> {py ''quit'', py ''exit'', py ''bye'', py ''q''}))
   \<and> (fst (master_run_interactive env inputs mx) = Waiting \<longleftrightarrow>
      Interrupt \<notin> set inputs
      \<and> (\<forall>s. Line s \<in> set inputs \<longrightarrow> str_lower env (strip s) \<notin> {py ''quit'', py ''exit'', py ''bye'', py ''q''}))"
  unfolding todo_run_interactive_def gmail_run_interactive_def master_run_interactive_def
  by (intro conjI impI loop_line loop_input_error loop_interrupt loop_exited loop_waiting
        loop_token) assumption+


lemma gmail_loop_env0:
  "gmail_run_interactive env0 [Line (py ''hi''), InputError (LibraryError (py ''EOF''))]
     ([], agent1, []) =
     (Waiting, Some 1,
      [with_user_message gmail_initial (py ''hi''),
       (with_user_message gmail_initial (py ''hi''))
         \<lparr>messages := messages (with_user_message gmail_initial (py ''hi'')) @ [AIMessage (py ''Done.'') []]\<rparr>],
      agent1,
      [Invoke Gmail (SystemMessage (gmail_prompt env0 (with_user_message gmail_initial (py ''hi'')))
                    # messages (with_user_message gmail_initial (py ''hi'')))])"
proof -
  have s: "strip (py ''hi'') = py ''hi''" by (simp add: strip_def isspace_def py_def)
  have n: "str_lower env0 (py ''hi'') \<notin> set exit_tokens" "py ''hi'' \<noteq> []"
    by (simp_all add: exit_tokens_def env0_def ascii_lower_def strip_def isspace_def py_def)
  show ?thesis
    by (simp add: gmail_run_interactive_def Let_def s n gmail_chat_env0)
qed

theorem exit_tokens_end_the_loops_witness:
  "todo_run_interactive env0 [Line (py ''  QUIT ''), Line (py ''hi'')] ([], agent1, []) =
     (Exited, None, [], agent1, [])
   \<and> fst (gmail_run_interactive env0
          [Line (py ''hi''), InputError (LibraryError (py ''EOF'')), Line (py ''Bye'')]
          ([], agent1, [])) = Exited
   \<and> fst (master_run_interactive env0 [Line (py ''quit now'')] ([], master0, [])) = Waiting
   \<and> fst (todo_run_interactive env0 [Line (py '' ''), Interrupt, Line (py ''q'')] ([], agent1, []))
     = Interrupted
   \<and> fst (master_run_interactive env0 [Interrupt, Line (py ''q'')] ([], master0, [])) \<noteq> Exited
   \<and> fst (gmail_run_interactive env0 [Line (py ''exit'')] ([], agent1, [])) \<noteq> Waiting"
proof -
  have h1: "str_lower env0 (strip (py ''  QUIT '')) \<in> {py ''quit'', py ''exit'', py ''bye'', py ''q''}"
    by (simp add: env0_def ascii_lower_def strip_def isspace_def py_def)
  have 1: "todo_run_interactive env0 [Line (py ''  QUIT ''), Line (py ''hi'')] ([], agent1, []) =
     (Exited, None, [], agent1, [])"
    by (rule exit_tokens_end_the_loops [THEN conjunct1, rule_format, OF h1])
  have h2: "fst (gmail_run_interactive env0
               [Line (py ''hi''), InputError (LibraryError (py ''EOF''))] ([], agent1, [])) = Waiting"
    by (simp add: gmail_loop_env0)
  have t2: "str_lower env0 (strip (py ''Bye'')) \<in> {py ''quit'', py ''exit'', py ''bye'', py ''q''}"
    by (simp add: env0_def ascii_lower_def strip_def isspace_def py_def)
  from exit_tokens_end_the_loops [THEN conjunct2, THEN conjunct2, THEN conjunct2, THEN conjunct2, THEN conjunct2, THEN conjunct2, THEN conjunct2, THEN conjunct1, rule_format, OF h2, where l = "py ''Bye''"] t2
  have 2: "fst (gmail_run_interactive env0
          [Line (py ''hi''), InputError (LibraryError (py ''EOF'')), Line (py ''Bye'')]
          ([], agent1, [])) = Exited"
    by simp
  have h3: "fst (master_run_interactive env0 [] ([], master0, [])) = Waiting"
    by (simp add: master_run_interactive_def)
  have t3: "str_lower env0 (strip (py ''quit now'')) \<notin> {py ''quit'', py ''exit'', py ''bye'', py ''q''}"
    by (simp add: env0_def ascii_lower_def strip_def isspace_def py_def)
  from exit_tokens_end_the_loops [THEN conjunct2, THEN conjunct2, THEN conjunct2, THEN conjunct2, THEN conjunct2, THEN conjunct2, THEN conjunct2, THEN conjunct2, THEN conjunct2, THEN conjunct2, THEN conjunct2, THEN conjunct2, THEN conjunct2, THEN conjunct1, rule_format, OF h3, where l = "py ''quit now''"] t3
  have 3: "fst (master_run_interactive env0 [Line (py ''quit now'')] ([], master0, [])) = Waiting"
    by simp
  have s4: "strip (py '' '') = []" by (simp add: strip_def isspace_def py_def)
  have n4: "str_lower env0 [] \<notin> set exit_tokens"
    by (simp add: exit_tokens_def env0_def ascii_lower_def py_def)
  have h4: "fst (todo_run_interactive env0 [Line (py '' '')] ([], agent1, [])) = Waiting"
    by (simp add: todo_run_interactive_def Let_def s4 n4)
  from exit_tokens_end_the_loops [THEN conjunct2, THEN conjunct2, THEN conjunct2, THEN conjunct1, rule_format, OF h4, where later = "[Line (py ''q'')]"]
  have 4: "fst (todo_run_interactive env0 [Line (py '' ''), Interrupt, Line (py ''q'')] ([], agent1, []))
     = Interrupted"
    by simp
  from exit_tokens_end_the_loops [where inputs = "[Interrupt, Line (py ''q'')]"
      and env = env0 and mx = "([], master0, [])", THEN conjunct2, THEN conjunct2, THEN conjunct2, THEN conjunct2, THEN conjunct2, THEN conjunct2, THEN conjunct2, THEN conjunct2, THEN conjunct2, THEN conjunct2, THEN conjunct2, THEN conjunct2, THEN conjunct2, THEN conjunct2, THEN conjunct2, THEN conjunct2, THEN conjunct1]
  have 5: "fst (master_run_interactive env0 [Interrupt, Line (py ''q'')] ([], master0, [])) \<noteq> Exited"
    by simp
  have t6: "str_lower env0 (strip (py ''exit'')) \<in> {py ''quit'', py ''exit'', py ''bye'', py ''q''}"
    by (simp add: env0_def ascii_lower_def strip_def isspace_def py_def)
  from exit_tokens_end_the_loops [where inputs = "[Line (py ''exit'')]"
      and env = env0 and gx = "([], agent1, [])", THEN conjunct2, THEN conjunct2, THEN conjunct2, THEN conjunct2, THEN conjunct2, THEN conjunct2, THEN conjunct2, THEN conjunct2, THEN conjunct2, THEN conjunct2, THEN conjunct2, THEN conjunct1] t6
  have 6: "fst (gmail_run_interactive env0 [Line (py ''exit'')] ([], agent1, [])) \<noteq> Waiting"
    by simp
  from 1 2 3 4 5 6 show ?thesis by blast
qed

end
